theory Spec2Isabelle
  imports Complex_Main "HOL-Library.Word"
begin

section \<open>Combat resolution engine: a shallow embedding of combat.cpp\<close>

text \<open>
  The definitions below follow \<^verbatim>\<open>src/combat.cpp\<close> function by function and keep
  its names. Values of C++ type \<^verbatim>\<open>uint32_t\<close> are \<open>32 word\<close>; array indices are read
  with \<open>unat\<close>. Calls into collaborators that are not part of the file (the game
  world, the configuration, the random generator) are parameters of the model.
\<close>

subsection \<open>Eligibility: \<^verbatim>\<open>Combat::isProtected\<close>\<close>

datatype Skulls_t =
  SKULL_NONE | SKULL_YELLOW | SKULL_GREEN | SKULL_WHITE | SKULL_RED | SKULL_BLACK | SKULL_ORANGE

text \<open>
  The attributes of a player that \<^verbatim>\<open>isProtected\<close> reads: \<^verbatim>\<open>getLevel()\<close>,
  \<^verbatim>\<open>getVocation()->allowsPvp()\<close>, \<^verbatim>\<open>getSkull()\<close> and the player's identity, on
  which \<^verbatim>\<open>getSkullClient\<close> depends.
\<close>

record Player =
  playerId :: nat
  level :: "32 word"
  allowsPvp :: bool
  skull :: Skulls_t

text \<open>
  \<^verbatim>\<open>Combat::isProtected\<close> (lines 319-335). The configured
  \<^verbatim>\<open>PROTECTION_LEVEL\<close> and the accessor \<^verbatim>\<open>Player::getSkullClient\<close> live outside the
  file and are parameters. The three \<^verbatim>\<open>if\<close> statements are kept in the order of the
  source.
\<close>

definition isProtected ::
  "32 word \<Rightarrow> (Player \<Rightarrow> Player \<Rightarrow> Skulls_t) \<Rightarrow> Player \<Rightarrow> Player \<Rightarrow> bool" where
  "isProtected protectionLevel getSkullClient attacker target =
     (if level target < protectionLevel \<or> level attacker < protectionLevel then True
      else if \<not> allowsPvp attacker \<or> \<not> allowsPvp target then True
      else if skull attacker = SKULL_BLACK \<and> getSkullClient attacker target = SKULL_NONE then True
      else False)"

subsection \<open>Direction selection: \<^verbatim>\<open>AreaCombat::getArea\<close>\<close>

datatype Direction =
  DIRECTION_NORTH | DIRECTION_EAST | DIRECTION_SOUTH | DIRECTION_WEST
  | DIRECTION_SOUTHWEST | DIRECTION_SOUTHEAST | DIRECTION_NORTHWEST | DIRECTION_NORTHEAST

text \<open>
  Modelled from the spec: the numeric values of the \<^verbatim>\<open>Direction\<close> enumeration are
  declared in a header that is not part of \<^verbatim>\<open>src/\<close>. The spec sizes the table of a
  DirectionalArea "explicitly (4 or 8)", the four cardinal directions first; the
  values below are the ones \<^verbatim>\<open>setupArea\<close> and \<^verbatim>\<open>setupExtArea\<close> rely on when they
  resize \<^verbatim>\<open>areas\<close> to 4 and to 8 entries.
\<close>

fun dirIndex :: "Direction \<Rightarrow> nat" where
  "dirIndex DIRECTION_NORTH = 0"
| "dirIndex DIRECTION_EAST = 1"
| "dirIndex DIRECTION_SOUTH = 2"
| "dirIndex DIRECTION_WEST = 3"
| "dirIndex DIRECTION_SOUTHWEST = 4"
| "dirIndex DIRECTION_SOUTHEAST = 5"
| "dirIndex DIRECTION_NORTHWEST = 6"
| "dirIndex DIRECTION_NORTHEAST = 7"

text \<open>
  The first half of \<^verbatim>\<open>getArea\<close> (lines 1371-1392): the cardinal choice, then the
  override by a diagonal when \<^verbatim>\<open>hasExtArea\<close> is set. \<open>dx\<close> and \<open>dy\<close> are the signed
  offsets \<^verbatim>\<open>Position::getOffsetX/Y(targetPos, centerPos)\<close>.
\<close>

definition selectDirection :: "bool \<Rightarrow> int \<Rightarrow> int \<Rightarrow> Direction" where
  "selectDirection hasExtArea dx dy =
     (let dir = (if dx < 0 then DIRECTION_WEST
                 else if dx > 0 then DIRECTION_EAST
                 else if dy < 0 then DIRECTION_NORTH
                 else DIRECTION_SOUTH)
      in if hasExtArea then
           (if dx < 0 \<and> dy < 0 then DIRECTION_NORTHWEST
            else if dx > 0 \<and> dy < 0 then DIRECTION_NORTHEAST
            else if dx < 0 \<and> dy > 0 then DIRECTION_SOUTHWEST
            else if dx > 0 \<and> dy > 0 then DIRECTION_SOUTHEAST
            else dir)
         else dir)"

subsection \<open>The shape grid \<^verbatim>\<open>MatrixArea\<close>\<close>

text \<open>
  Modelled from the spec: the class \<^verbatim>\<open>MatrixArea\<close> is declared in a header that is
  not part of \<^verbatim>\<open>src/\<close>. The spec gives it \<^verbatim>\<open>rows\<close> and \<^verbatim>\<open>cols\<close> (unsigned), a
  row-major boolean cell array of length rows * cols, and an origin \<open>(x, y)\<close>; the
  source reads the origin as \<^verbatim>\<open>center.first\<close> (subtracted from \<open>x\<close> in \<^verbatim>\<open>getList\<close>)
  and \<^verbatim>\<open>center.second\<close> (subtracted from \<open>y\<close>), and the cells as the valarray
  \<^verbatim>\<open>arr\<close>. A default-constructed grid (\<^verbatim>\<open>static MatrixArea empty\<close>) has no rows,
  no columns and no cells.
\<close>

record MatrixArea =
  center :: "32 word \<times> 32 word"
  rows :: "32 word"
  cols :: "32 word"
  arr :: "bool list"

definition emptyArea :: MatrixArea where
  "emptyArea = \<lparr>center = (0, 0), rows = 0, cols = 0, arr = []\<rparr>"

text \<open>
  The class invariant: the cell array has rows * cols entries, and that product fits
  the 32-bit index arithmetic of the transforms.
\<close>

definition wellFormed :: "MatrixArea \<Rightarrow> bool" where
  "wellFormed g =
     (length (arr g) = unat (rows g) * unat (cols g) \<and> unat (rows g) * unat (cols g) < 2 ^ 32)"

subsection \<open>The transforms of \<^verbatim>\<open>MatrixArea\<close>\<close>

text \<open>
  The cells are a \<^verbatim>\<open>std::valarray<bool>\<close>. \<^verbatim>\<open>std::slice(start, len, stride)\<close> selects
  the indices \<open>start + k * stride\<close> for \<open>k < len\<close>. Reading a slice of the constant
  array copies the selected cells; assigning to a slice of \<^verbatim>\<open>newArr\<close> writes them
  one by one. An index beyond the array, or a source of another length than the
  slice, is undefined behaviour in the source and \<open>None\<close> here.
\<close>

definition sliceIndices :: "nat \<Rightarrow> nat \<Rightarrow> nat \<Rightarrow> nat list" where
  "sliceIndices start len stride = map (\<lambda>k. start + k * stride) [0..<len]"

definition readSlice :: "bool list \<Rightarrow> nat \<Rightarrow> nat \<Rightarrow> nat \<Rightarrow> bool list option" where
  "readSlice a start len stride =
     (if list_all (\<lambda>i. i < length a) (sliceIndices start len stride)
      then Some (map (\<lambda>i. a ! i) (sliceIndices start len stride)) else None)"

definition assignSlice :: "nat \<Rightarrow> nat \<Rightarrow> nat \<Rightarrow> bool list \<Rightarrow> bool list \<Rightarrow> bool list option" where
  "assignSlice start len stride vals a =
     (if list_all (\<lambda>i. i < length a) (sliceIndices start len stride) \<and> length vals = len
      then Some (fold (\<lambda>k b. b[start + k * stride := vals ! k]) [0..<len] a) else None)"

text \<open>
  A \<^verbatim>\<open>for\<close> loop over the indices \<open>0, ..., n - 1\<close> of type \<^verbatim>\<open>uint32_t\<close>, whose body
  may be undefined.
\<close>

fun forEach :: "'i list \<Rightarrow> ('i \<Rightarrow> 's \<Rightarrow> 's option) \<Rightarrow> 's \<Rightarrow> 's option" where
  "forEach [] body s = Some s"
| "forEach (i # is) body s = (case body i s of None \<Rightarrow> None | Some s' \<Rightarrow> forEach is body s')"

definition indexRange :: "32 word \<Rightarrow> 32 word list" where
  "indexRange n = map word_of_nat [0..<unat n]"

text \<open>
  \<^verbatim>\<open>MatrixArea::flip\<close> (lines 1321-1328): \<^verbatim>\<open>newArr\<close> has \<^verbatim>\<open>arr.size()\<close> cells, all
  false; row \<open>i\<close> of the result is row \<open>rows - i - 1\<close> of the grid. The index
  expressions are computed in \<^verbatim>\<open>uint32_t\<close> as in the source.
\<close>

definition flip :: "MatrixArea \<Rightarrow> MatrixArea option" where
  "flip g =
     (case forEach (indexRange (rows g))
             (\<lambda>i newArr. Option.bind
                (readSlice (arr g) (unat ((rows g - i - 1) * cols g)) (unat (cols g)) 1)
                (\<lambda>v. assignSlice (unat (i * cols g)) (unat (cols g)) 1 v newArr))
             (replicate (length (arr g)) False) of
        None \<Rightarrow> None
      | Some newArr \<Rightarrow>
          Some \<lparr>center = (cols g - fst (center g) - 1, snd (center g)),
                rows = rows g, cols = cols g, arr = newArr\<rparr>)"

text \<open>
  \<^verbatim>\<open>MatrixArea::mirror\<close> (lines 1330-1337); the slices are
  \<^verbatim>\<open>std::slice(i, cols, rows)\<close> and \<^verbatim>\<open>std::slice(cols - i - 1, cols, rows)\<close>, as written
  in the source.
\<close>

definition mirror :: "MatrixArea \<Rightarrow> MatrixArea option" where
  "mirror g =
     (case forEach (indexRange (cols g))
             (\<lambda>i newArr. Option.bind
                (readSlice (arr g) (unat (cols g - i - 1)) (unat (cols g)) (unat (rows g)))
                (\<lambda>v. assignSlice (unat i) (unat (cols g)) (unat (rows g)) v newArr))
             (replicate (length (arr g)) False) of
        None \<Rightarrow> None
      | Some newArr \<Rightarrow>
          Some \<lparr>center = (fst (center g), rows g - snd (center g) - 1),
                rows = rows g, cols = cols g, arr = newArr\<rparr>)"

text \<open>
  \<^verbatim>\<open>MatrixArea::transpose\<close> (lines 1339-1341) reads the generalised slice
  \<^verbatim>\<open>std::gslice(0, {cols, rows}, {1, cols})\<close>, whose last index varies fastest, and
  keeps \<^verbatim>\<open>rows\<close> and \<^verbatim>\<open>cols\<close> in the order of the source.
\<close>

definition gsliceIndices :: "nat \<Rightarrow> nat \<times> nat \<Rightarrow> nat \<times> nat \<Rightarrow> nat list" where
  "gsliceIndices start sizes strides =
     concat (map (\<lambda>j0. map (\<lambda>j1. start + j0 * fst strides + j1 * snd strides)
                           [0..<snd sizes]) [0..<fst sizes])"

definition readGslice :: "bool list \<Rightarrow> nat \<Rightarrow> nat \<times> nat \<Rightarrow> nat \<times> nat \<Rightarrow> bool list option" where
  "readGslice a start sizes strides =
     (if list_all (\<lambda>i. i < length a) (gsliceIndices start sizes strides)
      then Some (map (\<lambda>i. a ! i) (gsliceIndices start sizes strides)) else None)"

definition transpose_area :: "MatrixArea \<Rightarrow> MatrixArea option" where
  "transpose_area g =
     (case readGslice (arr g) 0 (unat (cols g), unat (rows g)) (1, unat (cols g)) of
        None \<Rightarrow> None
      | Some newArr \<Rightarrow>
          Some \<lparr>center = (snd (center g), fst (center g)),
                rows = rows g, cols = cols g, arr = newArr\<rparr>)"

text \<open>\<^verbatim>\<open>MatrixArea::rotate90\<close> (lines 1343-1350).\<close>

definition rotate90 :: "MatrixArea \<Rightarrow> MatrixArea option" where
  "rotate90 g =
     (case forEach (indexRange (rows g))
             (\<lambda>i newArr. Option.bind
                (readSlice (arr g) (unat ((rows g - i - 1) * cols g)) (unat (cols g)) 1)
                (\<lambda>v. assignSlice (unat i) (unat (cols g)) (unat (rows g)) v newArr))
             (replicate (length (arr g)) False) of
        None \<Rightarrow> None
      | Some newArr \<Rightarrow>
          Some \<lparr>center = (rows g - snd (center g) - 1, fst (center g)),
                rows = cols g, cols = rows g, arr = newArr\<rparr>)"

subsection \<open>\<^verbatim>\<open>AreaCombat::getArea\<close> and the projection\<close>

record AreaCombat =
  areas :: "MatrixArea list"
  hasExtArea :: bool

text \<open>
  Modelled from the spec: \<^verbatim>\<open>Position\<close> and its \<^verbatim>\<open>getOffsetX/Y\<close> are declared
  outside \<^verbatim>\<open>src/\<close>. The coordinates are unsigned machine integers, 16 bits for \<open>x\<close>
  and \<open>y\<close> and 8 bits for \<open>z\<close>, the widths of the engine's map coordinates (the
  source builds \<^verbatim>\<open>StaticTile(tmpPos.x, tmpPos.y, tmpPos.z)\<close> from them and steps them
  with \<^verbatim>\<open>++tmpPos.x\<close>). The offsets are the
  signed differences of the promoted coordinates of target and caster
  (\<^verbatim>\<open>int32_t dx = Position::getOffsetX(targetPos, centerPos)\<close>).
\<close>

record Position =
  px :: "16 word"
  py :: "16 word"
  pz :: "8 word"

definition getOffsetX :: "Position \<Rightarrow> Position \<Rightarrow> int" where
  "getOffsetX p1 p2 = uint (px p1) - uint (px p2)"

definition getOffsetY :: "Position \<Rightarrow> Position \<Rightarrow> int" where
  "getOffsetY p1 p2 = uint (py p1) - uint (py p2)"

text \<open>
  \<^verbatim>\<open>AreaCombat::getArea\<close> (lines 1367-1400). A direction whose index is not below
  \<^verbatim>\<open>areas.size()\<close> yields the function's static empty grid.
\<close>

definition getArea :: "AreaCombat \<Rightarrow> Position \<Rightarrow> Position \<Rightarrow> MatrixArea" where
  "getArea ac centerPos targetPos =
     (let dx = getOffsetX targetPos centerPos;
          dy = getOffsetY targetPos centerPos;
          dir = selectDirection (hasExtArea ac) dx dy
      in if dirIndex dir \<ge> length (areas ac) then emptyArea
         else areas ac ! dirIndex dir)"

text \<open>
  The collaborators of the projection that live outside the file: the layer limit
  \<^verbatim>\<open>MAP_MAX_LAYERS\<close>, \<^verbatim>\<open>getNextPosition\<close>, \<^verbatim>\<open>getDirectionTo\<close> and the
  line-of-sight query of the map.
\<close>

record Geometry =
  mapMaxLayers :: int
  getNextPosition :: "Direction \<Rightarrow> Position \<Rightarrow> Position"
  getDirectionTo :: "Position \<Rightarrow> Position \<Rightarrow> Direction"
  isSightClear :: "Position \<Rightarrow> Position \<Rightarrow> bool"

text \<open>
  \<^verbatim>\<open>area(row, col)\<close> reads the cell \<^verbatim>\<open>arr[row * cols + col]\<close>, the index computed in
  \<^verbatim>\<open>uint32_t\<close>; an index beyond the array is undefined behaviour in the source and
  \<open>None\<close> here.
\<close>

definition cellAt :: "MatrixArea \<Rightarrow> 32 word \<Rightarrow> 32 word \<Rightarrow> bool option" where
  "cellAt area row col =
     (let i = unat (row * cols area + col)
      in if i < length (arr area) then Some (arr area ! i) else None)"

text \<open>
  \<^verbatim>\<open>getList\<close> (lines 53-78), loop by loop. \<^verbatim>\<open>tmpPos\<close> starts at
  \<^verbatim>\<open>(targetPos.x - center.first, targetPos.y - center.second, targetPos.z)\<close>: the
  differences are taken in \<^verbatim>\<open>uint32_t\<close> (the origin is a pair of \<^verbatim>\<open>uint32_t\<close>) and then
  cut to the 16 bits of a coordinate, so west and north of the map's edge they wrap.
  The inner loop steps \<^verbatim>\<open>tmpPos.x\<close> after every column; after a row the source
  executes \<^verbatim>\<open>tmpPos.x -= area.getCols()\<close> and then \<^verbatim>\<open>++tmpPos.y\<close>. The line of
  sight is asked only for an active cell. The tile of a projected cell is identified
  by its position (the source fetches the tile there, or creates it).
\<close>

definition getListCol ::
  "Geometry \<Rightarrow> MatrixArea \<Rightarrow> Position \<Rightarrow> 32 word \<Rightarrow> 32 word \<Rightarrow> Position \<times> Position list
     \<Rightarrow> (Position \<times> Position list) option" where
  "getListCol geo area casterPos row col st =
     (case st of (tmpPos, vec) \<Rightarrow>
        (case cellAt area row col of
           None \<Rightarrow> None
         | Some active \<Rightarrow>
             Some (tmpPos\<lparr>px := px tmpPos + 1\<rparr>,
                   if active \<and> isSightClear geo casterPos tmpPos then vec @ [tmpPos] else vec)))"

definition getListRow ::
  "Geometry \<Rightarrow> MatrixArea \<Rightarrow> Position \<Rightarrow> 32 word \<Rightarrow> Position \<times> Position list
     \<Rightarrow> (Position \<times> Position list) option" where
  "getListRow geo area casterPos row st =
     (case forEach (indexRange (cols area)) (getListCol geo area casterPos row) st of
        None \<Rightarrow> None
      | Some (tmpPos, vec) \<Rightarrow>
          Some (tmpPos\<lparr>px := ucast ((ucast (px tmpPos) :: 32 word) - cols area),
                       py := py tmpPos + 1\<rparr>, vec))"

definition getList ::
  "Geometry \<Rightarrow> MatrixArea \<Rightarrow> Position \<Rightarrow> Direction \<Rightarrow> Position list option" where
  "getList geo area targetPos dir =
     (let casterPos = getNextPosition geo dir targetPos;
          tmpPos = \<lparr>px = ucast ((ucast (px targetPos) :: 32 word) - fst (center area)),
                    py = ucast ((ucast (py targetPos) :: 32 word) - snd (center area)),
                    pz = pz targetPos\<rparr>
      in map_option snd
           (forEach (indexRange (rows area)) (getListRow geo area casterPos) (tmpPos, [])))"

text \<open>
  \<^verbatim>\<open>getCombatArea\<close> (lines 80-96); \<open>None\<close> as the last argument is the null area
  pointer, \<open>None\<close> as the result the undefined behaviour of \<^verbatim>\<open>getList\<close>.
\<close>

definition getCombatArea ::
  "Geometry \<Rightarrow> Position \<Rightarrow> Position \<Rightarrow> AreaCombat option \<Rightarrow> Position list option" where
  "getCombatArea geo centerPos targetPos area =
     (if uint (pz targetPos) \<ge> mapMaxLayers geo then Some []
      else case area of
        Some ac \<Rightarrow> getList geo (getArea ac centerPos targetPos) targetPos
                     (getDirectionTo geo targetPos centerPos)
      | None \<Rightarrow> Some [targetPos])"

subsection \<open>Double precision arithmetic\<close>

text \<open>
  The source computes its percentages in C++ \<^verbatim>\<open>double\<close>. A double is modelled by the
  real number it stands for, and every operation by the exact operation followed by
  \<open>toDouble\<close>, the rounding to the nearest binary64 number with ties to the even
  significand: with \<open>e = binade x\<close> the exponent of \<open>x\<close> (\<open>2 ^ e \<le> |x| < 2 ^ (e + 1)\<close>), the
  result is the multiple of \<open>2 ^ (e - 52)\<close> nearest to \<open>x\<close>. Exponent range and subnormal
  numbers are left out: all operands here come from 16-bit and 32-bit integers and the
  constants 100, 230, 10 and 5. \<open>roundAway\<close> is \<^verbatim>\<open>std::round\<close> (halves away from zero).
\<close>

definition roundAway :: "real \<Rightarrow> int" where
  "roundAway x = (if 0 \<le> x then \<lfloor>x + 1 / 2\<rfloor> else - \<lfloor>- x + 1 / 2\<rfloor>)"

definition roundEven :: "real \<Rightarrow> int" where
  "roundEven x =
     (let f = \<lfloor>x\<rfloor>; d = x - of_int f
      in if d < 1 / 2 then f else if 1 / 2 < d then f + 1 else if even f then f else f + 1)"

fun bitLength :: "nat \<Rightarrow> nat" where
  "bitLength n = (if n = 0 then 0 else Suc (bitLength (n div 2)))"

declare bitLength.simps [simp del]

definition pow2 :: "int \<Rightarrow> real" where
  "pow2 e = (if 0 \<le> e then 2 ^ nat e else 1 / 2 ^ nat (- e))"

definition binade :: "real \<Rightarrow> int" where
  "binade x =
     (let a = \<bar>x\<bar>;
          e = (if 1 \<le> a then int (bitLength (nat \<lfloor>a\<rfloor>)) - 1
               else - int (bitLength (nat \<lfloor>1 / a\<rfloor>)))
      in if pow2 (e + 1) \<le> a then e + 1 else e)"

definition toDouble :: "real \<Rightarrow> real" where
  "toDouble x =
     (if x = 0 then 0
      else let u = pow2 (binade x - 52) in of_int (roundEven (x / u)) * u)"

text \<open>
  A value stored in an \<^verbatim>\<open>int32_t\<close>: a conversion or a sum that leaves the range is
  undefined behaviour in C++ and \<open>None\<close> here.
\<close>

definition toInt32 :: "int \<Rightarrow> int option" where
  "toInt32 i = (if - (2 ^ 31) \<le> i \<and> i < 2 ^ 31 then Some i else None)"

text \<open>
  \<^verbatim>\<open>round(value * (stat / d))\<close> as the source computes it: the integers are converted
  to double, the quotient and the product are rounded to double, the result is rounded
  to an integer.
\<close>

definition roundScaled :: "int \<Rightarrow> int \<Rightarrow> real \<Rightarrow> int" where
  "roundScaled v stat d =
     roundAway (toDouble (toDouble (of_int v) * toDouble (toDouble (of_int stat) / d)))"

text \<open>
  \<^verbatim>\<open>value += static_cast<int32_t>(round(...))\<close>, \<^verbatim>\<open>std::abs(primary + secondary)\<close> and
  \<^verbatim>\<open>value /= 2\<close> (C++ division truncates towards zero).
\<close>

definition addRounded :: "int \<Rightarrow> int \<Rightarrow> int option" where
  "addRounded v r = Option.bind (toInt32 r) (\<lambda>r'. toInt32 (v + r'))"

definition absSum :: "int \<Rightarrow> int \<Rightarrow> int option" where
  "absSum p s = Option.bind (toInt32 (p + s)) (\<lambda>t. toInt32 \<bar>t\<bar>)"

definition truncDiv2 :: "int \<Rightarrow> int" where
  "truncDiv2 v = (if v < 0 then - ((- v) div 2) else v div 2)"

subsection \<open>Combat data\<close>

text \<open>
  Modelled from the spec: the enumerations and the structures \<^verbatim>\<open>CombatDamage\<close> and
  \<^verbatim>\<open>CombatParams\<close> are declared in headers that are not part of \<^verbatim>\<open>src/\<close>. The spec
  lists the damage kinds, the block kinds, the origin kinds, the two components of a
  damage with its flags, and the fields of the parameters; the constructors below are
  the ones \<^verbatim>\<open>combat.cpp\<close> names. \<^verbatim>\<open>damage.primary.value\<close> is \<open>primaryValue\<close>, and so on.
  A default-constructed \<^verbatim>\<open>CombatDamage\<close> (the source's \<^verbatim>\<open>leechCombat\<close>) has no type, no
  value, no origin and no flag set.
\<close>

datatype CombatType_t =
  COMBAT_NONE | COMBAT_PHYSICALDAMAGE | COMBAT_ENERGYDAMAGE | COMBAT_EARTHDAMAGE
  | COMBAT_FIREDAMAGE | COMBAT_UNDEFINEDDAMAGE | COMBAT_LIFEDRAIN | COMBAT_MANADRAIN
  | COMBAT_HEALING | COMBAT_DROWNDAMAGE | COMBAT_ICEDAMAGE | COMBAT_HOLYDAMAGE
  | COMBAT_DEATHDAMAGE | COMBAT_ARCANEDAMAGE | COMBAT_WATERDAMAGE

datatype BlockType_t = BLOCK_NONE | BLOCK_DEFENSE | BLOCK_ARMOR | BLOCK_IMMUNITY

datatype CombatOrigin = ORIGIN_NONE | ORIGIN_CONDITION | ORIGIN_SPELL | ORIGIN_MELEE | ORIGIN_RANGED

datatype ConditionType_t =
  CONDITION_NONE | CONDITION_POISON | CONDITION_FIRE | CONDITION_ENERGY | CONDITION_BLEEDING
  | CONDITION_PARALYZE | CONDITION_DROWN | CONDITION_FREEZING | CONDITION_DAZZLED
  | CONDITION_CURSED | CONDITION_BEWITCHED | CONDITION_SPLASHED | CONDITION_OTHER nat

datatype MagicEffect =
  CONST_ME_NONE | CONST_ME_MAGIC_RED | CONST_ME_MAGIC_BLUE | CONST_ME_CRITICAL_DAMAGE
  | CONST_ME_OTHER nat

datatype ShootType = CONST_ANI_NONE | CONST_ANI_WEAPONTYPE | CONST_ANI_OTHER nat

datatype CharStat = CHARSTAT_STRENGTH | CHARSTAT_INTELLIGENCE

datatype SpecialSkill =
  SPECIALSKILL_CRITICALHITCHANCE | SPECIALSKILL_CRITICALHITAMOUNT
  | SPECIALSKILL_LIFELEECHCHANCE | SPECIALSKILL_LIFELEECHAMOUNT
  | SPECIALSKILL_MANALEECHCHANCE | SPECIALSKILL_MANALEECHAMOUNT

record CombatDamage =
  primaryType :: CombatType_t
  primaryValue :: int
  secondaryType :: CombatType_t
  secondaryValue :: int
  origin :: CombatOrigin
  blockType :: BlockType_t
  critical :: bool
  leeched :: bool

definition defaultDamage :: CombatDamage where
  "defaultDamage =
     \<lparr>primaryType = COMBAT_NONE, primaryValue = 0, secondaryType = COMBAT_NONE,
      secondaryValue = 0, origin = ORIGIN_NONE, blockType = BLOCK_NONE,
      critical = False, leeched = False\<rparr>"

text \<open>
  Creatures and tiles are pointers in the source and handles here; pointer equality is
  equality of handles. A condition is known by its type and its identity.
  \<open>hasTargetCallback\<close> says that \<^verbatim>\<open>params.targetCallback\<close> is set.
\<close>

type_synonym Creature = nat

type_synonym Tile = nat

record Condition =
  conditionType :: ConditionType_t
  conditionId :: nat

record CombatParams =
  conditionList :: "Condition list"
  hasTargetCallback :: bool
  itemId :: nat
  dispelType :: ConditionType_t
  combatType :: CombatType_t
  paramsOrigin :: CombatOrigin
  impactEffect :: MagicEffect
  distanceEffect :: ShootType
  blockedByArmor :: bool
  blockedByShield :: bool
  targetCasterOrTopMost :: bool
  aggressive :: bool
  ignoreResistances :: bool

subsection \<open>The world outside the file\<close>

text \<open>
  Every call that leaves \<^verbatim>\<open>combat.cpp\<close> is recorded as a \<open>Call\<close> with its arguments,
  in the order in which the source makes it. The functions of the file that no claim
  looks into (\<^verbatim>\<open>canDoCombat\<close> on a tile and on a creature, \<^verbatim>\<open>combatTileEffects\<close>,
  \<^verbatim>\<open>addDistanceEffect\<close>, \<^verbatim>\<open>getCombatDamage\<close>) are calls of the same kind: what they
  answer and what they do to the world is a parameter.
\<close>

datatype Destination = ToCreature Creature | ToPosition Position

datatype Call =
    CombatBlockHit CombatDamage "Creature option" Creature bool bool bool bool
  | CombatChangeHealth "Creature option" Creature CombatDamage
  | CombatChangeMana "Creature option" Creature CombatDamage
  | NormalRandom
  | UniformRandom
  | AddDistanceEffect Creature Destination ShootType
  | AddMagicEffect Creature MagicEffect
  | SendMagicEffect Creature MagicEffect
  | AddCombatCondition Creature Condition "Creature option"
  | RemoveCondition Creature ConditionType_t
  | RemoveCombatCondition Creature ConditionType_t
  | OnTargetCombat "Creature option" Creature
  | GetSpectators
  | GetCombatDamage "Creature option" "Creature option"
  | CombatTileEffects "Creature option" Tile
  | CanDoCombatTile "Creature option" Tile bool
  | CanDoCombatCreature "Creature option" Creature

text \<open>
  The collaborators, as functions of an abstract world \<open>'w\<close>: the accessors read it,
  the routines of \<^verbatim>\<open>g_game\<close> and the random generator answer and change it.
  \<^verbatim>\<open>combatBlockHit\<close>, \<^verbatim>\<open>combatChangeHealth\<close> and \<^verbatim>\<open>combatChangeMana\<close> take the damage
  by reference, so they return it with their answer. \<open>normal_random\<close> and
  \<open>uniform_random\<close> are the calls \<^verbatim>\<open>normal_random(1, 100)\<close> and \<^verbatim>\<open>uniform_random(1, 100)\<close>.
  \<open>isPlayer c\<close> says that \<^verbatim>\<open>c->getPlayer()\<close> is not null. \<open>canDoCombatTile\<close> and
  \<open>canDoCombatCreature\<close> answer whether \<^verbatim>\<open>canDoCombat\<close> returned
  \<^verbatim>\<open>RETURNVALUE_NOERROR\<close>. \<open>perform\<close> is the effect of a call that returns nothing.
  A character stat is an integer (the source binds it with \<^verbatim>\<open>auto\<close>), a special skill
  a \<^verbatim>\<open>uint16_t\<close>.
\<close>

record 'w World =
  isPlayer :: "Creature \<Rightarrow> bool"
  getCharacterStat :: "'w \<Rightarrow> Creature \<Rightarrow> CharStat \<Rightarrow> int"
  getSpecialSkill :: "'w \<Rightarrow> Creature \<Rightarrow> SpecialSkill \<Rightarrow> 16 word"
  getSkull :: "'w \<Rightarrow> Creature \<Rightarrow> Skulls_t"
  getHealth :: "'w \<Rightarrow> Creature \<Rightarrow> int"
  getMaxHealth :: "'w \<Rightarrow> Creature \<Rightarrow> int"
  getMana :: "'w \<Rightarrow> Creature \<Rightarrow> int"
  getMaxMana :: "'w \<Rightarrow> Creature \<Rightarrow> int"
  isImmune :: "'w \<Rightarrow> Creature \<Rightarrow> ConditionType_t \<Rightarrow> bool"
  getCreatures :: "'w \<Rightarrow> Tile \<Rightarrow> Creature list option"
  getTopCreature :: "'w \<Rightarrow> Tile \<Rightarrow> Creature option"
  getTile :: "'w \<Rightarrow> Creature \<Rightarrow> Tile"
  normal_random :: "'w \<Rightarrow> int \<times> 'w"
  uniform_random :: "'w \<Rightarrow> int \<times> 'w"
  combatBlockHit ::
    "CombatDamage \<Rightarrow> Creature option \<Rightarrow> Creature \<Rightarrow> bool \<Rightarrow> bool \<Rightarrow> bool \<Rightarrow> bool
       \<Rightarrow> 'w \<Rightarrow> (bool \<times> CombatDamage) \<times> 'w"
  combatChangeHealth :: "Creature option \<Rightarrow> Creature \<Rightarrow> CombatDamage \<Rightarrow> 'w \<Rightarrow> (bool \<times> CombatDamage) \<times> 'w"
  combatChangeMana :: "Creature option \<Rightarrow> Creature \<Rightarrow> CombatDamage \<Rightarrow> 'w \<Rightarrow> (bool \<times> CombatDamage) \<times> 'w"
  canDoCombatTile :: "Creature option \<Rightarrow> Tile \<Rightarrow> bool \<Rightarrow> 'w \<Rightarrow> bool \<times> 'w"
  canDoCombatCreature :: "Creature option \<Rightarrow> Creature \<Rightarrow> 'w \<Rightarrow> bool \<times> 'w"
  getCombatDamage :: "Creature option \<Rightarrow> Creature option \<Rightarrow> 'w \<Rightarrow> CombatDamage \<times> 'w"
  perform :: "Call \<Rightarrow> 'w \<Rightarrow> 'w"

subsection \<open>Sequencing: world, trace and undefined behaviour\<close>

text \<open>
  A step of the model takes the world and the trace of the calls made so far, and
  returns its result with the new world and the longer trace, or \<open>None\<close> where the
  source's behaviour is undefined.
\<close>

type_synonym 'w state = "'w \<times> Call list"

type_synonym ('w, 'a) M = "'w state \<Rightarrow> ('a \<times> 'w state) option"

definition returnM :: "'a \<Rightarrow> ('w, 'a) M" where
  "returnM x = (\<lambda>s. Some (x, s))"

definition bindM :: "('w, 'a) M \<Rightarrow> ('a \<Rightarrow> ('w, 'b) M) \<Rightarrow> ('w, 'b) M" where
  "bindM m f = (\<lambda>s. case m s of None \<Rightarrow> None | Some (x, s') \<Rightarrow> f x s')"

definition defined :: "'a option \<Rightarrow> ('w, 'a) M" where
  "defined v = (\<lambda>s. case v of None \<Rightarrow> None | Some x \<Rightarrow> Some (x, s))"

definition readWorld :: "('w \<Rightarrow> 'a) \<Rightarrow> ('w, 'a) M" where
  "readWorld f = (\<lambda>s. Some (f (fst s), s))"

definition callWorld :: "Call \<Rightarrow> ('w \<Rightarrow> 'a \<times> 'w) \<Rightarrow> ('w, 'a) M" where
  "callWorld c f = (\<lambda>s. Some (fst (f (fst s)), (snd (f (fst s)), snd s @ [c])))"

definition effect :: "'w World \<Rightarrow> Call \<Rightarrow> ('w, unit) M" where
  "effect env c = callWorld c (\<lambda>w. ((), perform env c w))"

definition whenM :: "bool \<Rightarrow> ('w, unit) M \<Rightarrow> ('w, unit) M" where
  "whenM b m = (if b then m else returnM ())"

fun forM :: "'a list \<Rightarrow> ('a \<Rightarrow> ('w, unit) M) \<Rightarrow> ('w, unit) M" where
  "forM [] body = returnM ()"
| "forM (x # xs) body = bindM (body x) (\<lambda>_. forM xs body)"

subsection \<open>The steps of \<^verbatim>\<open>Combat::doTargetCombat\<close>\<close>

text \<open>\<^verbatim>\<open>Player* casterPlayer = caster ? caster->getPlayer() : nullptr\<close> (line 842).\<close>

definition casterPlayerOf :: "'w World \<Rightarrow> Creature option \<Rightarrow> Creature option" where
  "casterPlayerOf env caster =
     (case caster of None \<Rightarrow> None | Some c \<Rightarrow> if isPlayer env c then Some c else None)"

text \<open>
  The scaling of one component (lines 847-858 and 860-871, with \<open>d = 100\<close>; lines
  1027-1038 and 1039-1050, with \<open>d = 230\<close>): physical damage reads the strength, every
  other type the intelligence, and a stat of 0 leaves the value alone. \<open>statScaling\<close>
  is the block \<^verbatim>\<open>if (casterPlayer) { ... }\<close> around the two components.
\<close>

definition scaleComponent ::
  "'w World \<Rightarrow> Creature \<Rightarrow> real \<Rightarrow> CombatType_t \<Rightarrow> int \<Rightarrow> ('w, int) M" where
  "scaleComponent env casterPlayer d ty v =
     (if ty = COMBAT_PHYSICALDAMAGE then
        bindM (readWorld (\<lambda>w. getCharacterStat env w casterPlayer CHARSTAT_STRENGTH)) (\<lambda>strength.
          if strength \<noteq> 0 then defined (addRounded v (roundScaled v strength d)) else returnM v)
      else
        bindM (readWorld (\<lambda>w. getCharacterStat env w casterPlayer CHARSTAT_INTELLIGENCE)) (\<lambda>intelligence.
          if intelligence \<noteq> 0 then defined (addRounded v (roundScaled v intelligence d))
          else returnM v))"

definition statScaling ::
  "'w World \<Rightarrow> Creature option \<Rightarrow> real \<Rightarrow> CombatDamage \<Rightarrow> ('w, CombatDamage) M" where
  "statScaling env casterPlayer d damage =
     (case casterPlayer of
        None \<Rightarrow> returnM damage
      | Some p \<Rightarrow>
          bindM (scaleComponent env p d (primaryType damage) (primaryValue damage)) (\<lambda>pv.
          bindM (scaleComponent env p d (secondaryType damage) (secondaryValue damage)) (\<lambda>sv.
          returnM (damage\<lparr>primaryValue := pv, secondaryValue := sv\<rparr>))))"

text \<open>
  \<^verbatim>\<open>chance > 0 && skill > 0 && random(1, 100) <= chance\<close>: the generator is called only
  when both stats are positive.
\<close>

definition rollAgainst ::
  "Call \<Rightarrow> ('w \<Rightarrow> int \<times> 'w) \<Rightarrow> 16 word \<Rightarrow> 16 word \<Rightarrow> ('w, bool) M" where
  "rollAgainst c random chance skill =
     (if chance > 0 \<and> skill > 0
      then bindM (callWorld c random) (\<lambda>roll. returnM (roll \<le> uint chance))
      else returnM False)"

text \<open>
  The critical hit of the single-target path (lines 884-892), which draws from
  \<^verbatim>\<open>normal_random\<close>, and the halving of player-versus-player damage before it (lines
  878-882).
\<close>

definition targetCritical ::
  "'w World \<Rightarrow> Creature \<Rightarrow> CombatDamage \<Rightarrow> ('w, CombatDamage) M" where
  "targetCritical env casterPlayer damage =
     (if \<not> critical damage \<and> primaryType damage \<noteq> COMBAT_HEALING
         \<and> origin damage \<noteq> ORIGIN_CONDITION then
        bindM (readWorld (\<lambda>w. getSpecialSkill env w casterPlayer SPECIALSKILL_CRITICALHITCHANCE)) (\<lambda>chance.
        bindM (readWorld (\<lambda>w. getSpecialSkill env w casterPlayer SPECIALSKILL_CRITICALHITAMOUNT)) (\<lambda>skill.
        bindM (rollAgainst NormalRandom (normal_random env) chance skill) (\<lambda>lands.
          if lands then
            bindM (defined (toInt32 (primaryValue damage
                      + roundScaled (primaryValue damage) (uint skill) 100))) (\<lambda>pv.
            bindM (defined (toInt32 (secondaryValue damage
                      + roundScaled (secondaryValue damage) (uint skill) 100))) (\<lambda>sv.
            returnM (damage\<lparr>primaryValue := pv, secondaryValue := sv, critical := True\<rparr>)))
          else returnM damage)))
      else returnM damage)"

definition targetPlayerReduction ::
  "'w World \<Rightarrow> Creature \<Rightarrow> Creature \<Rightarrow> CombatDamage \<Rightarrow> ('w, CombatDamage) M" where
  "targetPlayerReduction env casterPlayer target damage =
     (if isPlayer env target \<and> casterPlayer \<noteq> target then
        bindM (readWorld (\<lambda>w. getSkull env w target)) (\<lambda>sk.
          if sk \<noteq> SKULL_BLACK \<and> primaryType damage \<noteq> COMBAT_HEALING
          then returnM (damage\<lparr>primaryValue := truncDiv2 (primaryValue damage),
                                 secondaryValue := truncDiv2 (secondaryValue damage)\<rparr>)
          else returnM damage)
      else returnM damage)"

text \<open>
  The loop over \<^verbatim>\<open>params.conditionList\<close> (lines 902-912, 1086-1094) and the dispel
  (lines 947-951, 1096-1101).
\<close>

definition applyConditions ::
  "'w World \<Rightarrow> Creature option \<Rightarrow> Creature \<Rightarrow> CombatParams \<Rightarrow> ('w, unit) M" where
  "applyConditions env caster target params =
     forM (conditionList params) (\<lambda>condition.
       bindM (readWorld (\<lambda>w. isImmune env w target (conditionType condition))) (\<lambda>immune.
         whenM (caster = Some target \<or> \<not> immune)
           (effect env (AddCombatCondition target condition caster))))"

definition dispel :: "'w World \<Rightarrow> Creature \<Rightarrow> CombatParams \<Rightarrow> ('w, unit) M" where
  "dispel env target params =
     (if dispelType params = CONDITION_PARALYZE
      then effect env (RemoveCondition target CONDITION_PARALYZE)
      else effect env (RemoveCombatCondition target (dispelType params)))"

text \<open>
  The leech of the single-target path (lines 919-945): both leeches take
  \<^verbatim>\<open>round(totalDamage * (skill / 100.))\<close> of this one hit.
\<close>

definition targetLeech ::
  "'w World \<Rightarrow> Creature \<Rightarrow> CombatDamage \<Rightarrow> ('w, unit) M" where
  "targetLeech env casterPlayer damage =
     (let leechCombat = defaultDamage\<lparr>origin := ORIGIN_NONE, leeched := True\<rparr> in
      bindM (defined (absSum (primaryValue damage) (secondaryValue damage))) (\<lambda>totalDamage.
      bindM (readWorld (\<lambda>w. getHealth env w casterPlayer < getMaxHealth env w casterPlayer)) (\<lambda>hurt.
      bindM (if hurt then
               bindM (readWorld (\<lambda>w. getSpecialSkill env w casterPlayer SPECIALSKILL_LIFELEECHCHANCE)) (\<lambda>chance.
               bindM (readWorld (\<lambda>w. getSpecialSkill env w casterPlayer SPECIALSKILL_LIFELEECHAMOUNT)) (\<lambda>skill.
               bindM (rollAgainst NormalRandom (normal_random env) chance skill) (\<lambda>lands.
                 if lands then
                   bindM (defined (toInt32 (roundScaled totalDamage (uint skill) 100))) (\<lambda>v.
                   bindM (callWorld (CombatChangeHealth None casterPlayer (leechCombat\<lparr>primaryValue := v\<rparr>))
                            (combatChangeHealth env None casterPlayer (leechCombat\<lparr>primaryValue := v\<rparr>)))
                     (\<lambda>(_, leechCombat).
                   bindM (effect env (SendMagicEffect casterPlayer CONST_ME_MAGIC_RED)) (\<lambda>_.
                   returnM leechCombat)))
                 else returnM leechCombat)))
             else returnM leechCombat) (\<lambda>leechCombat.
      bindM (readWorld (\<lambda>w. getMana env w casterPlayer < getMaxMana env w casterPlayer)) (\<lambda>drained.
        if drained then
          bindM (readWorld (\<lambda>w. getSpecialSkill env w casterPlayer SPECIALSKILL_MANALEECHCHANCE)) (\<lambda>chance.
          bindM (readWorld (\<lambda>w. getSpecialSkill env w casterPlayer SPECIALSKILL_MANALEECHAMOUNT)) (\<lambda>skill.
          bindM (rollAgainst NormalRandom (normal_random env) chance skill) (\<lambda>lands.
            if lands then
              bindM (defined (toInt32 (roundScaled totalDamage (uint skill) 100))) (\<lambda>v.
              bindM (callWorld (CombatChangeMana None casterPlayer (leechCombat\<lparr>primaryValue := v\<rparr>))
                       (combatChangeMana env None casterPlayer (leechCombat\<lparr>primaryValue := v\<rparr>)))
                (\<lambda>_.
              effect env (SendMagicEffect casterPlayer CONST_ME_MAGIC_BLUE)))
            else returnM ())))
        else returnM ())))))"

text \<open>
  \<^verbatim>\<open>g_game.combatBlockHit(damage, caster, target, params.blockedByShield,
  params.blockedByArmor, params.itemId != 0, params.ignoreResistances)\<close>.
\<close>

definition targetBlockHit ::
  "'w World \<Rightarrow> Creature option \<Rightarrow> Creature \<Rightarrow> CombatDamage \<Rightarrow> CombatParams
     \<Rightarrow> ('w, bool \<times> CombatDamage) M" where
  "targetBlockHit env caster target damage params =
     callWorld
       (CombatBlockHit damage caster target (blockedByShield params) (blockedByArmor params)
          (itemId params \<noteq> 0) (ignoreResistances params))
       (combatBlockHit env damage caster target (blockedByShield params) (blockedByArmor params)
          (itemId params \<noteq> 0) (ignoreResistances params))"

text \<open>
  Lines 844-898. The branch for a primary type other than mana drain scales, asks
  \<^verbatim>\<open>combatBlockHit\<close> and returns from the function when the hit is blocked (the
  outcome \<open>None\<close>), then halves, rolls the critical hit and changes the health; the
  branch for mana drain only changes the mana.
\<close>

definition targetHit ::
  "'w World \<Rightarrow> Creature option \<Rightarrow> Creature \<Rightarrow> CombatDamage \<Rightarrow> CombatParams
     \<Rightarrow> ('w, bool option \<times> CombatDamage) M" where
  "targetHit env caster target damage params =
     (if primaryType damage \<noteq> COMBAT_MANADRAIN then
        bindM (statScaling env (casterPlayerOf env caster) 100 damage) (\<lambda>damage.
        bindM (targetBlockHit env caster target damage params) (\<lambda>(blocked, damage).
          if blocked then returnM (None, damage)
          else
            bindM (case casterPlayerOf env caster of
                     None \<Rightarrow> returnM damage
                   | Some p \<Rightarrow>
                       bindM (targetPlayerReduction env p target damage) (targetCritical env p))
              (\<lambda>damage.
            bindM (callWorld (CombatChangeHealth caster target damage)
                     (combatChangeHealth env caster target damage)) (\<lambda>(success, damage).
            returnM (Some success, damage)))))
      else
        bindM (callWorld (CombatChangeMana caster target damage)
                 (combatChangeMana env caster target damage)) (\<lambda>(success, damage).
        returnM (Some success, damage)))"

text \<open>Lines 900-952, the block \<^verbatim>\<open>if (success) { ... }\<close>.\<close>

definition targetSuccess ::
  "'w World \<Rightarrow> Creature option \<Rightarrow> Creature \<Rightarrow> CombatDamage \<Rightarrow> CombatParams
     \<Rightarrow> ('w, unit) M" where
  "targetSuccess env caster target damage params =
     bindM (whenM (blockType damage = BLOCK_NONE \<or> blockType damage = BLOCK_ARMOR)
              (applyConditions env caster target params)) (\<lambda>_.
     bindM (whenM (critical damage)
              (effect env (AddMagicEffect target CONST_ME_CRITICAL_DAMAGE))) (\<lambda>_.
     bindM (case casterPlayerOf env caster of
              Some p \<Rightarrow>
                whenM (\<not> leeched damage \<and> primaryType damage \<noteq> COMBAT_HEALING
                       \<and> Some target \<noteq> caster \<and> origin damage \<noteq> ORIGIN_CONDITION)
                  (targetLeech env p damage)
            | None \<Rightarrow> returnM ()) (\<lambda>_.
     dispel env target params)))"

text \<open>
  \<^verbatim>\<open>Combat::doTargetCombat\<close> (lines 836-957). The target is not null at the call in
  \<^verbatim>\<open>doCombat\<close>. The damage is a reference parameter: the function returns it.
\<close>

definition doTargetCombat ::
  "'w World \<Rightarrow> Creature option \<Rightarrow> Creature \<Rightarrow> CombatDamage \<Rightarrow> CombatParams
     \<Rightarrow> ('w, CombatDamage) M" where
  "doTargetCombat env caster target damage params =
     bindM (case caster of
              Some c \<Rightarrow>
                whenM (distanceEffect params \<noteq> CONST_ANI_NONE)
                  (effect env (AddDistanceEffect c (ToCreature target) (distanceEffect params)))
            | None \<Rightarrow> returnM ()) (\<lambda>_.
     bindM (targetHit env caster target damage params) (\<lambda>(outcome, damage).
       case outcome of
         None \<Rightarrow> returnM damage
       | Some success \<Rightarrow>
           bindM (whenM success (targetSuccess env caster target damage params)) (\<lambda>_.
           bindM (whenM (hasTargetCallback params) (effect env (OnTargetCombat caster target)))
             (\<lambda>_.
           returnM damage))))"

subsection \<open>\<^verbatim>\<open>Combat::doAreaCombat\<close>\<close>

text \<open>
  The critical roll of the area path (lines 964-974), which draws from
  \<^verbatim>\<open>uniform_random\<close>: it yields \<^verbatim>\<open>criticalPrimary\<close>, \<^verbatim>\<open>criticalSecondary\<close> and the damage
  with its \<^verbatim>\<open>critical\<close> flag.
\<close>

definition areaCritical ::
  "'w World \<Rightarrow> Creature option \<Rightarrow> CombatDamage \<Rightarrow> ('w, int \<times> int \<times> CombatDamage) M" where
  "areaCritical env casterPlayer damage =
     (case casterPlayer of
        Some p \<Rightarrow>
          if \<not> critical damage \<and> primaryType damage \<noteq> COMBAT_HEALING
             \<and> origin damage \<noteq> ORIGIN_CONDITION then
            bindM (readWorld (\<lambda>w. getSpecialSkill env w p SPECIALSKILL_CRITICALHITCHANCE)) (\<lambda>chance.
            bindM (readWorld (\<lambda>w. getSpecialSkill env w p SPECIALSKILL_CRITICALHITAMOUNT)) (\<lambda>skill.
            bindM (rollAgainst UniformRandom (uniform_random env) chance skill) (\<lambda>lands.
              if lands then
                bindM (defined (toInt32 (roundScaled (primaryValue damage) (uint skill) 100)))
                  (\<lambda>criticalPrimary.
                bindM (defined (toInt32 (roundScaled (secondaryValue damage) (uint skill) 100)))
                  (\<lambda>criticalSecondary.
                returnM (criticalPrimary, criticalSecondary, damage\<lparr>critical := True\<rparr>)))
              else returnM (0, 0, damage))))
          else returnM (0, 0, damage)
      | None \<Rightarrow> returnM (0, 0, damage))"

text \<open>
  \<^verbatim>\<open>!params.aggressive || (caster != creature && canDoCombat(caster, creature) ==
  RETURNVALUE_NOERROR)\<close> (lines 1013, 701, 710), evaluated from left to right.
\<close>

definition isEligible :: "'w World \<Rightarrow> CombatParams \<Rightarrow> Creature option \<Rightarrow> Creature \<Rightarrow> ('w, bool) M" where
  "isEligible env params caster creature =
     (if \<not> aggressive params then returnM True
      else if caster = Some creature then returnM False
      else callWorld (CanDoCombatCreature caster creature) (canDoCombatCreature env caster creature))"

text \<open>
  The loops over the tiles and over the creatures of a tile (lines 995-1021) that
  fill \<^verbatim>\<open>toDamageCreatures\<close>, with their \<^verbatim>\<open>continue\<close> and \<^verbatim>\<open>break\<close>.
\<close>

fun tileTargets ::
  "'w World \<Rightarrow> CombatParams \<Rightarrow> Creature option \<Rightarrow> Tile \<Rightarrow> Creature option \<Rightarrow> Creature list
     \<Rightarrow> ('w, Creature list) M" where
  "tileTargets env params caster tile topCreature [] = returnM []"
| "tileTargets env params caster tile topCreature (creature # rest) =
     bindM (readWorld (\<lambda>w. case caster of Some c \<Rightarrow> getTile env w c = tile | None \<Rightarrow> False))
       (\<lambda>casterOnTile.
       if targetCasterOrTopMost params
          \<and> (if casterOnTile then Some creature \<noteq> caster else Some creature \<noteq> topCreature)
       then tileTargets env params caster tile topCreature rest
       else
         bindM (isEligible env params caster creature) (\<lambda>eligible.
           if eligible then
             (if targetCasterOrTopMost params then returnM [creature]
              else bindM (tileTargets env params caster tile topCreature rest) (\<lambda>more.
                   returnM (creature # more)))
           else tileTargets env params caster tile topCreature rest))"

fun collectTargets ::
  "'w World \<Rightarrow> CombatParams \<Rightarrow> Creature option \<Rightarrow> Tile list \<Rightarrow> ('w, Creature list) M" where
  "collectTargets env params caster [] = returnM []"
| "collectTargets env params caster (tile # rest) =
     bindM (callWorld (CanDoCombatTile caster tile (aggressive params))
              (canDoCombatTile env caster tile (aggressive params))) (\<lambda>ok.
       if \<not> ok then collectTargets env params caster rest
       else
         bindM (effect env (CombatTileEffects caster tile)) (\<lambda>_.
         bindM (readWorld (\<lambda>w. getCreatures env w tile)) (\<lambda>creatures.
           case creatures of
             None \<Rightarrow> collectTargets env params caster rest
           | Some cs \<Rightarrow>
               bindM (readWorld (\<lambda>w. getTopCreature env w tile)) (\<lambda>topCreature.
               bindM (tileTargets env params caster tile topCreature cs) (\<lambda>found.
               bindM (collectTargets env params caster rest) (\<lambda>more.
               returnM (found @ more)))))))"

text \<open>
  The body of the loop over \<^verbatim>\<open>toDamageCreatures\<close> (lines 1024-1154), in the order of
  the source: the copy of the damage is scaled (1026-1051), halved for a player hit by
  another player (1052-1060) and raised by the critical values (1061-1065); the hit is
  mitigated and applied (1066-1078), a blocked hit going on to the next creature; a
  successful hit is counted (1079-1105); the leech block follows inside the loop
  (1114-1153).
\<close>

definition areaPlayerReduction ::
  "'w World \<Rightarrow> Creature option \<Rightarrow> Creature option \<Rightarrow> Creature \<Rightarrow> CombatDamage
     \<Rightarrow> ('w, bool \<times> CombatDamage) M" where
  "areaPlayerReduction env caster casterPlayer creature damageCopy =
     (if (primaryValue damageCopy < 0 \<or> secondaryValue damageCopy < 0) \<and> caster \<noteq> None
         \<and> casterPlayer \<noteq> None \<and> isPlayer env creature \<and> casterPlayer \<noteq> Some creature then
        bindM (readWorld (\<lambda>w. getSkull env w creature)) (\<lambda>sk.
          if sk \<noteq> SKULL_BLACK
          then returnM (True, damageCopy\<lparr>primaryValue := truncDiv2 (primaryValue damageCopy),
                                         secondaryValue := truncDiv2 (secondaryValue damageCopy)\<rparr>)
          else returnM (False, damageCopy))
      else returnM (False, damageCopy))"

definition areaTargetDamage ::
  "'w World \<Rightarrow> Creature option \<Rightarrow> Creature option \<Rightarrow> int \<Rightarrow> int \<Rightarrow> Creature \<Rightarrow> CombatDamage
     \<Rightarrow> ('w, CombatDamage) M" where
  "areaTargetDamage env caster casterPlayer criticalPrimary criticalSecondary creature damage =
     bindM (statScaling env casterPlayer 230 damage) (\<lambda>damageCopy.
     bindM (areaPlayerReduction env caster casterPlayer creature damageCopy)
       (\<lambda>(playerCombatReduced, damageCopy).
       if critical damageCopy then
         bindM (defined (toInt32 (primaryValue damageCopy
                  + (if playerCombatReduced then truncDiv2 criticalPrimary else criticalPrimary))))
           (\<lambda>pv.
         bindM (defined (toInt32 (secondaryValue damageCopy
                  + (if playerCombatReduced then truncDiv2 criticalSecondary else criticalSecondary))))
           (\<lambda>sv.
         bindM (effect env (AddMagicEffect creature CONST_ME_CRITICAL_DAMAGE)) (\<lambda>_.
         returnM (damageCopy\<lparr>primaryValue := pv, secondaryValue := sv\<rparr>))))
       else returnM damageCopy))"

definition areaHit ::
  "'w World \<Rightarrow> Creature option \<Rightarrow> Creature \<Rightarrow> CombatDamage \<Rightarrow> CombatParams
     \<Rightarrow> ('w, (bool \<times> CombatDamage) option) M" where
  "areaHit env caster creature damageCopy params =
     (if primaryType damageCopy \<noteq> COMBAT_MANADRAIN then
        bindM (targetBlockHit env caster creature damageCopy params) (\<lambda>(blocked, damageCopy).
          if blocked then returnM None
          else bindM (callWorld (CombatChangeHealth caster creature damageCopy)
                        (combatChangeHealth env caster creature damageCopy)) (\<lambda>r. returnM (Some r)))
      else bindM (callWorld (CombatChangeMana caster creature damageCopy)
                    (combatChangeMana env caster creature damageCopy)) (\<lambda>r. returnM (Some r)))"

text \<open>
  The lambda \<^verbatim>\<open>calcLeechValue\<close> (lines 1120-1125). \<^verbatim>\<open>totalTargets\<close> counts the elements
  of a vector and is a natural number here.
\<close>

definition calcLeechValue :: "int \<Rightarrow> nat \<Rightarrow> 16 word \<Rightarrow> real \<Rightarrow> int option" where
  "calcLeechValue maxDamageFound totalTargets skillPercent extraPercentForOthers =
     (let base = toDouble (toDouble (of_int maxDamageFound)
                   * toDouble (toDouble (of_int (uint skillPercent)) / 100));
          extrasCount = (if totalTargets > 1 then totalTargets - 1 else 0);
          extras = toDouble (toDouble (base * toDouble (extraPercentForOthers / 100))
                     * toDouble (of_nat extrasCount))
      in toInt32 (roundAway (toDouble (base + extras))))"

definition areaLeech ::
  "'w World \<Rightarrow> Creature option \<Rightarrow> int \<Rightarrow> nat \<Rightarrow> CombatDamage \<Rightarrow> ('w, CombatDamage) M" where
  "areaLeech env casterPlayer maxDamageFound totalTargets damage =
     (case casterPlayer of
        None \<Rightarrow> returnM damage
      | Some p \<Rightarrow>
          if \<not> leeched damage \<and> primaryType damage \<noteq> COMBAT_HEALING
             \<and> origin damage \<noteq> ORIGIN_CONDITION \<and> totalTargets > 0 \<and> maxDamageFound > 0 then
            (let leechCombat = defaultDamage\<lparr>origin := ORIGIN_NONE, leeched := True\<rparr> in
             bindM (readWorld (\<lambda>w. getHealth env w p < getMaxHealth env w p)) (\<lambda>hurt.
             bindM (if hurt then
                      bindM (readWorld (\<lambda>w. getSpecialSkill env w p SPECIALSKILL_LIFELEECHCHANCE)) (\<lambda>chance.
                      bindM (readWorld (\<lambda>w. getSpecialSkill env w p SPECIALSKILL_LIFELEECHAMOUNT)) (\<lambda>skill.
                      bindM (rollAgainst NormalRandom (normal_random env) chance skill) (\<lambda>lands.
                        if lands then
                          bindM (defined (calcLeechValue maxDamageFound totalTargets skill 10))
                            (\<lambda>finalLeech.
                            if finalLeech > 0 then
                              bindM (callWorld
                                       (CombatChangeHealth None p (leechCombat\<lparr>primaryValue := finalLeech\<rparr>))
                                       (combatChangeHealth env None p
                                          (leechCombat\<lparr>primaryValue := finalLeech\<rparr>)))
                                (\<lambda>(_, leechCombat).
                              bindM (effect env (SendMagicEffect p CONST_ME_MAGIC_RED)) (\<lambda>_.
                              returnM leechCombat))
                            else returnM (leechCombat\<lparr>primaryValue := finalLeech\<rparr>))
                        else returnM leechCombat)))
                    else returnM leechCombat) (\<lambda>leechCombat.
             bindM (readWorld (\<lambda>w. getMana env w p < getMaxMana env w p)) (\<lambda>drained.
             bindM (if drained then
                      bindM (readWorld (\<lambda>w. getSpecialSkill env w p SPECIALSKILL_MANALEECHCHANCE)) (\<lambda>chance.
                      bindM (readWorld (\<lambda>w. getSpecialSkill env w p SPECIALSKILL_MANALEECHAMOUNT)) (\<lambda>skill.
                      bindM (rollAgainst NormalRandom (normal_random env) chance skill) (\<lambda>lands.
                        if lands then
                          bindM (defined (calcLeechValue maxDamageFound totalTargets skill 5))
                            (\<lambda>finalLeech.
                            if finalLeech > 0 then
                              bindM (callWorld
                                       (CombatChangeMana None p (leechCombat\<lparr>primaryValue := finalLeech\<rparr>))
                                       (combatChangeMana env None p
                                          (leechCombat\<lparr>primaryValue := finalLeech\<rparr>)))
                                (\<lambda>_.
                              effect env (SendMagicEffect p CONST_ME_MAGIC_BLUE))
                            else returnM ())
                        else returnM ())))
                    else returnM ()) (\<lambda>_.
             returnM (damage\<lparr>leeched := True\<rparr>))))))
          else returnM damage)"

definition areaSuccess ::
  "'w World \<Rightarrow> Creature option \<Rightarrow> Creature \<Rightarrow> CombatDamage \<Rightarrow> CombatDamage \<Rightarrow> CombatParams
     \<Rightarrow> int \<Rightarrow> nat \<Rightarrow> ('w, int \<times> nat) M" where
  "areaSuccess env caster creature damage damageCopy params maxDamageFound totalTargets =
     bindM (defined (absSum (primaryValue damageCopy) (secondaryValue damageCopy))) (\<lambda>dmgDealt.
     bindM (whenM (blockType damage = BLOCK_NONE \<or> blockType damage = BLOCK_ARMOR)
              (applyConditions env caster creature params)) (\<lambda>_.
     bindM (dispel env creature params) (\<lambda>_.
     bindM (whenM (hasTargetCallback params) (effect env (OnTargetCombat caster creature))) (\<lambda>_.
     returnM (if dmgDealt > maxDamageFound then dmgDealt else maxDamageFound,
              Suc totalTargets)))))"

definition areaStep ::
  "'w World \<Rightarrow> CombatParams \<Rightarrow> Creature option \<Rightarrow> int \<Rightarrow> int \<Rightarrow> Creature
     \<Rightarrow> int \<times> nat \<times> CombatDamage \<Rightarrow> ('w, int \<times> nat \<times> CombatDamage) M" where
  "areaStep env params caster criticalPrimary criticalSecondary creature acc =
     (case acc of (maxDamageFound, totalTargets, damage) \<Rightarrow>
        bindM (areaTargetDamage env caster (casterPlayerOf env caster) criticalPrimary
                 criticalSecondary creature damage) (\<lambda>damageCopy.
        bindM (areaHit env caster creature damageCopy params) (\<lambda>hit.
          case hit of
            None \<Rightarrow> returnM (maxDamageFound, totalTargets, damage)
          | Some (success, damageCopy) \<Rightarrow>
              bindM (if success
                     then areaSuccess env caster creature damage damageCopy params
                            maxDamageFound totalTargets
                     else returnM (maxDamageFound, totalTargets)) (\<lambda>(maxDamageFound, totalTargets).
              bindM (areaLeech env (casterPlayerOf env caster) maxDamageFound totalTargets damage)
                (\<lambda>damage.
              returnM (maxDamageFound, totalTargets, damage))))))"

fun areaLoop ::
  "'w World \<Rightarrow> CombatParams \<Rightarrow> Creature option \<Rightarrow> int \<Rightarrow> int \<Rightarrow> Creature list
     \<Rightarrow> int \<times> nat \<times> CombatDamage \<Rightarrow> ('w, int \<times> nat \<times> CombatDamage) M" where
  "areaLoop env params caster criticalPrimary criticalSecondary [] acc = returnM acc"
| "areaLoop env params caster criticalPrimary criticalSecondary (creature # rest) acc =
     bindM (areaStep env params caster criticalPrimary criticalSecondary creature acc)
       (areaLoop env params caster criticalPrimary criticalSecondary rest)"

text \<open>\<^verbatim>\<open>Combat::postCombatEffects\<close> (lines 655-660).\<close>

definition postCombatEffects ::
  "'w World \<Rightarrow> Creature option \<Rightarrow> Position \<Rightarrow> CombatParams \<Rightarrow> ('w, unit) M" where
  "postCombatEffects env caster pos params =
     (case caster of
        Some c \<Rightarrow>
          whenM (distanceEffect params \<noteq> CONST_ANI_NONE)
            (effect env (AddDistanceEffect c (ToPosition pos) (distanceEffect params)))
      | None \<Rightarrow> returnM ())"

text \<open>
  \<^verbatim>\<open>Combat::doAreaCombat\<close> (lines 959-1155). \<open>tiles\<close> is the result of the first
  statement, \<^verbatim>\<open>getCombatArea\<close>; the computation of the spectator range (lines 975-991)
  is the call \<open>GetSpectators\<close>. The function returns nothing in the source; the model
  returns the final \<^verbatim>\<open>maxDamageFound\<close>, \<^verbatim>\<open>totalTargets\<close> and \<^verbatim>\<open>damage\<close>.
\<close>

definition doAreaCombat ::
  "'w World \<Rightarrow> Creature option \<Rightarrow> Position \<Rightarrow> Tile list \<Rightarrow> CombatDamage \<Rightarrow> CombatParams
     \<Rightarrow> ('w, int \<times> nat \<times> CombatDamage) M" where
  "doAreaCombat env caster position tiles damage params =
     bindM (areaCritical env (casterPlayerOf env caster) damage)
       (\<lambda>(criticalPrimary, criticalSecondary, damage).
     bindM (effect env GetSpectators) (\<lambda>_.
     bindM (postCombatEffects env caster position params) (\<lambda>_.
     bindM (collectTargets env params caster tiles) (\<lambda>toDamageCreatures.
     areaLoop env params caster criticalPrimary criticalSecondary toDamageCreatures
       (0, 0, damage)))))"

subsection \<open>\<^verbatim>\<open>Combat::doCombat\<close> on a target\<close>

text \<open>
  The loop of lines 715-721 sets the owner with \<^verbatim>\<open>caster->getID()\<close> without testing
  the caster, so applying a condition with no caster is undefined.
\<close>

definition applyConditionsOwned ::
  "'w World \<Rightarrow> Creature option \<Rightarrow> Creature \<Rightarrow> CombatParams \<Rightarrow> ('w, unit) M" where
  "applyConditionsOwned env caster target params =
     forM (conditionList params) (\<lambda>condition.
       bindM (readWorld (\<lambda>w. isImmune env w target (conditionType condition))) (\<lambda>immune.
         if caster = Some target \<or> \<not> immune then
           (case caster of
              None \<Rightarrow> defined None
            | Some c \<Rightarrow> effect env (AddCombatCondition target condition (Some c)))
         else returnM ()))"

text \<open>\<^verbatim>\<open>Combat::doCombat(Creature* caster, Creature* target)\<close> (lines 695-747).\<close>

definition doCombat ::
  "'w World \<Rightarrow> Creature option \<Rightarrow> Creature \<Rightarrow> CombatParams \<Rightarrow> ('w, unit) M" where
  "doCombat env caster target params =
     (if combatType params \<noteq> COMBAT_NONE then
        bindM (callWorld (GetCombatDamage caster (Some target))
                 (getCombatDamage env caster (Some target))) (\<lambda>damage.
        bindM (isEligible env params caster target) (\<lambda>canCombat.
        bindM (whenM ((caster = Some target \<or> canCombat) \<and> impactEffect params \<noteq> CONST_ME_NONE)
                 (effect env (AddMagicEffect target (impactEffect params)))) (\<lambda>_.
          if canCombat
          then bindM (doTargetCombat env caster target damage params) (\<lambda>_. returnM ())
          else returnM ())))
      else
        bindM (isEligible env params caster target) (\<lambda>canCombat.
          if canCombat then
            bindM (effect env GetSpectators) (\<lambda>_.
            bindM (whenM (paramsOrigin params \<noteq> ORIGIN_MELEE)
                     (applyConditionsOwned env caster target params)) (\<lambda>_.
            bindM (dispel env target params) (\<lambda>_.
            bindM (readWorld (\<lambda>w. getTile env w target)) (\<lambda>tile.
            bindM (effect env (CombatTileEffects caster tile)) (\<lambda>_.
            bindM (whenM (hasTargetCallback params) (effect env (OnTargetCombat caster target)))
              (\<lambda>_.
            case caster of
              Some c \<Rightarrow>
                whenM (distanceEffect params \<noteq> CONST_ANI_NONE)
                  (effect env (AddDistanceEffect c (ToCreature target) (distanceEffect params)))
            | None \<Rightarrow> returnM ()))))))
          else returnM ()))"

subsection \<open>Notions used to state the theorems\<close>

text \<open>
  \<open>extends P m\<close>: whenever \<open>m\<close> returns, it has only added calls to the trace, and every
  added call satisfies \<open>P\<close>. \<open>statFor\<close> is the stat that scales a damage type. The last
  three are the calls that \<open>dispel\<close>, the target callback and the distance effect
  make.
\<close>

definition extends :: "(Call \<Rightarrow> bool) \<Rightarrow> ('w, 'a) M \<Rightarrow> bool" where
  "extends P m =
     (\<forall>w l r w' l'. m (w, l) = Some (r, (w', l')) \<longrightarrow> (\<exists>new. l' = l @ new \<and> list_all P new))"

definition notUniform :: "Call \<Rightarrow> bool" where
  "notUniform c = (c \<noteq> UniformRandom)"

definition statFor :: "CombatType_t \<Rightarrow> CharStat" where
  "statFor ty = (if ty = COMBAT_PHYSICALDAMAGE then CHARSTAT_STRENGTH else CHARSTAT_INTELLIGENCE)"

definition dispelCall :: "Creature \<Rightarrow> CombatParams \<Rightarrow> Call" where
  "dispelCall target params =
     (if dispelType params = CONDITION_PARALYZE then RemoveCondition target CONDITION_PARALYZE
      else RemoveCombatCondition target (dispelType params))"

definition callbackCalls :: "Creature option \<Rightarrow> Creature \<Rightarrow> CombatParams \<Rightarrow> Call list" where
  "callbackCalls caster target params =
     (if hasTargetCallback params then [OnTargetCombat caster target] else [])"

definition distanceCalls :: "Creature option \<Rightarrow> Creature \<Rightarrow> CombatParams \<Rightarrow> Call list" where
  "distanceCalls caster target params =
     (case caster of
        Some c \<Rightarrow>
          if distanceEffect params \<noteq> CONST_ANI_NONE
          then [AddDistanceEffect c (ToCreature target) (distanceEffect params)] else []
      | None \<Rightarrow> [])"

subsection \<open>Concrete worlds and inputs\<close>

text \<open>
  A world without state, for evaluating the functions: the caster is the player 1,
  the hits are never blocked and always succeed, the caster has lost health but no
  mana, nothing is immune, every creature stands on the tile of its own number.
  In \<open>pvpWorld chance roll\<close> the creature 2 is a player too, without a skull, the
  caster's critical chance is \<open>chance\<close> and every random draw answers \<open>roll\<close>.
\<close>

definition stubWorld ::
  "(Creature \<Rightarrow> bool) \<Rightarrow> (Creature \<Rightarrow> CharStat \<Rightarrow> int) \<Rightarrow> (Creature \<Rightarrow> SpecialSkill \<Rightarrow> 16 word)
     \<Rightarrow> int \<Rightarrow> (Tile \<Rightarrow> Creature list option) \<Rightarrow> unit World" where
  "stubWorld players stats skills roll creaturesAt =
     \<lparr>isPlayer = players,
      getCharacterStat = (\<lambda>w. stats),
      getSpecialSkill = (\<lambda>w. skills),
      getSkull = (\<lambda>w c. SKULL_NONE),
      getHealth = (\<lambda>w c. 50),
      getMaxHealth = (\<lambda>w c. 100),
      getMana = (\<lambda>w c. 100),
      getMaxMana = (\<lambda>w c. 100),
      isImmune = (\<lambda>w c t. False),
      getCreatures = (\<lambda>w. creaturesAt),
      getTopCreature = (\<lambda>w t. case creaturesAt t of Some (c # cs) \<Rightarrow> Some c | _ \<Rightarrow> None),
      getTile = (\<lambda>w c. c),
      normal_random = (\<lambda>w. (roll, w)),
      uniform_random = (\<lambda>w. (roll, w)),
      combatBlockHit = (\<lambda>damage caster target s a f r w. ((False, damage), w)),
      combatChangeHealth = (\<lambda>caster target damage w. ((True, damage), w)),
      combatChangeMana = (\<lambda>caster target damage w. ((True, damage), w)),
      canDoCombatTile = (\<lambda>caster tile a w. (True, w)),
      canDoCombatCreature = (\<lambda>caster target w. (True, w)),
      getCombatDamage = (\<lambda>caster target w. (defaultDamage, w)),
      perform = (\<lambda>c w. w)\<rparr>"

definition plainParams :: CombatParams where
  "plainParams =
     \<lparr>conditionList = [], hasTargetCallback = False, itemId = 0, dispelType = CONDITION_NONE,
      combatType = COMBAT_FIREDAMAGE, paramsOrigin = ORIGIN_SPELL, impactEffect = CONST_ME_NONE,
      distanceEffect = CONST_ANI_NONE, blockedByArmor = False, blockedByShield = False,
      targetCasterOrTopMost = False, aggressive = True, ignoreResistances = False\<rparr>"

definition leechWorld :: "unit World" where
  "leechWorld = stubWorld (\<lambda>c. c = 1) (\<lambda>c s. 0)
        (\<lambda>c s. if s = SPECIALSKILL_LIFELEECHCHANCE then 100
                else if s = SPECIALSKILL_LIFELEECHAMOUNT then 10 else 0) 1
        (\<lambda>t. if t = 10 then Some [2] else if t = 11 then Some [3] else None)"

definition critWorld :: "unit World" where
  "critWorld = stubWorld (\<lambda>c. c = 1) (\<lambda>c s. 0)
        (\<lambda>c s. if s = SPECIALSKILL_CRITICALHITCHANCE then 100
                else if s = SPECIALSKILL_CRITICALHITAMOUNT then 50 else 0) 37
        (\<lambda>t. if t = 10 then Some [2] else if t = 11 then Some [3] else None)"

definition pvpWorld :: "16 word \<Rightarrow> int \<Rightarrow> unit World" where
  "pvpWorld chance roll = stubWorld (\<lambda>c. c = 1 \<or> c = 2) (\<lambda>c s. 0)
        (\<lambda>c s. if s = SPECIALSKILL_CRITICALHITCHANCE then chance
                else if s = SPECIALSKILL_CRITICALHITAMOUNT then 50 else 0) roll
        (\<lambda>t. if t = 10 then Some [2] else if t = 11 then Some [3] else None)"

definition statWorld :: "int \<Rightarrow> int \<Rightarrow> unit World" where
  "statWorld strength intelligence =
     stubWorld (\<lambda>c. c = 1)
        (\<lambda>c s. if s = CHARSTAT_STRENGTH then strength else intelligence)
        (\<lambda>c s. 0) 1 (\<lambda>t. if t = 10 then Some [2] else None)"

definition fire2000 :: CombatDamage where
  "fire2000 = defaultDamage\<lparr>primaryType := COMBAT_FIREDAMAGE, primaryValue := -2000,
                               origin := ORIGIN_SPELL\<rparr>"

definition fire100 :: CombatDamage where
  "fire100 = defaultDamage\<lparr>primaryType := COMBAT_FIREDAMAGE, primaryValue := -100,
                            origin := ORIGIN_SPELL\<rparr>"

definition fire101 :: CombatDamage where
  "fire101 = defaultDamage\<lparr>primaryType := COMBAT_FIREDAMAGE, primaryValue := -101,
                            origin := ORIGIN_SPELL\<rparr>"

definition manaDrain100 :: CombatDamage where
  "manaDrain100 = defaultDamage\<lparr>primaryType := COMBAT_MANADRAIN, primaryValue := -100,
                                 origin := ORIGIN_SPELL\<rparr>"

definition slash100 :: CombatDamage where
  "slash100 = defaultDamage\<lparr>primaryType := COMBAT_PHYSICALDAMAGE, primaryValue := -100,
                             secondaryType := COMBAT_FIREDAMAGE, secondaryValue := -50,
                             origin := ORIGIN_SPELL\<rparr>"

definition burning :: Condition where
  "burning = \<lparr>conditionType = CONDITION_FIRE, conditionId = 7\<rparr>"

definition touchParams :: "CombatOrigin \<Rightarrow> CombatParams" where
  "touchParams org =
     plainParams\<lparr>conditionList := [burning], hasTargetCallback := True,
                 combatType := COMBAT_NONE, paramsOrigin := org,
                 distanceEffect := CONST_ANI_OTHER 3\<rparr>"

subsection \<open>Auxiliary functions of the proofs about \<^verbatim>\<open>rotate90\<close>\<close>

text \<open>
  The cells of a rotated grid in closed form, the body of the loop of \<^verbatim>\<open>rotate90\<close>
  on natural numbers, and the contents of \<^verbatim>\<open>newArr\<close> after \<open>n\<close> iterations. They are
  used to state lemmas only; \<open>rotate90\<close> above does not depend on them.
\<close>

definition rot90Cells :: "nat \<Rightarrow> nat \<Rightarrow> bool list \<Rightarrow> bool list" where
  "rot90Cells R C a = map (\<lambda>m. a ! ((R - 1 - m mod R) * C + m div R)) [0..<R * C]"

definition rot90Body :: "nat \<Rightarrow> nat \<Rightarrow> bool list \<Rightarrow> nat \<Rightarrow> bool list \<Rightarrow> bool list option" where
  "rot90Body R C a n newArr =
     Option.bind (readSlice a ((R - n - 1) * C) C 1) (\<lambda>v. assignSlice n C R v newArr)"

definition rot90Inv :: "nat \<Rightarrow> nat \<Rightarrow> bool list \<Rightarrow> nat \<Rightarrow> bool list" where
  "rot90Inv R C a n =
     map (\<lambda>m. if m mod R < n then a ! ((R - 1 - m mod R) * C + m div R) else False) [0..<R * C]"

section \<open>Eligibility\<close>

text \<open>
  C8. \<^verbatim>\<open>isProtected\<close> answers true exactly when one of the two levels is below the
  configured protection level, or one of the two vocations disallows PvP, or the
  attacker wears the black skull and shows no skull towards the target. In
  particular two players of the same level, not below the protection level, with
  PvP-enabled vocations and an attacker without a skull are not protected.
\<close>

theorem isProtected_exactly:
  "isProtected pl gsc attacker target =
     (level target < pl \<or> level attacker < pl
      \<or> \<not> allowsPvp attacker \<or> \<not> allowsPvp target
      \<or> (skull attacker = SKULL_BLACK \<and> gsc attacker target = SKULL_NONE))
   \<and> (level attacker = level target \<and> pl \<le> level attacker
        \<and> allowsPvp attacker \<and> allowsPvp target \<and> skull attacker = SKULL_NONE
        \<longrightarrow> \<not> isProtected pl gsc attacker target)"
  by (auto simp: isProtected_def)

theorem isProtected_exactly_witness:
  "\<not> isProtected 10 (\<lambda>a t. SKULL_NONE)
       \<lparr>playerId = 1, level = 50, allowsPvp = True, skull = SKULL_NONE\<rparr>
       \<lparr>playerId = 2, level = 50, allowsPvp = True, skull = SKULL_NONE\<rparr>
   \<and> isProtected 10 (\<lambda>a t. SKULL_NONE)
       \<lparr>playerId = 1, level = 50, allowsPvp = True, skull = SKULL_NONE\<rparr>
       \<lparr>playerId = 2, level = 9, allowsPvp = True, skull = SKULL_NONE\<rparr>
   \<and> isProtected 10 (\<lambda>a t. SKULL_NONE)
       \<lparr>playerId = 1, level = 50, allowsPvp = True, skull = SKULL_BLACK\<rparr>
       \<lparr>playerId = 2, level = 50, allowsPvp = True, skull = SKULL_NONE\<rparr>"
  using isProtected_exactly [of 10 "\<lambda>a t. SKULL_NONE"
      "\<lparr>playerId = 1, level = 50, allowsPvp = True, skull = SKULL_NONE\<rparr>"
      "\<lparr>playerId = 2, level = 50, allowsPvp = True, skull = SKULL_NONE\<rparr>"]
    isProtected_exactly [of 10 "\<lambda>a t. SKULL_NONE"
      "\<lparr>playerId = 1, level = 50, allowsPvp = True, skull = SKULL_NONE\<rparr>"
      "\<lparr>playerId = 2, level = 9, allowsPvp = True, skull = SKULL_NONE\<rparr>"]
    isProtected_exactly [of 10 "\<lambda>a t. SKULL_NONE"
      "\<lparr>playerId = 1, level = 50, allowsPvp = True, skull = SKULL_BLACK\<rparr>"
      "\<lparr>playerId = 2, level = 50, allowsPvp = True, skull = SKULL_NONE\<rparr>"]
  by simp

section \<open>Direction selection\<close>

text \<open>
  C7. From the offsets \<open>(dx, dy)\<close> of target against caster, \<^verbatim>\<open>getArea\<close> looks up the
  slot of: west if \<open>dx < 0\<close>, east if \<open>dx > 0\<close>, otherwise north if \<open>dy < 0\<close> and south
  if not, when only cardinal directions are configured; with diagonals enabled and
  both offsets nonzero, northwest, northeast, southwest or southeast by the signs of
  \<open>dx\<close> and \<open>dy\<close>, and the cardinal choice when one offset is zero.
\<close>

theorem getArea_direction:
  "(dirIndex (selectDirection (hasExtArea ac) (getOffsetX t c) (getOffsetY t c)) < length (areas ac)
      \<longrightarrow> getArea ac c t
          = areas ac ! dirIndex (selectDirection (hasExtArea ac) (getOffsetX t c) (getOffsetY t c)))
   \<and> selectDirection False dx dy =
        (if dx < 0 then DIRECTION_WEST else if dx > 0 then DIRECTION_EAST
         else if dy < 0 then DIRECTION_NORTH else DIRECTION_SOUTH)
   \<and> (dx \<noteq> 0 \<and> dy \<noteq> 0 \<longrightarrow> selectDirection True dx dy =
        (if dx < 0 \<and> dy < 0 then DIRECTION_NORTHWEST
         else if dx > 0 \<and> dy < 0 then DIRECTION_NORTHEAST
         else if dx < 0 \<and> dy > 0 then DIRECTION_SOUTHWEST
         else DIRECTION_SOUTHEAST))
   \<and> (dx = 0 \<or> dy = 0 \<longrightarrow> selectDirection True dx dy = selectDirection False dx dy)"
  by (auto simp: getArea_def selectDirection_def Let_def)

theorem getArea_direction_witness:
  "getArea \<lparr>areas = [emptyArea, emptyArea, emptyArea,
                        \<lparr>center = (0, 0), rows = 1, cols = 1, arr = [True]\<rparr>],
             hasExtArea = False\<rparr>
       \<lparr>px = 5, py = 5, pz = 7\<rparr> \<lparr>px = 3, py = 4, pz = 7\<rparr>
     = \<lparr>center = (0, 0), rows = 1, cols = 1, arr = [True]\<rparr>
   \<and> selectDirection False (-2) (-1) = DIRECTION_WEST
   \<and> selectDirection True (-2) (-1) = DIRECTION_NORTHWEST
   \<and> selectDirection True 3 (-1) = DIRECTION_NORTHEAST
   \<and> selectDirection True (-3) 1 = DIRECTION_SOUTHWEST
   \<and> selectDirection True 3 1 = DIRECTION_SOUTHEAST
   \<and> selectDirection True 0 (-1) = DIRECTION_NORTH
   \<and> selectDirection True 0 0 = DIRECTION_SOUTH"
  using getArea_direction [of
      "\<lparr>areas = [emptyArea, emptyArea, emptyArea,
                  \<lparr>center = (0, 0), rows = 1, cols = 1, arr = [True]\<rparr>],
        hasExtArea = False\<rparr>"
      "\<lparr>px = 3, py = 4, pz = 7\<rparr>" "\<lparr>px = 5, py = 5, pz = 7\<rparr>" "-2" "-1"]
    getArea_direction [of undefined undefined undefined 3 "-1"]
    getArea_direction [of undefined undefined undefined "-3" 1]
    getArea_direction [of undefined undefined undefined 3 1]
    getArea_direction [of undefined undefined undefined 0 "-1"]
    getArea_direction [of undefined undefined undefined 0 0]
  by (simp add: getOffsetX_def getOffsetY_def)

section \<open>An unbuilt direction\<close>

text \<open>
  C4, as the code has it. When the selected direction's index is not below the number
  of configured grids, \<^verbatim>\<open>getArea\<close> answers the empty grid, and the projection over
  it proceeds and yields no location: the unbuilt direction is silently replaced by
  an empty shape, it is not reported as an error.
\<close>

theorem getArea_unbuilt_is_empty:
  "dirIndex (selectDirection (hasExtArea ac) (getOffsetX t c) (getOffsetY t c)) \<ge> length (areas ac)
   \<Longrightarrow> getArea ac c t = emptyArea \<and> getCombatArea geo c t (Some ac) = Some []"
  by (simp add: getArea_def getCombatArea_def getList_def emptyArea_def indexRange_def Let_def)

theorem getArea_unbuilt_is_empty_witness:
  "getArea \<lparr>areas = [], hasExtArea = False\<rparr>
       \<lparr>px = 5, py = 5, pz = 7\<rparr> \<lparr>px = 5, py = 4, pz = 7\<rparr> = emptyArea
   \<and> getCombatArea
       \<lparr>mapMaxLayers = 16, getNextPosition = (\<lambda>d p. p),
        getDirectionTo = (\<lambda>p q. DIRECTION_NORTH), isSightClear = (\<lambda>p q. True)\<rparr>
       \<lparr>px = 5, py = 5, pz = 7\<rparr> \<lparr>px = 5, py = 4, pz = 7\<rparr>
       (Some \<lparr>areas = [], hasExtArea = False\<rparr>) = Some []"
  using getArea_unbuilt_is_empty [of "\<lparr>areas = [], hasExtArea = False\<rparr>"
      "\<lparr>px = 5, py = 4, pz = 7\<rparr>" "\<lparr>px = 5, py = 5, pz = 7\<rparr>"
      "\<lparr>mapMaxLayers = 16, getNextPosition = (\<lambda>d p. p),
        getDirectionTo = (\<lambda>p q. DIRECTION_NORTH), isSightClear = (\<lambda>p q. True)\<rparr>"]
  by simp

text \<open>
  C4, as the claim states it, fails: an \<^verbatim>\<open>AreaCombat\<close> for which \<^verbatim>\<open>setupArea\<close> was
  never called (no grid at all) answers the empty 0 x 0 grid for a target north of
  the caster, where the claim wants the resolution not to proceed with an empty
  shape.
\<close>

theorem getArea_unbuilt_counterexample:
  "getArea \<lparr>areas = [], hasExtArea = False\<rparr>
       \<lparr>px = 5, py = 5, pz = 7\<rparr> \<lparr>px = 5, py = 4, pz = 7\<rparr>
     = \<lparr>center = (0, 0), rows = 0, cols = 0, arr = []\<rparr>"
  by (simp add: getArea_def emptyArea_def)

section \<open>The projection\<close>

text \<open>
  \<^verbatim>\<open>getList\<close> on the 2 x 3 grid with the cells \<open>(0, 0)\<close>, \<open>(0, 2)\<close> and \<open>(1, 1)\<close> active
  and the origin \<open>(1, 1)\<close>, around the target \<open>(0, 0, 7)\<close> at the north-west corner of
  the map, with every line of sight clear: the scan is row-major, and the coordinates
  west and north of the corner wrap to 65535. On a grid whose cell array is shorter
  than rows * cols the scan reads beyond the array.
\<close>

lemma ucast_minus_1_coordinate: "(ucast (- 1 :: 32 word) :: 16 word) = - 1"
  by (simp add: unsigned_minus_1_eq_mask mask_eq_exp_minus_1)

lemma getList_wraps_at_the_corner:
  "getList
     \<lparr>mapMaxLayers = 16, getNextPosition = (\<lambda>d p. p),
      getDirectionTo = (\<lambda>p q. DIRECTION_NORTH), isSightClear = (\<lambda>p q. True)\<rparr>
     \<lparr>center = (1, 1), rows = 2, cols = 3, arr = [True, False, True, False, True, False]\<rparr>
     \<lparr>px = 0, py = 0, pz = 7\<rparr> DIRECTION_NORTH
   = Some [\<lparr>px = 65535, py = 65535, pz = 7\<rparr>, \<lparr>px = 1, py = 65535, pz = 7\<rparr>,
           \<lparr>px = 0, py = 0, pz = 7\<rparr>]"
  by (simp add: getList_def getListRow_def getListCol_def cellAt_def indexRange_def Let_def
      upt_conv_Cons ucast_minus_1_coordinate)

lemma getList_out_of_bounds:
  "getList geo \<lparr>center = (0, 0), rows = 1, cols = 2, arr = [True]\<rparr> targetPos dir = None"
  by (simp add: getList_def getListRow_def getListCol_def cellAt_def indexRange_def Let_def
      upt_conv_Cons)

section \<open>The transforms of the shape grid\<close>

lemma forEach_map: "forEach (map f xs) body s = forEach xs (\<lambda>i. body (f i)) s"
  by (induction xs arbitrary: s) (auto split: option.splits)

lemma forEach_append:
  "forEach (xs @ ys) body s =
     (case forEach xs body s of None \<Rightarrow> None | Some s' \<Rightarrow> forEach ys body s')"
  by (induction xs arbitrary: s) (auto split: option.splits)

lemma forEach_cong:
  "(\<And>i s. i \<in> set xs \<Longrightarrow> body i s = body' i s) \<Longrightarrow> forEach xs body s = forEach xs body' s"
  by (induction xs arbitrary: s) (auto split: option.splits)

lemma length_fold_update:
  "length (fold (\<lambda>k b. b[f k := v k]) ks a) = length a"
  by (induction ks arbitrary: a) auto

lemma fold_update_nth:
  assumes "0 < stride" "m < length a"
  shows "fold (\<lambda>k b. b[start + k * stride := vals ! k]) [0..<n] a ! m =
           (if start \<le> m \<and> (m - start) mod stride = 0 \<and> (m - start) div stride < n
            then vals ! ((m - start) div stride) else a ! m)"
proof (induction n)
  case 0
  show ?case by simp
next
  case (Suc n)
  let ?b = "fold (\<lambda>k b. b[start + k * stride := vals ! k]) [0..<n] a"
  have len: "length ?b = length a" by (rule length_fold_update)
  have step: "fold (\<lambda>k b. b[start + k * stride := vals ! k]) [0..<Suc n] a
                = ?b[start + n * stride := vals ! n]" by simp
  show ?case
  proof (cases "m = start + n * stride")
    case True
    then show ?thesis using assms len by (simp add: step)
  next
    case False
    have "\<not> (start \<le> m \<and> (m - start) mod stride = 0 \<and> (m - start) div stride = n)"
    proof
      assume h: "start \<le> m \<and> (m - start) mod stride = 0 \<and> (m - start) div stride = n"
      then have "m - start = n * stride"
        by (metis add.right_neutral div_mult_mod_eq)
      with h have "m = start + n * stride" by linarith
      with False show False by simp
    qed
    then show ?thesis using False Suc.IH by (auto simp: step less_Suc_eq)
  qed
qed

lemma unat_index: "n < unat (R :: 32 word) \<Longrightarrow> unat (word_of_nat n :: 32 word) = n"
proof -
  assume "n < unat R"
  moreover have "unat R < 2 ^ 32" using unsigned_less [of R, where 'a = nat] by simp
  ultimately have "n < 2 ^ 32" by linarith
  then show ?thesis by (simp add: unat_of_nat)
qed

lemma mult_lt_mono_left:
  fixes a b c d :: nat
  assumes "a \<le> b" "b * c < d"
  shows "a * c < d"
  using assms by (meson le_less_trans mult_le_mono1)

lemma unat_index_times:
  assumes "n < unat (R :: 32 word)" "unat R * unat (C :: 32 word) < 2 ^ 32"
  shows "unat (word_of_nat n * C) = n * unat C"
proof -
  have n: "unat (word_of_nat n :: 32 word) = n" using assms(1) by (rule unat_index)
  have "n \<le> unat R" using assms(1) by simp
  then have "n * unat C < 2 ^ 32" using assms(2) by (rule mult_lt_mono_left)
  then have "unat (word_of_nat n :: 32 word) * unat C < 2 ^ LENGTH(32)"
    unfolding n by simp
  then have "unat (word_of_nat n * C) = unat (word_of_nat n :: 32 word) * unat C"
    by (rule unat_mult_lem [THEN iffD1])
  then show ?thesis by (simp only: n)
qed


lemma unat_rev_index:
  assumes "n < unat (R :: 32 word)"
  shows "unat (R - word_of_nat n - 1) = unat R - n - 1"
proof -
  have n: "unat (word_of_nat n :: 32 word) = n" using assms by (rule unat_index)
  have le: "(word_of_nat n :: 32 word) \<le> R" using assms n by (simp add: word_le_nat_alt)
  have 1: "unat (R - word_of_nat n) = unat R - n" using unat_sub [OF le] n by simp
  have "unat (R - word_of_nat n) \<noteq> 0" using 1 assms by simp
  then have "R - word_of_nat n \<noteq> 0" by auto
  then have "unat (R - word_of_nat n - 1) = unat (R - word_of_nat n) - 1" by (rule unat_minus_one)
  then show ?thesis using 1 by simp
qed

lemma unat_rev_index_times:
  assumes "n < unat (R :: 32 word)" "unat R * unat (C :: 32 word) < 2 ^ 32"
  shows "unat ((R - word_of_nat n - 1) * C) = (unat R - n - 1) * unat C"
proof -
  have r: "unat (R - word_of_nat n - 1) = unat R - n - 1" using assms(1) by (rule unat_rev_index)
  have "unat R - n - 1 \<le> unat R" by simp
  then have "(unat R - n - 1) * unat C < 2 ^ 32"
    using assms(2) by (rule mult_lt_mono_left)
  then have "unat (R - word_of_nat n - 1) * unat C < 2 ^ LENGTH(32)"
    unfolding r by simp
  then have "unat ((R - word_of_nat n - 1) * C) = unat (R - word_of_nat n - 1) * unat C"
    by (rule unat_mult_lem [THEN iffD1])
  then show ?thesis by (simp only: r)
qed

lemma row_index_bound:
  fixes r k R C :: nat
  assumes "r < R" "k < C"
  shows "r * C + k < R * C"
proof -
  have "r * C + k < r * C + C" using assms(2) by simp
  also have "\<dots> = Suc r * C" by simp
  also have "\<dots> \<le> R * C" using assms(1) by (intro mult_le_mono1) simp
  finally show ?thesis .
qed

lemma readSlice_row:
  assumes "r < R" "length a = R * C"
  shows "readSlice a (r * C) C 1 = Some (map (\<lambda>k. a ! (r * C + k)) [0..<C])"
proof -
  have "Suc r * C \<le> R * C" using assms(1) by (intro mult_le_mono1) simp
  then have "i < R * C" if "i < C + r * C" for i using that by simp
  then show ?thesis using assms(2)
    by (simp add: readSlice_def sliceIndices_def list_all_iff comp_def)
qed

lemma assignSlice_col:
  assumes "n < R" "length b = R * C" "length v = C"
  shows "assignSlice n C R v b = Some (fold (\<lambda>k b. b[n + k * R := v ! k]) [0..<C] b)"
proof -
  have "n + k * R < R * C" if "k < C" for k
    using row_index_bound [of k C n R] that assms(1) by (simp add: ac_simps)
  then show ?thesis using assms by (simp add: assignSlice_def sliceIndices_def list_all_iff)
qed

lemma mod_eq_sub:
  fixes m n R :: nat
  assumes "n < R" "n \<le> m" "(m - n) mod R = 0"
  shows "m mod R = n"
proof -
  have "m = (m - n) + n" using assms(2) by simp
  then have "m mod R = ((m - n) mod R + n mod R) mod R" by (metis mod_add_eq)
  then show ?thesis using assms by simp
qed

lemma sub_mod_eq:
  fixes m n R :: nat
  assumes "m mod R = n"
  shows "n \<le> m \<and> (m - n) mod R = 0 \<and> (m - n) div R = m div R"
proof -
  have m: "m = m div R * R + n" using assms by (metis div_mult_mod_eq)
  then have "m - n = m div R * R" by simp
  moreover have "n \<le> m" using assms by (metis mod_less_eq_dividend)
  ultimately show ?thesis
    by (metis assms div_mult_self_is_m mod_mult_self2_is_0 mult_0_right mult.commute div_by_0 mod_by_0 not_gr_zero nonzero_mult_div_cancel_right)
qed

lemma rot90Inv_nth:
  "m < R * C \<Longrightarrow> rot90Inv R C a n ! m =
     (if m mod R < n then a ! ((R - 1 - m mod R) * C + m div R) else False)"
  by (simp add: rot90Inv_def)

lemma rot90Body_step:
  assumes "n < R" "length a = R * C"
  shows "rot90Body R C a n (rot90Inv R C a n) = Some (rot90Inv R C a (Suc n))"
proof -
  let ?v = "map (\<lambda>k. a ! ((R - n - 1) * C + k)) [0..<C]"
  let ?b = "rot90Inv R C a n"
  have rd: "readSlice a ((R - n - 1) * C) C 1 = Some ?v"
    using assms readSlice_row [of "R - n - 1" R a C] by simp
  have wr: "assignSlice n C R ?v ?b = Some (fold (\<lambda>k b. b[n + k * R := ?v ! k]) [0..<C] ?b)"
    using assms by (intro assignSlice_col) (auto simp: rot90Inv_def)
  have "fold (\<lambda>k b. b[n + k * R := ?v ! k]) [0..<C] ?b = rot90Inv R C a (Suc n)"
  proof (rule nth_equalityI)
    show "length (fold (\<lambda>k b. b[n + k * R := ?v ! k]) [0..<C] ?b) = length (rot90Inv R C a (Suc n))"
      by (simp add: length_fold_update rot90Inv_def)
  next
    fix m assume "m < length (fold (\<lambda>k b. b[n + k * R := ?v ! k]) [0..<C] ?b)"
    then have m: "m < R * C" by (simp add: length_fold_update rot90Inv_def)
    have R: "0 < R" using assms(1) by simp
    have divC: "m div R < C" using m R by (simp add: less_mult_imp_div_less mult.commute)
    have nth: "fold (\<lambda>k b. b[n + k * R := ?v ! k]) [0..<C] ?b ! m =
           (if n \<le> m \<and> (m - n) mod R = 0 \<and> (m - n) div R < C
            then ?v ! ((m - n) div R) else ?b ! m)"
      using R m by (intro fold_update_nth) (simp_all add: rot90Inv_def)
    show "fold (\<lambda>k b. b[n + k * R := ?v ! k]) [0..<C] ?b ! m = rot90Inv R C a (Suc n) ! m"
    proof (cases "m mod R = n")
      case True
      from sub_mod_eq [OF True] have s: "n \<le> m" "(m - n) mod R = 0" "(m - n) div R = m div R"
        by auto
      show ?thesis using s divC m True by (subst nth) (simp add: rot90Inv_def)
    next
      case False
      have "\<not> (n \<le> m \<and> (m - n) mod R = 0)"
      proof
        assume h: "n \<le> m \<and> (m - n) mod R = 0"
        have "m mod R = n" by (rule mod_eq_sub [OF assms(1)]) (simp_all add: h)
        with False show False by simp
      qed
      then have c: "(n \<le> m \<and> (m - n) mod R = 0 \<and> (m - n) div R < C) = False" by simp
      have lt: "(m mod R < Suc n) = (m mod R < n)" using False by (simp add: less_Suc_eq)
      show ?thesis
        unfolding nth c rot90Inv_nth [OF m] lt by (rule if_False)
    qed
  qed
  then show ?thesis unfolding rot90Body_def rd bind.bind_lunit wr by (rule arg_cong)
qed

lemma rot90_loop:
  assumes "n \<le> R" "length a = R * C"
  shows "forEach [0..<n] (rot90Body R C a) (replicate (R * C) False) = Some (rot90Inv R C a n)"
  using assms(1)
proof (induction n)
  case 0
  show ?case by (simp add: rot90Inv_def map_replicate_const)
next
  case (Suc n)
  then have "n < R" "n \<le> R" by simp_all
  then show ?case using Suc.IH rot90Body_step [OF \<open>n < R\<close> assms(2)]
    by (simp add: forEach_append)
qed

lemma rot90Inv_full: "rot90Inv R C a R = rot90Cells R C a"
proof (cases "R = 0")
  case True
  then show ?thesis by (simp add: rot90Inv_def rot90Cells_def)
next
  case False
  then show ?thesis by (simp add: rot90Inv_def rot90Cells_def)
qed

lemma rotate90_cells:
  assumes "wellFormed g"
  shows "rotate90 g =
           Some \<lparr>center = (rows g - snd (center g) - 1, fst (center g)),
                 rows = cols g, cols = rows g,
                 arr = rot90Cells (unat (rows g)) (unat (cols g)) (arr g)\<rparr>"
proof -
  let ?R = "unat (rows g)" and ?C = "unat (cols g)"
  have len: "length (arr g) = ?R * ?C" and small: "?R * ?C < 2 ^ 32"
    using assms by (simp_all add: wellFormed_def)
  have body: "Option.bind
                (readSlice (arr g) (unat ((rows g - word_of_nat n - 1) * cols g)) ?C 1)
                (\<lambda>v. assignSlice (unat (word_of_nat n :: 32 word)) ?C ?R v s)
              = rot90Body ?R ?C (arr g) n s" if "n \<in> set [0..<?R]" for n s
  proof -
    have n: "n < ?R" using that by simp
    show ?thesis
      by (simp only: rot90Body_def unat_index [OF n] unat_rev_index_times [OF n small])
  qed
  have "forEach (indexRange (rows g))
          (\<lambda>i newArr. Option.bind
             (readSlice (arr g) (unat ((rows g - i - 1) * cols g)) ?C 1)
             (\<lambda>v. assignSlice (unat i) ?C ?R v newArr))
          (replicate (length (arr g)) False)
        = forEach [0..<?R] (rot90Body ?R ?C (arr g)) (replicate (?R * ?C) False)"
    unfolding indexRange_def forEach_map len
    by (rule forEach_cong) (rule body)
  also have "\<dots> = Some (rot90Cells ?R ?C (arr g))"
    using rot90_loop [OF order_refl len] by (simp add: rot90Inv_full)
  finally show ?thesis by (simp add: rotate90_def)
qed

lemma rot90Cells_length: "length (rot90Cells R C a) = R * C"
  by (simp add: rot90Cells_def)

lemma rot90Cells_nth:
  "m < R * C \<Longrightarrow> rot90Cells R C a ! m = a ! ((R - 1 - m mod R) * C + m div R)"
  by (simp add: rot90Cells_def)

lemma rev_index:
  fixes R C m :: nat
  assumes "m < R * C"
  shows "(R - 1 - m div C) * C + (C - 1 - m mod C) = R * C - Suc m"
proof -
  have C: "0 < C" using assms by (cases C) auto
  let ?q = "m div C" and ?r = "m mod C"
  have q: "?q < R" using assms C by (simp add: less_mult_imp_div_less)
  have r: "?r < C" using C by simp
  have "(R - 1 - ?q) * C + C + ?q * C = (R - 1 - ?q + 1 + ?q) * C"
    by (simp add: add_mult_distrib)
  also have "R - 1 - ?q + 1 + ?q = R" using q by simp
  finally have 1: "(R - 1 - ?q) * C + C + ?q * C = R * C" .
  have lin: "X + (C - 1 - r) + Suc (Q + r) = X + C + Q" if "r < C" for X Q r :: nat
    using that by arith
  have "(R - 1 - ?q) * C + (C - 1 - ?r) + Suc (?q * C + ?r) = (R - 1 - ?q) * C + C + ?q * C"
    using r by (rule lin)
  then have "(R - 1 - ?q) * C + (C - 1 - ?r) + Suc m = R * C"
    unfolding 1 div_mult_mod_eq .
  then show ?thesis by linarith
qed

lemma rot90Cells_twice:
  assumes "length a = R * C"
  shows "rot90Cells C R (rot90Cells R C a) = rev a"
proof (rule nth_equalityI)
  show "length (rot90Cells C R (rot90Cells R C a)) = length (rev a)"
    using assms by (simp add: rot90Cells_length mult.commute)
next
  fix m assume "m < length (rot90Cells C R (rot90Cells R C a))"
  then have m: "m < C * R" by (simp add: rot90Cells_length)
  then have m': "m < R * C" by (simp add: mult.commute)
  have C: "0 < C" using m by (cases C) auto
  let ?q = "m div C" and ?r = "m mod C"
  have q: "?q < R" using m' C by (simp add: less_mult_imp_div_less)
  have r: "C - 1 - ?r < C" using C by simp
  let ?m1 = "(C - 1 - ?r) * R + ?q"
  have m1: "?m1 < C * R" using r q by (rule row_index_bound)
  then have m1': "?m1 < R * C" by (simp add: mult.commute)
  have md: "?m1 mod R = ?q" "?m1 div R = C - 1 - ?r" using q by simp_all
  have "rot90Cells C R (rot90Cells R C a) ! m = rot90Cells R C a ! ?m1"
    using m by (rule rot90Cells_nth)
  also have "\<dots> = a ! ((R - 1 - ?m1 mod R) * C + ?m1 div R)"
    using m1' by (rule rot90Cells_nth)
  also have "\<dots> = a ! ((R - 1 - ?q) * C + (C - 1 - ?r))" by (simp only: md)
  also have "\<dots> = a ! (R * C - Suc m)" by (simp only: rev_index [OF m'])
  also have "\<dots> = rev a ! m" using m' assms by (simp add: rev_nth)
  finally show "rot90Cells C R (rot90Cells R C a) ! m = rev a ! m" .
qed

lemma rotate90_wellFormed:
  assumes "wellFormed g"
  shows "wellFormed \<lparr>center = c, rows = cols g, cols = rows g,
                       arr = rot90Cells (unat (rows g)) (unat (cols g)) (arr g)\<rparr>"
  using assms by (simp add: wellFormed_def rot90Cells_length mult.commute)

text \<open>
  C5. For every well-formed grid, four applications of \<^verbatim>\<open>rotate90\<close> are all defined
  and give the grid back: the same \<^verbatim>\<open>rows\<close> and \<^verbatim>\<open>cols\<close>, the same cells and the
  same origin.
\<close>

theorem rotate90_four_times:
  assumes "wellFormed g"
  shows "Option.bind (Option.bind (Option.bind (rotate90 g) rotate90) rotate90) rotate90 = Some g"
proof -
  let ?R = "unat (rows g)" and ?C = "unat (cols g)"
  have len: "length (arr g) = ?R * ?C" using assms by (simp add: wellFormed_def)
  let ?a1 = "rot90Cells ?R ?C (arr g)"
  let ?g1 = "\<lparr>center = (rows g - snd (center g) - 1, fst (center g)),
              rows = cols g, cols = rows g, arr = ?a1\<rparr>"
  have 1: "rotate90 g = Some ?g1" using assms by (rule rotate90_cells)
  have wf1: "wellFormed ?g1" using assms by (rule rotate90_wellFormed)
  let ?g2 = "\<lparr>center = (cols g - fst (center g) - 1, rows g - snd (center g) - 1),
              rows = rows g, cols = cols g, arr = rev (arr g)\<rparr>"
  have 2: "rotate90 ?g1 = Some ?g2"
    using rotate90_cells [OF wf1] by (simp add: rot90Cells_twice [OF len])
  have wf2: "wellFormed ?g2" using assms by (simp add: wellFormed_def)
  let ?a3 = "rot90Cells ?R ?C (rev (arr g))"
  let ?g3 = "\<lparr>center = (snd (center g), cols g - fst (center g) - 1),
              rows = cols g, cols = rows g, arr = ?a3\<rparr>"
  have 3: "rotate90 ?g2 = Some ?g3"
    using rotate90_cells [OF wf2] by simp
  have wf3: "wellFormed ?g3" using rotate90_wellFormed [OF wf2] by simp
  have len2: "length (rev (arr g)) = ?R * ?C" using len by simp
  have 4: "rotate90 ?g3 = Some g"
    using rotate90_cells [OF wf3] by (simp add: rot90Cells_twice [OF len2])
  show ?thesis by (simp add: 1 2 3 4)
qed

theorem rotate90_four_times_witness:
  "wellFormed \<lparr>center = (2, 1), rows = 2, cols = 3,
               arr = [True, False, False, False, True, True]\<rparr>
   \<and> Option.bind (Option.bind (Option.bind
        (rotate90 \<lparr>center = (2, 1), rows = 2, cols = 3,
                    arr = [True, False, False, False, True, True]\<rparr>)
        rotate90) rotate90) rotate90
     = Some \<lparr>center = (2, 1), rows = 2, cols = 3,
               arr = [True, False, False, False, True, True]\<rparr>"
proof -
  have wf: "wellFormed \<lparr>center = (2, 1), rows = 2, cols = 3,
                         arr = [True, False, False, False, True, True]\<rparr>"
    by (simp add: wellFormed_def)
  show ?thesis using wf rotate90_four_times [OF wf] by simp
qed

text \<open>
  C6, evaluated on the code. \<^verbatim>\<open>mirror\<close> writes through \<^verbatim>\<open>std::slice(i, cols, rows)\<close>,
  which is the column \<open>i\<close> of a square grid only: on the 2 x 1 grid with its one
  active cell in the second row the first \<^verbatim>\<open>mirror\<close> already loses the cell, so two
  of them do not give the grid back, and on the 2 x 3 grid the slice leaves the array.
  \<^verbatim>\<open>transpose\<close> keeps \<^verbatim>\<open>rows\<close> and \<^verbatim>\<open>cols\<close> unswapped, so on the 2 x 3 grid two of
  them permute the cells. \<^verbatim>\<open>flip\<close> reverses the rows but reflects the \<open>x\<close> component
  of the origin, and \<^verbatim>\<open>mirror\<close> reflects the \<open>y\<close> component.
\<close>

theorem mirror_transpose_not_involutions:
  "mirror \<lparr>center = (0, 1), rows = 2, cols = 1, arr = [False, True]\<rparr>
     = Some \<lparr>center = (0, 0), rows = 2, cols = 1, arr = [False, False]\<rparr>
   \<and> Option.bind (mirror \<lparr>center = (0, 1), rows = 2, cols = 1, arr = [False, True]\<rparr>) mirror
     = Some \<lparr>center = (0, 1), rows = 2, cols = 1, arr = [False, False]\<rparr>
   \<and> mirror \<lparr>center = (2, 1), rows = 2, cols = 3,
               arr = [True, False, False, False, True, True]\<rparr> = None
   \<and> Option.bind (transpose_area \<lparr>center = (2, 1), rows = 2, cols = 3,
                         arr = [True, False, False, False, True, True]\<rparr>) transpose_area
     = Some \<lparr>center = (2, 1), rows = 2, cols = 3,
               arr = [True, True, False, False, False, True]\<rparr>
   \<and> flip \<lparr>center = (2, 1), rows = 2, cols = 3,
             arr = [True, False, False, False, True, True]\<rparr>
     = Some \<lparr>center = (0, 1), rows = 2, cols = 3,
               arr = [False, True, True, True, False, False]\<rparr>"
  by (simp add: mirror_def flip_def transpose_area_def indexRange_def readSlice_def
      assignSlice_def sliceIndices_def readGslice_def gsliceIndices_def upt_rec)

section \<open>The damage pipeline: auxiliary lemmas\<close>

subsection \<open>Evaluation of the arithmetic and of the sequencing\<close>

lemma bitLength_numeral [simp]:
  "bitLength 0 = 0"
  "bitLength (Suc 0) = 1"
  "bitLength (numeral k) = Suc (bitLength (numeral k div 2))"
  by (simp_all add: bitLength.simps)

lemmas double_eval = toDouble_def binade_def roundAway_def roundEven_def pow2_def roundScaled_def
  toInt32_def addRounded_def absSum_def truncDiv2_def Let_def

lemmas monad_eval = returnM_def bindM_def defined_def readWorld_def callWorld_def effect_def
  whenM_def

subsection \<open>The calls a step adds to the trace\<close>

lemma extendsI:
  "(\<And>w l r w' l'. m (w, l) = Some (r, (w', l')) \<Longrightarrow> \<exists>new. l' = l @ new \<and> list_all P new)
   \<Longrightarrow> extends P m"
  by (simp add: extends_def)

lemma extendsD:
  "extends P m \<Longrightarrow> m (w, l) = Some (r, (w', l')) \<Longrightarrow> \<exists>new. l' = l @ new \<and> list_all P new"
  by (simp add: extends_def)

lemma extends_returnM [intro!]: "extends P (returnM x)"
  by (simp add: extends_def returnM_def)

lemma extends_defined [intro!]: "extends P (defined v)"
  by (auto simp: extends_def defined_def split: option.splits)

lemma extends_readWorld [intro!]: "extends P (readWorld f)"
  by (simp add: extends_def readWorld_def)

lemma extends_callWorld [intro!]: "P c \<Longrightarrow> extends P (callWorld c f)"
  by (simp add: extends_def callWorld_def)

lemma extends_effect [intro!]: "P c \<Longrightarrow> extends P (effect env c)"
  by (simp add: effect_def extends_callWorld)

lemma extends_bindM [intro!]:
  assumes "extends P m" "\<And>x. extends P (f x)"
  shows "extends P (bindM m f)"
proof (rule extendsI)
  fix w l r w' l'
  assume "bindM m f (w, l) = Some (r, (w', l'))"
  then obtain x w1 l1 where 1: "m (w, l) = Some (x, (w1, l1))" and 2: "f x (w1, l1) = Some (r, (w', l'))"
    by (auto simp: bindM_def split: option.splits)
  from extendsD [OF assms(1) 1] obtain n1 where n1: "l1 = l @ n1" "list_all P n1" by blast
  from extendsD [OF assms(2) 2] obtain n2 where n2: "l' = l1 @ n2" "list_all P n2" by blast
  show "\<exists>new. l' = l @ new \<and> list_all P new"
    using n1 n2 by (intro exI [of _ "n1 @ n2"]) simp
qed

lemma extends_whenM [intro!]: "(b \<Longrightarrow> extends P m) \<Longrightarrow> extends P (whenM b m)"
  by (simp add: whenM_def extends_returnM)

lemma extends_if [intro!]:
  "(b \<Longrightarrow> extends P m) \<Longrightarrow> (\<not> b \<Longrightarrow> extends P n) \<Longrightarrow> extends P (if b then m else n)"
  by simp

lemma extends_case_option [intro!]:
  "(v = None \<Longrightarrow> extends P m) \<Longrightarrow> (\<And>x. v = Some x \<Longrightarrow> extends P (f x))
   \<Longrightarrow> extends P (case v of None \<Rightarrow> m | Some x \<Rightarrow> f x)"
  by (cases v) simp_all

lemma extends_case_prod [intro!]:
  "(\<And>a b. extends P (f a b)) \<Longrightarrow> extends P (case p of (a, b) \<Rightarrow> f a b)"
  by (cases p) simp

lemma extends_forM [intro!]: "(\<And>x. extends P (body x)) \<Longrightarrow> extends P (forM xs body)"
  by (induction xs) (auto intro!: extends_bindM extends_returnM)

lemma extends_Let [intro!]: "extends P (f v) \<Longrightarrow> extends P (Let v f)"
  by simp

lemma extends_rollAgainst [intro!]: "P c \<Longrightarrow> extends P (rollAgainst c random chance skill)"
  unfolding rollAgainst_def by (intro extends_if extends_bindM extends_callWorld extends_returnM)

lemma extends_scaleComponent [intro!]: "extends P (scaleComponent env p d ty v)"
  unfolding scaleComponent_def by blast

lemma extends_statScaling [intro!]: "extends P (statScaling env cp d damage)"
  unfolding statScaling_def by blast

lemma extends_applyConditions [intro!]:
  "(\<And>c. P (AddCombatCondition target c caster)) \<Longrightarrow> extends P (applyConditions env caster target params)"
  unfolding applyConditions_def by blast

lemma extends_dispel [intro!]:
  "P (RemoveCondition target CONDITION_PARALYZE) \<Longrightarrow> P (RemoveCombatCondition target (dispelType params))
   \<Longrightarrow> extends P (dispel env target params)"
  unfolding dispel_def by blast

lemma notUniform_simps [simp]:
  "notUniform (CombatBlockHit d c t a b e f)"
  "notUniform (CombatChangeHealth c t d)"
  "notUniform (CombatChangeMana c t d)"
  "notUniform NormalRandom"
  "\<not> notUniform UniformRandom"
  "notUniform (AddDistanceEffect cr de sh)"
  "notUniform (AddMagicEffect cr me)"
  "notUniform (SendMagicEffect cr me)"
  "notUniform (AddCombatCondition cr co ow)"
  "notUniform (RemoveCondition cr ct)"
  "notUniform (RemoveCombatCondition cr ct)"
  "notUniform (OnTargetCombat c t)"
  "notUniform GetSpectators"
  "notUniform (GetCombatDamage c ot)"
  "notUniform (CombatTileEffects c ti)"
  "notUniform (CanDoCombatTile c ti ag)"
  "notUniform (CanDoCombatCreature c t)"
  by (simp_all add: notUniform_def)

lemma quiet_areaLeech: "extends notUniform (areaLeech env cp maxD tot damage)"
  unfolding areaLeech_def by (intro extends_case_option extends_if extends_Let extends_bindM
      extends_returnM extends_readWorld extends_rollAgainst extends_defined extends_callWorld
      extends_effect extends_case_prod) simp_all

lemma quiet_areaTargetDamage:
  "extends notUniform (areaTargetDamage env caster cp critP critS creature damage)"
  unfolding areaTargetDamage_def areaPlayerReduction_def
  by (intro extends_case_option extends_if extends_Let extends_bindM
      extends_returnM extends_readWorld extends_defined extends_callWorld
      extends_effect extends_case_prod extends_statScaling) simp_all

lemma quiet_areaHit: "extends notUniform (areaHit env caster creature damageCopy params)"
  unfolding areaHit_def targetBlockHit_def
  by (intro extends_case_option extends_if extends_Let extends_bindM
      extends_returnM extends_readWorld extends_defined extends_callWorld
      extends_effect extends_case_prod) simp_all

lemma quiet_areaSuccess:
  "extends notUniform (areaSuccess env caster creature damage damageCopy params maxD tot)"
  unfolding areaSuccess_def
  by (intro extends_bindM extends_whenM extends_applyConditions extends_dispel extends_defined
      extends_effect extends_returnM) simp_all

lemma quiet_areaStep:
  "extends notUniform (areaStep env params caster critP critS creature acc)"
  unfolding areaStep_def
  by (intro extends_case_prod extends_bindM extends_case_option extends_if extends_returnM
      quiet_areaTargetDamage quiet_areaHit quiet_areaSuccess quiet_areaLeech)

lemma quiet_areaLoop:
  "extends notUniform (areaLoop env params caster critP critS creatures acc)"
  by (induction creatures arbitrary: acc) (auto intro!: extends_bindM extends_returnM quiet_areaStep)

lemma quiet_isEligible: "extends notUniform (isEligible env params caster creature)"
  unfolding isEligible_def by (intro extends_if extends_returnM extends_callWorld) simp_all

lemma quiet_tileTargets:
  "extends notUniform (tileTargets env params caster tile topC creatures)"
  by (induction creatures)
    (auto intro!: extends_bindM extends_returnM extends_readWorld extends_if quiet_isEligible)

lemma quiet_collectTargets:
  "extends notUniform (collectTargets env params caster tiles)"
  by (induction tiles)
    (auto intro!: extends_bindM extends_returnM extends_readWorld extends_if extends_callWorld
       extends_effect extends_case_option quiet_tileTargets)

subsection \<open>The critical roll of an area\<close>

lemma areaCritical_log:
  assumes "areaCritical env cp damage (w, l) = Some (r, (w1, l1))"
  shows "l1 = l \<or> l1 = l @ [UniformRandom]"
  using assms
  by (auto simp: areaCritical_def rollAgainst_def returnM_def bindM_def defined_def readWorld_def
      callWorld_def split: option.splits if_splits)

lemma areaCritical_eq:
  assumes "\<not> critical damage" "primaryType damage \<noteq> COMBAT_HEALING"
    "origin damage \<noteq> ORIGIN_CONDITION" "uniform_random env w = (roll, w1)"
  shows "areaCritical env (Some p) damage (w, l) =
     (let chance = getSpecialSkill env w p SPECIALSKILL_CRITICALHITCHANCE;
          skill = getSpecialSkill env w p SPECIALSKILL_CRITICALHITAMOUNT
      in if chance > 0 \<and> skill > 0 then
           (if roll \<le> uint chance then
              (case (toInt32 (roundScaled (primaryValue damage) (uint skill) 100),
                     toInt32 (roundScaled (secondaryValue damage) (uint skill) 100)) of
                 (Some criticalPrimary, Some criticalSecondary) \<Rightarrow>
                   Some ((criticalPrimary, criticalSecondary, damage\<lparr>critical := True\<rparr>),
                         (w1, l @ [UniformRandom]))
               | _ \<Rightarrow> None)
            else Some ((0, 0, damage), (w1, l @ [UniformRandom])))
         else Some ((0, 0, damage), (w, l)))"
  using assms
  by (auto simp: areaCritical_def rollAgainst_def returnM_def bindM_def defined_def readWorld_def
      callWorld_def Let_def split: option.splits)

lemma doAreaCombat_log:
  assumes "doAreaCombat env caster position tiles damage params (w, []) = Some (r, (w', calls))"
  shows "\<exists>rest. (calls = UniformRandom # rest \<or> calls = rest) \<and> list_all notUniform rest"
proof -
  let ?rest = "\<lambda>criticalPrimary criticalSecondary damage.
     bindM (effect env GetSpectators) (\<lambda>_.
     bindM (postCombatEffects env caster position params) (\<lambda>_.
     bindM (collectTargets env params caster tiles) (\<lambda>toDamageCreatures.
     areaLoop env params caster criticalPrimary criticalSecondary toDamageCreatures
       (0, 0, damage))))"
  have quiet: "extends notUniform (?rest a b d)" for a b d
    unfolding postCombatEffects_def
    by (intro extends_bindM extends_effect extends_case_option extends_whenM extends_returnM
        quiet_collectTargets quiet_areaLoop) simp_all
  from assms obtain cp cs d w1 l1 where
    1: "areaCritical env (casterPlayerOf env caster) damage (w, []) = Some ((cp, cs, d), (w1, l1))"
    and 2: "?rest cp cs d (w1, l1) = Some (r, (w', calls))"
    by (auto simp: doAreaCombat_def bindM_def [of "areaCritical env (casterPlayerOf env caster) damage"]
        split: option.splits)
  from extendsD [OF quiet 2] obtain new where new: "calls = l1 @ new" "list_all notUniform new"
    by blast
  from areaCritical_log [OF 1] have "l1 = [] \<or> l1 = [UniformRandom]" by simp
  then show ?thesis using new by auto
qed

subsection \<open>Stat scaling and the critical hit of a single target\<close>

lemma toDouble_0 [simp]: "toDouble 0 = 0"
  by (simp add: toDouble_def)

lemma roundAway_0 [simp]: "roundAway 0 = 0"
  by (simp add: roundAway_def)

lemma roundScaled_stat_0 [simp]: "roundScaled v 0 d = 0"
  by (simp add: roundScaled_def)

lemma addRounded_eq:
  "addRounded v r =
     (if - (2 ^ 31) \<le> r \<and> r < 2 ^ 31 \<and> - (2 ^ 31) \<le> v + r \<and> v + r < 2 ^ 31
      then Some (v + r) else None)"
  by (simp add: addRounded_def toInt32_def)

lemma toInt32_Some: "toInt32 i = Some j \<Longrightarrow> j = i"
  by (simp add: toInt32_def split: if_splits)

lemma scaleComponent_eq:
  "scaleComponent env p d ty v (w, l) =
     (if getCharacterStat env w p (statFor ty) \<noteq> 0
      then map_option (\<lambda>v'. (v', (w, l)))
             (addRounded v (roundScaled v (getCharacterStat env w p (statFor ty)) d))
      else Some (v, (w, l)))"
  by (simp add: scaleComponent_def statFor_def bindM_def readWorld_def defined_def returnM_def
      split: option.splits)

lemma statScaling_eq:
  "statScaling env (Some p) d damage (w, l) =
     (case (if getCharacterStat env w p (statFor (primaryType damage)) \<noteq> 0
            then addRounded (primaryValue damage)
                   (roundScaled (primaryValue damage)
                      (getCharacterStat env w p (statFor (primaryType damage))) d)
            else Some (primaryValue damage),
            if getCharacterStat env w p (statFor (secondaryType damage)) \<noteq> 0
            then addRounded (secondaryValue damage)
                   (roundScaled (secondaryValue damage)
                      (getCharacterStat env w p (statFor (secondaryType damage))) d)
            else Some (secondaryValue damage)) of
        (Some pv, Some sv) \<Rightarrow> Some (damage\<lparr>primaryValue := pv, secondaryValue := sv\<rparr>, (w, l))
      | _ \<Rightarrow> None)"
  by (simp add: statScaling_def scaleComponent_eq bindM_def returnM_def split: option.splits)

lemma statScaling_None [simp]: "statScaling env None d damage s = Some (damage, s)"
  by (simp add: statScaling_def returnM_def)

lemma statScaling_pure:
  "statScaling env cp d damage s = Some (d1, s1) \<Longrightarrow>
     s1 = s \<and> primaryType d1 = primaryType damage \<and> secondaryType d1 = secondaryType damage
     \<and> critical d1 = critical damage \<and> origin d1 = origin damage \<and> leeched d1 = leeched damage
     \<and> blockType d1 = blockType damage"
  by (cases cp; cases s) (auto simp: statScaling_eq split: option.splits if_splits)

lemma statScaling_values:
  assumes "statScaling env (Some p) d damage (w, l) = Some (d1, s1)"
  shows "primaryValue d1 = primaryValue damage
           + roundScaled (primaryValue damage)
               (getCharacterStat env w p (statFor (primaryType damage))) d"
    and "secondaryValue d1 = secondaryValue damage
           + roundScaled (secondaryValue damage)
               (getCharacterStat env w p (statFor (secondaryType damage))) d"
  using assms
  by (auto simp: statScaling_eq addRounded_eq split: option.splits if_splits)


lemma targetCritical_skip:
  "critical damage \<or> primaryType damage = COMBAT_HEALING \<or> origin damage = ORIGIN_CONDITION
   \<Longrightarrow> targetCritical env p damage s = Some (damage, s)"
  by (auto simp: targetCritical_def returnM_def)

lemma targetHit_manadrain:
  "primaryType damage = COMBAT_MANADRAIN \<Longrightarrow>
   targetHit env caster target damage params (w, l) =
     Some ((Some (fst (fst (combatChangeMana env caster target damage w))),
            snd (fst (combatChangeMana env caster target damage w))),
           (snd (combatChangeMana env caster target damage w),
            l @ [CombatChangeMana caster target damage]))"
  by (simp add: targetHit_def bindM_def callWorld_def returnM_def split: prod.splits)

lemma targetHit_blocked:
  assumes "primaryType damage \<noteq> COMBAT_MANADRAIN"
    "statScaling env (casterPlayerOf env caster) 100 damage s = Some (d1, s1)"
    "targetBlockHit env caster target d1 params s1 = Some ((True, d2), s2)"
  shows "targetHit env caster target damage params s = Some ((None, d2), s2)"
  using assms by (simp add: targetHit_def bindM_def returnM_def)


lemma extends_targetPlayerReduction [intro!]:
  "extends P (targetPlayerReduction env p target damage)"
  unfolding targetPlayerReduction_def by blast

lemma extends_targetCritical [intro!]:
  "P NormalRandom \<Longrightarrow> extends P (targetCritical env p damage)"
  unfolding targetCritical_def by blast

lemma targetHit_blockHit_first:
  assumes "targetHit env caster target damage params (w, l) = Some (r, (w', l'))"
    "primaryType damage \<noteq> COMBAT_MANADRAIN"
  shows "\<exists>d1 rest. statScaling env (casterPlayerOf env caster) 100 damage (w, l) = Some (d1, (w, l))
           \<and> l' = l @ CombatBlockHit d1 caster target (blockedByShield params)
                        (blockedByArmor params) (itemId params \<noteq> 0) (ignoreResistances params)
                      # rest"
proof -
  from assms obtain d1 s1 where 1: "statScaling env (casterPlayerOf env caster) 100 damage (w, l) = Some (d1, s1)"
    by (auto simp: targetHit_def bindM_def split: option.splits)
  then have s1: "s1 = (w, l)" using statScaling_pure by blast
  let ?c = "CombatBlockHit d1 caster target (blockedByShield params)
              (blockedByArmor params) (itemId params \<noteq> 0) (ignoreResistances params)"
  let ?k = "\<lambda>(blocked, damage).
          if blocked then returnM (None, damage)
          else
            bindM (case casterPlayerOf env caster of
                     None \<Rightarrow> returnM damage
                   | Some p \<Rightarrow>
                       bindM (targetPlayerReduction env p target damage) (targetCritical env p))
              (\<lambda>damage.
            bindM (callWorld (CombatChangeHealth caster target damage)
                     (combatChangeHealth env caster target damage)) (\<lambda>(success, damage).
            returnM (Some success, damage)))"
  have k: "extends (\<lambda>_. True) (?k x)" for x
    by (intro extends_case_prod extends_if extends_returnM extends_bindM extends_case_option
        extends_targetPlayerReduction extends_targetCritical extends_callWorld) simp_all
  from assms 1 s1 obtain x w2 where
    2: "?k x (w2, l @ [?c]) = Some (r, (w', l'))"
    by (auto simp: targetHit_def bindM_def targetBlockHit_def callWorld_def split: option.splits)
  from extendsD [OF k 2] obtain new where "l' = (l @ [?c]) @ new" by blast
  then show ?thesis using 1 s1 by auto
qed

subsection \<open>The first call of a step of the area loop\<close>

lemma areaPlayerReduction_eq:
  "areaPlayerReduction env caster cp creature d (w, l) =
     (if (primaryValue d < 0 \<or> secondaryValue d < 0) \<and> caster \<noteq> None \<and> cp \<noteq> None
         \<and> isPlayer env creature \<and> cp \<noteq> Some creature \<and> getSkull env w creature \<noteq> SKULL_BLACK
      then Some ((True, d\<lparr>primaryValue := truncDiv2 (primaryValue d),
                           secondaryValue := truncDiv2 (secondaryValue d)\<rparr>), (w, l))
      else Some ((False, d), (w, l)))"
  by (simp add: areaPlayerReduction_def bindM_def readWorld_def returnM_def)

lemma areaTargetDamage_eq:
  assumes "statScaling env cp 230 damage s = Some (d1, s1)"
    "areaPlayerReduction env caster cp creature d1 s1 = Some ((reduced, d2), (w2, l2))"
  shows "areaTargetDamage env caster cp criticalPrimary criticalSecondary creature damage s =
     (if critical damage then
        (case (toInt32 (primaryValue d2
                 + (if reduced then truncDiv2 criticalPrimary else criticalPrimary)),
               toInt32 (secondaryValue d2
                 + (if reduced then truncDiv2 criticalSecondary else criticalSecondary))) of
           (Some pv, Some sv) \<Rightarrow>
             Some (d2\<lparr>primaryValue := pv, secondaryValue := sv\<rparr>,
                   (perform env (AddMagicEffect creature CONST_ME_CRITICAL_DAMAGE) w2,
                    l2 @ [AddMagicEffect creature CONST_ME_CRITICAL_DAMAGE]))
         | _ \<Rightarrow> None)
      else Some (d2, (w2, l2)))"
proof -
  have c1: "critical d1 = critical damage" using statScaling_pure [OF assms(1)] by simp
  have "critical d2 = critical d1"
    using assms(2) by (cases s1) (auto simp: areaPlayerReduction_eq split: if_splits)
  then have c2: "critical d2 = critical damage" using c1 by simp
  show ?thesis using assms c2
    by (auto simp: areaTargetDamage_def bindM_def returnM_def defined_def effect_def callWorld_def
        split: option.splits)
qed

lemma bindM_assoc: "bindM (bindM m f) g = bindM m (\<lambda>x. bindM (f x) g)"
  by (auto simp: bindM_def fun_eq_iff split: option.splits)

lemma bindM_callWorld: "bindM (callWorld c f) g (w, l) = g (fst (f w)) (snd (f w), l @ [c])"
  by (simp add: bindM_def callWorld_def)

lemma bindM_callWorld_first:
  assumes "bindM (callWorld c f) g (w, l) = Some (r, (w', l'))" "\<And>x. extends P (g x)"
  shows "\<exists>new. l' = l @ c # new"
proof -
  from assms(1) have "g (fst (f w)) (snd (f w), l @ [c]) = Some (r, (w', l'))"
    by (simp add: bindM_callWorld)
  from extendsD [OF assms(2) this] show ?thesis by auto
qed

lemma areaHit_first:
  assumes "bindM (areaHit env caster creature dc params) k (w1, l1) = Some (r, (w', l'))"
    "\<And>x. extends (\<lambda>_. True) (k x)"
  shows "\<exists>rest. l' = l1 @ (if primaryType dc \<noteq> COMBAT_MANADRAIN
                        then CombatBlockHit dc caster creature (blockedByShield params)
                               (blockedByArmor params) (itemId params \<noteq> 0)
                               (ignoreResistances params)
                        else CombatChangeMana caster creature dc) # rest"
proof (cases "primaryType dc \<noteq> COMBAT_MANADRAIN")
  case True
  have "\<exists>new. l' = l1 @ CombatBlockHit dc caster creature (blockedByShield params)
                               (blockedByArmor params) (itemId params \<noteq> 0)
                               (ignoreResistances params) # new"
  proof (rule bindM_callWorld_first)
    show "bindM (callWorld (CombatBlockHit dc caster creature (blockedByShield params)
                               (blockedByArmor params) (itemId params \<noteq> 0)
                               (ignoreResistances params))
                 (combatBlockHit env dc caster creature (blockedByShield params)
                    (blockedByArmor params) (itemId params \<noteq> 0) (ignoreResistances params)))
            (\<lambda>x. bindM ((\<lambda>(blocked, damageCopy).
                if blocked then returnM None
                else bindM (callWorld (CombatChangeHealth caster creature damageCopy)
                        (combatChangeHealth env caster creature damageCopy))
                       (\<lambda>r. returnM (Some r))) x) k) (w1, l1) = Some (r, (w', l'))"
      using assms(1) True by (simp add: areaHit_def targetBlockHit_def bindM_assoc)
  next
    fix x :: "bool \<times> CombatDamage"
    show "extends (\<lambda>_. True) (bindM ((\<lambda>(blocked, damageCopy).
                if blocked then returnM None
                else bindM (callWorld (CombatChangeHealth caster creature damageCopy)
                        (combatChangeHealth env caster creature damageCopy))
                       (\<lambda>r. returnM (Some r))) x) k)"
      by (intro extends_bindM extends_case_prod extends_if extends_returnM extends_callWorld
          assms(2)) simp_all
  qed
  then show ?thesis using True by simp
next
  case False
  have "\<exists>new. l' = l1 @ CombatChangeMana caster creature dc # new"
  proof (rule bindM_callWorld_first)
    show "bindM (callWorld (CombatChangeMana caster creature dc)
                   (combatChangeMana env caster creature dc))
            (\<lambda>x. bindM (returnM (Some x)) k) (w1, l1) = Some (r, (w', l'))"
      using assms(1) False by (simp add: areaHit_def bindM_assoc)
  next
    fix x :: "bool \<times> CombatDamage"
    show "extends (\<lambda>_. True) (bindM (returnM (Some x)) k)"
      by (intro extends_bindM extends_returnM assms(2))
  qed
  then show ?thesis using False by simp
qed

lemma areaStep_first_call:
  assumes "areaStep env params caster criticalPrimary criticalSecondary creature
             (maxDamageFound, totalTargets, damage) (w, l) = Some (acc, (w', l'))"
  shows "\<exists>damageCopy w1 l1 rest.
           areaTargetDamage env caster (casterPlayerOf env caster) criticalPrimary criticalSecondary
             creature damage (w, l) = Some (damageCopy, (w1, l1))
           \<and> l' = l1 @ (if primaryType damageCopy \<noteq> COMBAT_MANADRAIN
                        then CombatBlockHit damageCopy caster creature (blockedByShield params)
                               (blockedByArmor params) (itemId params \<noteq> 0)
                               (ignoreResistances params)
                        else CombatChangeMana caster creature damageCopy) # rest"
proof -
  let ?k = "\<lambda>hit.
          case hit of
            None \<Rightarrow> returnM (maxDamageFound, totalTargets, damage)
          | Some (success, damageCopy) \<Rightarrow>
              bindM (if success
                     then areaSuccess env caster creature damage damageCopy params
                            maxDamageFound totalTargets
                     else returnM (maxDamageFound, totalTargets)) (\<lambda>(maxDamageFound, totalTargets).
              bindM (areaLeech env (casterPlayerOf env caster) maxDamageFound totalTargets damage)
                (\<lambda>damage.
              returnM (maxDamageFound, totalTargets, damage)))"
  have k: "extends (\<lambda>_. True) (?k x)" for x
    unfolding areaSuccess_def areaLeech_def
    by (intro extends_case_option extends_case_prod extends_if extends_returnM extends_bindM
        extends_Let extends_readWorld extends_rollAgainst extends_defined extends_callWorld
        extends_effect extends_whenM extends_applyConditions extends_dispel) simp_all
  from assms obtain dc w1 l1 where
    1: "areaTargetDamage env caster (casterPlayerOf env caster) criticalPrimary criticalSecondary
          creature damage (w, l) = Some (dc, (w1, l1))"
    and 2: "bindM (areaHit env caster creature dc params) ?k (w1, l1) = Some (acc, (w', l'))"
    by (auto simp: areaStep_def
        bindM_def [of "areaTargetDamage env caster (casterPlayerOf env caster) criticalPrimary
          criticalSecondary creature damage"] split: option.splits)
  from areaHit_first [OF 2 k] 1 show ?thesis by blast
qed

subsection \<open>\<^verbatim>\<open>doCombat\<close> without a combat type\<close>

lemma dispel_eq:
  "dispel env target params (w, l) =
     Some ((), (perform env (dispelCall target params) w, l @ [dispelCall target params]))"
  by (simp add: dispel_def dispelCall_def effect_def callWorld_def)

lemma effect_eq: "effect env c (w, l) = Some ((), (perform env c w, l @ [c]))"
  by (simp add: effect_def callWorld_def)

lemma callback_eq:
  "\<exists>w'. whenM (hasTargetCallback params) (effect env (OnTargetCombat caster target)) (w, l)
          = Some ((), (w', l @ callbackCalls caster target params))"
  by (simp add: whenM_def effect_eq returnM_def callbackCalls_def)

lemma distance_eq:
  "\<exists>w'. (case caster of
            Some c \<Rightarrow>
              whenM (distanceEffect params \<noteq> CONST_ANI_NONE)
                (effect env (AddDistanceEffect c (ToCreature target) (distanceEffect params)))
          | None \<Rightarrow> returnM ()) (w, l)
          = Some ((), (w', l @ distanceCalls caster target params))"
  by (cases caster) (simp_all add: whenM_def effect_eq returnM_def distanceCalls_def)

lemma doCombat_tail:
  "\<exists>w' tile.
     bindM (dispel env target params) (\<lambda>_.
     bindM (readWorld (\<lambda>w. getTile env w target)) (\<lambda>tile.
     bindM (effect env (CombatTileEffects caster tile)) (\<lambda>_.
     bindM (whenM (hasTargetCallback params) (effect env (OnTargetCombat caster target)))
       (\<lambda>_.
     case caster of
       Some c \<Rightarrow>
         whenM (distanceEffect params \<noteq> CONST_ANI_NONE)
           (effect env (AddDistanceEffect c (ToCreature target) (distanceEffect params)))
     | None \<Rightarrow> returnM ())))) (w, l)
     = Some ((), (w', l @ [dispelCall target params, CombatTileEffects caster tile]
                       @ callbackCalls caster target params
                       @ distanceCalls caster target params))"
proof -
  let ?w1 = "perform env (dispelCall target params) w"
  let ?tile = "getTile env ?w1 target"
  let ?w2 = "perform env (CombatTileEffects caster ?tile) ?w1"
  let ?l2 = "l @ [dispelCall target params, CombatTileEffects caster ?tile]"
  obtain w3 where 3: "whenM (hasTargetCallback params) (effect env (OnTargetCombat caster target))
      (?w2, ?l2) = Some ((), (w3, ?l2 @ callbackCalls caster target params))"
    using callback_eq [where w = ?w2 and l = ?l2] by blast
  obtain w4 where 4: "(case caster of
            Some c \<Rightarrow>
              whenM (distanceEffect params \<noteq> CONST_ANI_NONE)
                (effect env (AddDistanceEffect c (ToCreature target) (distanceEffect params)))
          | None \<Rightarrow> returnM ()) (w3, ?l2 @ callbackCalls caster target params)
          = Some ((), (w4, (?l2 @ callbackCalls caster target params)
                        @ distanceCalls caster target params))"
    using distance_eq [where w = w3 and l = "?l2 @ callbackCalls caster target params"] by blast
  show ?thesis
    apply (rule exI [of _ w4], rule exI [of _ ?tile])
    apply (simp add: bindM_def dispel_eq readWorld_def effect_eq 3)
    apply (simp add: 4 [simplified])
    done
qed

lemma applyConditionsOwned_calls:
  assumes "\<And>w1 w2 ty. isImmune env w1 target ty = isImmune env w2 target ty"
  shows "\<exists>w'. forM conds (\<lambda>condition.
       bindM (readWorld (\<lambda>w. isImmune env w target (conditionType condition))) (\<lambda>immune.
         if Some c = Some target \<or> \<not> immune then
           (case Some c of
              None \<Rightarrow> defined None
            | Some c \<Rightarrow> effect env (AddCombatCondition target condition (Some c)))
         else returnM ())) (w, l)
     = Some ((), (w', l @ map (\<lambda>condition. AddCombatCondition target condition (Some c))
                         (filter (\<lambda>condition. c = target
                                    \<or> \<not> isImmune env w target (conditionType condition)) conds)))"
proof (induction conds arbitrary: w l)
  case Nil
  show ?case by (simp add: returnM_def)
next
  case (Cons a conds)
  show ?case
  proof (cases "c = target \<or> \<not> isImmune env w target (conditionType a)")
    case True
    let ?w1 = "perform env (AddCombatCondition target a (Some c)) w"
    from Cons.IH [of ?w1 "l @ [AddCombatCondition target a (Some c)]"]
    obtain w' where "forM conds (\<lambda>condition.
       bindM (readWorld (\<lambda>w. isImmune env w target (conditionType condition))) (\<lambda>immune.
         if Some c = Some target \<or> \<not> immune then
           (case Some c of
              None \<Rightarrow> defined None
            | Some c \<Rightarrow> effect env (AddCombatCondition target condition (Some c)))
         else returnM ())) (?w1, l @ [AddCombatCondition target a (Some c)])
     = Some ((), (w', (l @ [AddCombatCondition target a (Some c)])
                        @ map (\<lambda>condition. AddCombatCondition target condition (Some c))
                         (filter (\<lambda>condition. c = target
                                    \<or> \<not> isImmune env ?w1 target (conditionType condition)) conds)))"
      by blast
    then show ?thesis using True assms [of ?w1 _ w]
      by (intro exI [of _ w']) (auto simp: bindM_def readWorld_def effect_eq)
  next
    case False
    from Cons.IH [of w l] obtain w' where "forM conds (\<lambda>condition.
       bindM (readWorld (\<lambda>w. isImmune env w target (conditionType condition))) (\<lambda>immune.
         if Some c = Some target \<or> \<not> immune then
           (case Some c of
              None \<Rightarrow> defined None
            | Some c \<Rightarrow> effect env (AddCombatCondition target condition (Some c)))
         else returnM ())) (w, l)
     = Some ((), (w', l @ map (\<lambda>condition. AddCombatCondition target condition (Some c))
                         (filter (\<lambda>condition. c = target
                                    \<or> \<not> isImmune env w target (conditionType condition)) conds)))"
      by blast
    then show ?thesis using False
      by (intro exI [of _ w']) (auto simp: bindM_def readWorld_def returnM_def)
  qed
qed

lemma bindM_Some: "m s = Some (x, s') \<Longrightarrow> bindM m f s = f x s'"
  by (simp add: bindM_def)

lemma bindM_effect: "bindM (effect env c) f (w, l) = f () (perform env c w, l @ [c])"
  by (simp add: bindM_def effect_eq)

lemma bindM_returnM [simp]: "bindM (returnM x) f = f x"
  by (simp add: bindM_def returnM_def)

lemma whenM_simps [simp]: "whenM True m = m" "whenM False m = returnM ()"
  by (simp_all add: whenM_def)

lemma doCombat_melee:
  assumes "combatType params = COMBAT_NONE" "paramsOrigin params = ORIGIN_MELEE"
    "isEligible env params caster target (w, l) = Some (True, (w1, l1))"
  shows "\<exists>w' tile. doCombat env caster target params (w, l) =
           Some ((), (w', l1 @ [GetSpectators, dispelCall target params,
                                CombatTileEffects caster tile]
                          @ callbackCalls caster target params
                          @ distanceCalls caster target params))"
proof -
  from doCombat_tail [of env target params caster "perform env GetSpectators w1" "l1 @ [GetSpectators]"]
  obtain w' tile where "bindM (dispel env target params) (\<lambda>_.
     bindM (readWorld (\<lambda>w. getTile env w target)) (\<lambda>tile.
     bindM (effect env (CombatTileEffects caster tile)) (\<lambda>_.
     bindM (whenM (hasTargetCallback params) (effect env (OnTargetCombat caster target)))
       (\<lambda>_.
     case caster of
       Some c \<Rightarrow>
         whenM (distanceEffect params \<noteq> CONST_ANI_NONE)
           (effect env (AddDistanceEffect c (ToCreature target) (distanceEffect params)))
     | None \<Rightarrow> returnM ())))) (perform env GetSpectators w1, l1 @ [GetSpectators])
     = Some ((), (w', (l1 @ [GetSpectators]) @ [dispelCall target params, CombatTileEffects caster tile]
                       @ callbackCalls caster target params
                       @ distanceCalls caster target params))" by blast
  then show ?thesis using assms(1,2)
    by (intro exI [of _ w'] exI [of _ tile])
      (simp add: doCombat_def
        bindM_Some [of "isEligible env params caster target" "(w, l)", OF assms(3)] bindM_effect)
qed

lemma doCombat_not_melee:
  assumes "combatType params = COMBAT_NONE" "paramsOrigin params \<noteq> ORIGIN_MELEE"
    "isEligible env params (Some c) target (w, l) = Some (True, (w1, l1))"
    "\<And>w1 w2 ty. isImmune env w1 target ty = isImmune env w2 target ty"
  shows "\<exists>w' tile. doCombat env (Some c) target params (w, l) =
           Some ((), (w', l1 @ GetSpectators
                          # map (\<lambda>condition. AddCombatCondition target condition (Some c))
                              (filter (\<lambda>condition. c = target
                                 \<or> \<not> isImmune env w target (conditionType condition))
                                 (conditionList params))
                          @ [dispelCall target params, CombatTileEffects (Some c) tile]
                          @ callbackCalls (Some c) target params
                          @ distanceCalls (Some c) target params))"
proof -
  let ?cs = "map (\<lambda>condition. AddCombatCondition target condition (Some c))
                              (filter (\<lambda>condition. c = target
                                 \<or> \<not> isImmune env w target (conditionType condition))
                                 (conditionList params))"
  let ?w2 = "perform env GetSpectators w1"
  have imm: "isImmune env ?w2 target = isImmune env w target"
    using assms(4) by (intro ext) blast
  from applyConditionsOwned_calls [of env target "conditionList params" c ?w2 "l1 @ [GetSpectators]"]
    assms(4)
  obtain w3 where 3: "applyConditionsOwned env (Some c) target params (?w2, l1 @ [GetSpectators])
     = Some ((), (w3, (l1 @ [GetSpectators]) @ ?cs))"
    unfolding applyConditionsOwned_def imm by blast
  from doCombat_tail [of env target params "Some c" w3 "(l1 @ [GetSpectators]) @ ?cs"]
  obtain w' tile where 4: "bindM (dispel env target params) (\<lambda>_.
     bindM (readWorld (\<lambda>w. getTile env w target)) (\<lambda>tile.
     bindM (effect env (CombatTileEffects (Some c) tile)) (\<lambda>_.
     bindM (whenM (hasTargetCallback params) (effect env (OnTargetCombat (Some c) target)))
       (\<lambda>_.
     case Some c of
       Some c \<Rightarrow>
         whenM (distanceEffect params \<noteq> CONST_ANI_NONE)
           (effect env (AddDistanceEffect c (ToCreature target) (distanceEffect params)))
     | None \<Rightarrow> returnM ())))) (w3, (l1 @ [GetSpectators]) @ ?cs)
     = Some ((), (w', ((l1 @ [GetSpectators]) @ ?cs)
                       @ [dispelCall target params, CombatTileEffects (Some c) tile]
                       @ callbackCalls (Some c) target params
                       @ distanceCalls (Some c) target params))" by blast
  have 5: "bindM (applyConditionsOwned env (Some c) target params) f (?w2, l1 @ [GetSpectators])
             = f () (w3, (l1 @ [GetSpectators]) @ ?cs)" for f :: "unit \<Rightarrow> ('a, unit) M"
    using 3 by (rule bindM_Some [of "applyConditionsOwned env (Some c) target params"])
  show ?thesis using assms(1,2) 4
    by (intro exI [of _ w'] exI [of _ tile])
      (simp add: doCombat_def
        bindM_Some [of "isEligible env params (Some c) target" "(w, l)", OF assms(3)]
        bindM_effect 5)
qed

section \<open>Area leech\<close>

lemmas world_eval = stubWorld_def plainParams_def defaultDamage_def critWorld_def statWorld_def
  leechWorld_def pvpWorld_def fire2000_def fire100_def fire101_def manaDrain100_def slash100_def

lemmas combat_eval = doTargetCombat_def targetHit_def targetSuccess_def targetBlockHit_def
  statScaling_def scaleComponent_def targetPlayerReduction_def targetCritical_def
  rollAgainst_def targetLeech_def dispel_def applyConditions_def casterPlayerOf_def
  doAreaCombat_def areaCritical_def isEligible_def areaPlayerReduction_def areaTargetDamage_def
  areaHit_def calcLeechValue_def areaLeech_def areaSuccess_def areaStep_def postCombatEffects_def
  applyConditionsOwned_def doCombat_def

text \<open>
  C1, evaluated on the code. The caster leeches 10 percent of life with certainty and
  hits two creatures for 2000 each. The leech block stands inside the loop over the
  creatures and sets \<^verbatim>\<open>damage.leeched\<close>: it runs once, right after the first successful
  hit, with \<^verbatim>\<open>totalTargets = 1\<close>, and heals 200 before the second creature is
  processed. Run after both hits, as the claim and the comment above the block
  describe, \<^verbatim>\<open>calcLeechValue\<close> would give 220 for these two targets (and 380 for ten,
  290 for the mana leech of ten).
\<close>

theorem doAreaCombat_leech_inside_loop:
  "doAreaCombat leechWorld (Some 1) \<lparr>px = 0, py = 0, pz = 7\<rparr> [10, 11] fire2000 plainParams
     ((), [])
   = Some ((2000, 2, fire2000\<lparr>leeched := True\<rparr>), (),
       [GetSpectators,
        CanDoCombatTile (Some 1) 10 True, CombatTileEffects (Some 1) 10,
        CanDoCombatCreature (Some 1) 2,
        CanDoCombatTile (Some 1) 11 True, CombatTileEffects (Some 1) 11,
        CanDoCombatCreature (Some 1) 3,
        CombatBlockHit fire2000 (Some 1) 2 False False False False,
        CombatChangeHealth (Some 1) 2 fire2000,
        RemoveCombatCondition 2 CONDITION_NONE,
        NormalRandom,
        CombatChangeHealth None 1
          (defaultDamage\<lparr>primaryValue := 200, origin := ORIGIN_NONE, leeched := True\<rparr>),
        SendMagicEffect 1 CONST_ME_MAGIC_RED,
        CombatBlockHit (fire2000\<lparr>leeched := True\<rparr>) (Some 1) 3 False False False False,
        CombatChangeHealth (Some 1) 3 (fire2000\<lparr>leeched := True\<rparr>),
        RemoveCombatCondition 3 CONDITION_NONE])
   \<and> calcLeechValue 2000 1 10 10 = Some 200
   \<and> calcLeechValue 2000 2 10 10 = Some 220
   \<and> calcLeechValue 2000 10 10 10 = Some 380
   \<and> calcLeechValue 2000 10 10 5 = Some 290"
  by (simp add: combat_eval world_eval monad_eval double_eval)

section \<open>Critical hit of a single target\<close>




section \<open>Stat scaling\<close>

lemma areaTargetDamage_Some:
  assumes "areaTargetDamage env caster cp criticalPrimary criticalSecondary creature damage (w, l)
             = Some (dc, s')"
  shows "\<exists>d1 reduced d2.
           statScaling env cp 230 damage (w, l) = Some (d1, (w, l))
           \<and> areaPlayerReduction env caster cp creature d1 (w, l) = Some ((reduced, d2), (w, l))
           \<and> dc = (if critical damage
                   then d2\<lparr>primaryValue := primaryValue d2
                              + (if reduced then truncDiv2 criticalPrimary else criticalPrimary),
                            secondaryValue := secondaryValue d2
                              + (if reduced then truncDiv2 criticalSecondary else criticalSecondary)\<rparr>
                   else d2)"
proof -
  from assms obtain d1 s1 where 1: "statScaling env cp 230 damage (w, l) = Some (d1, s1)"
    by (auto simp: areaTargetDamage_def bindM_def split: option.splits)
  then have s1: "s1 = (w, l)" using statScaling_pure by blast
  have "\<exists>reduced d2. areaPlayerReduction env caster cp creature d1 (w, l)
      = Some ((reduced, d2), (w, l))"
    unfolding areaPlayerReduction_eq by (rule if_split [THEN iffD2]) blast
  then obtain reduced d2 where 2: "areaPlayerReduction env caster cp creature d1 (w, l)
      = Some ((reduced, d2), (w, l))" by blast
  have "areaTargetDamage env caster cp criticalPrimary criticalSecondary creature damage (w, l)
          = Some (dc, s')" by (rule assms)
  then show ?thesis
    unfolding areaTargetDamage_eq [OF 1 [unfolded s1] 2] using 1 2 s1
    by (auto split: if_splits option.splits dest!: toInt32_Some)
qed

text \<open>
  C3, as the code has it. Physical damage is scaled by the strength and every other
  type by the intelligence of a player caster, each component by the type of its own,
  as \<^verbatim>\<open>value += round(value * stat / d)\<close>. In the single-target path, for a primary type
  other than mana drain, the first call of the hit is \<^verbatim>\<open>combatBlockHit\<close> on the damage
  scaled with \<open>d = 100\<close>; a mana drain goes to \<^verbatim>\<open>combatChangeMana\<close> as it came, unscaled
  and unmitigated. In the area path every target's copy is scaled with \<open>d = 230\<close>,
  whatever the type, then halved and raised by the critical values, before its first
  call (\<^verbatim>\<open>combatBlockHit\<close>, or \<^verbatim>\<open>combatChangeMana\<close> for a mana drain).
\<close>

theorem stat_scaling_before_mitigation:
  "statFor COMBAT_PHYSICALDAMAGE = CHARSTAT_STRENGTH
   \<and> (ty \<noteq> COMBAT_PHYSICALDAMAGE \<longrightarrow> statFor ty = CHARSTAT_INTELLIGENCE)
   \<and> (statScaling env (Some p) d damage (w, l) = Some (d1, s1) \<longrightarrow>
        s1 = (w, l)
        \<and> d1 = damage
            \<lparr>primaryValue := primaryValue damage
               + roundScaled (primaryValue damage)
                   (getCharacterStat env w p (statFor (primaryType damage))) d,
             secondaryValue := secondaryValue damage
               + roundScaled (secondaryValue damage)
                   (getCharacterStat env w p (statFor (secondaryType damage))) d\<rparr>)
   \<and> (addRounded (primaryValue damage)
          (roundScaled (primaryValue damage)
             (getCharacterStat env w p (statFor (primaryType damage))) d) \<noteq> None
      \<and> addRounded (secondaryValue damage)
          (roundScaled (secondaryValue damage)
             (getCharacterStat env w p (statFor (secondaryType damage))) d) \<noteq> None
      \<longrightarrow> statScaling env (Some p) d damage (w, l) \<noteq> None)
   \<and> (isPlayer env c \<and> primaryType damage \<noteq> COMBAT_MANADRAIN
      \<and> targetHit env (Some c) target damage params (w, l) = Some (r, (w', l')) \<longrightarrow>
        (\<exists>scaled rest.
           statScaling env (Some c) 100 damage (w, l) = Some (scaled, (w, l))
           \<and> l' = l @ CombatBlockHit scaled (Some c) target (blockedByShield params)
                        (blockedByArmor params) (itemId params \<noteq> 0) (ignoreResistances params)
                      # rest))
   \<and> (primaryType damage = COMBAT_MANADRAIN \<longrightarrow>
        targetHit env caster target damage params (w, l) =
          Some ((Some (fst (fst (combatChangeMana env caster target damage w))),
                 snd (fst (combatChangeMana env caster target damage w))),
                (snd (combatChangeMana env caster target damage w),
                 l @ [CombatChangeMana caster target damage])))
   \<and> (areaStep env params caster criticalPrimary criticalSecondary creature
          (maxDamageFound, totalTargets, damage) (w, l) = Some (acc, (w', l')) \<longrightarrow>
        (\<exists>scaled reduced halved damageCopy w1 l1 rest.
           statScaling env (casterPlayerOf env caster) 230 damage (w, l) = Some (scaled, (w, l))
           \<and> areaPlayerReduction env caster (casterPlayerOf env caster) creature scaled (w, l)
               = Some ((reduced, halved), (w, l))
           \<and> areaTargetDamage env caster (casterPlayerOf env caster) criticalPrimary
                criticalSecondary creature damage (w, l) = Some (damageCopy, (w1, l1))
           \<and> damageCopy = (if critical damage
                   then halved\<lparr>primaryValue := primaryValue halved
                              + (if reduced then truncDiv2 criticalPrimary else criticalPrimary),
                            secondaryValue := secondaryValue halved
                              + (if reduced then truncDiv2 criticalSecondary else criticalSecondary)\<rparr>
                   else halved)
           \<and> l' = l1 @ (if primaryType damageCopy \<noteq> COMBAT_MANADRAIN
                        then CombatBlockHit damageCopy caster creature (blockedByShield params)
                               (blockedByArmor params) (itemId params \<noteq> 0)
                               (ignoreResistances params)
                        else CombatChangeMana caster creature damageCopy) # rest))"
proof (intro conjI impI)
  show "statFor COMBAT_PHYSICALDAMAGE = CHARSTAT_STRENGTH" by (simp add: statFor_def)
next
  assume "ty \<noteq> COMBAT_PHYSICALDAMAGE"
  then show "statFor ty = CHARSTAT_INTELLIGENCE" by (simp add: statFor_def)
next
  assume "statScaling env (Some p) d damage (w, l) = Some (d1, s1)"
  then show "s1 = (w, l)" using statScaling_pure by blast
next
  assume a: "statScaling env (Some p) d damage (w, l) = Some (d1, s1)"
  then show "d1 = damage
            \<lparr>primaryValue := primaryValue damage
               + roundScaled (primaryValue damage)
                   (getCharacterStat env w p (statFor (primaryType damage))) d,
             secondaryValue := secondaryValue damage
               + roundScaled (secondaryValue damage)
                   (getCharacterStat env w p (statFor (secondaryType damage))) d\<rparr>"
    by (auto simp: statScaling_eq addRounded_eq split: option.splits if_splits)
next
  assume "addRounded (primaryValue damage)
          (roundScaled (primaryValue damage)
             (getCharacterStat env w p (statFor (primaryType damage))) d) \<noteq> None
      \<and> addRounded (secondaryValue damage)
          (roundScaled (secondaryValue damage)
             (getCharacterStat env w p (statFor (secondaryType damage))) d) \<noteq> None"
  then show "statScaling env (Some p) d damage (w, l) \<noteq> None"
    by (auto simp: statScaling_eq split: option.splits)
next
  assume "isPlayer env c \<and> primaryType damage \<noteq> COMBAT_MANADRAIN
      \<and> targetHit env (Some c) target damage params (w, l) = Some (r, (w', l'))"
  then show "\<exists>scaled rest.
           statScaling env (Some c) 100 damage (w, l) = Some (scaled, (w, l))
           \<and> l' = l @ CombatBlockHit scaled (Some c) target (blockedByShield params)
                        (blockedByArmor params) (itemId params \<noteq> 0) (ignoreResistances params)
                      # rest"
    using targetHit_blockHit_first [of env "Some c" target damage params w l r w' l']
    by (simp add: casterPlayerOf_def)
next
  assume "primaryType damage = COMBAT_MANADRAIN"
  then show "targetHit env caster target damage params (w, l) =
          Some ((Some (fst (fst (combatChangeMana env caster target damage w))),
                 snd (fst (combatChangeMana env caster target damage w))),
                (snd (combatChangeMana env caster target damage w),
                 l @ [CombatChangeMana caster target damage]))"
    by (rule targetHit_manadrain)
next
  assume "areaStep env params caster criticalPrimary criticalSecondary creature
          (maxDamageFound, totalTargets, damage) (w, l) = Some (acc, (w', l'))"
  from areaStep_first_call [OF this] obtain damageCopy w1 l1 rest where
    1: "areaTargetDamage env caster (casterPlayerOf env caster) criticalPrimary criticalSecondary
          creature damage (w, l) = Some (damageCopy, (w1, l1))"
    and 2: "l' = l1 @ (if primaryType damageCopy \<noteq> COMBAT_MANADRAIN
                        then CombatBlockHit damageCopy caster creature (blockedByShield params)
                               (blockedByArmor params) (itemId params \<noteq> 0)
                               (ignoreResistances params)
                        else CombatChangeMana caster creature damageCopy) # rest"
    by blast
  from areaTargetDamage_Some [OF 1] obtain scaled reduced halved where
    3: "statScaling env (casterPlayerOf env caster) 230 damage (w, l) = Some (scaled, (w, l))"
    and 4: "areaPlayerReduction env caster (casterPlayerOf env caster) creature scaled (w, l)
               = Some ((reduced, halved), (w, l))"
    and 5: "damageCopy = (if critical damage
                   then halved\<lparr>primaryValue := primaryValue halved
                              + (if reduced then truncDiv2 criticalPrimary else criticalPrimary),
                            secondaryValue := secondaryValue halved
                              + (if reduced then truncDiv2 criticalSecondary else criticalSecondary)\<rparr>
                   else halved)"
    by blast
  show "\<exists>scaled reduced halved damageCopy w1 l1 rest.
           statScaling env (casterPlayerOf env caster) 230 damage (w, l) = Some (scaled, (w, l))
           \<and> areaPlayerReduction env caster (casterPlayerOf env caster) creature scaled (w, l)
               = Some ((reduced, halved), (w, l))
           \<and> areaTargetDamage env caster (casterPlayerOf env caster) criticalPrimary
                criticalSecondary creature damage (w, l) = Some (damageCopy, (w1, l1))
           \<and> damageCopy = (if critical damage
                   then halved\<lparr>primaryValue := primaryValue halved
                              + (if reduced then truncDiv2 criticalPrimary else criticalPrimary),
                            secondaryValue := secondaryValue halved
                              + (if reduced then truncDiv2 criticalSecondary else criticalSecondary)\<rparr>
                   else halved)
           \<and> l' = l1 @ (if primaryType damageCopy \<noteq> COMBAT_MANADRAIN
                        then CombatBlockHit damageCopy caster creature (blockedByShield params)
                               (blockedByArmor params) (itemId params \<noteq> 0)
                               (ignoreResistances params)
                        else CombatChangeMana caster creature damageCopy) # rest"
    using 1 2 3 4 5 by blast
qed

theorem stat_scaling_before_mitigation_witness:
  "statScaling (statWorld 50 20) (Some 1) 100 slash100 ((), [])
     = Some (slash100\<lparr>primaryValue := - 150, secondaryValue := - 60\<rparr>, ((), []))
   \<and> statScaling (statWorld 50 20) (Some 1) 230 slash100 ((), [])
     = Some (slash100\<lparr>primaryValue := - 122, secondaryValue := - 54\<rparr>, ((), []))
   \<and> isPlayer (statWorld 50 20) 1 \<and> primaryType slash100 \<noteq> COMBAT_MANADRAIN
   \<and> targetHit (statWorld 50 20) (Some 1) 2 slash100 plainParams ((), [])
     = Some ((Some True, slash100\<lparr>primaryValue := - 150, secondaryValue := - 60\<rparr>),
             ((), [CombatBlockHit (slash100\<lparr>primaryValue := - 150, secondaryValue := - 60\<rparr>)
                     (Some 1) 2 False False False False,
                   CombatChangeHealth (Some 1) 2
                     (slash100\<lparr>primaryValue := - 150, secondaryValue := - 60\<rparr>)]))
   \<and> areaStep (statWorld 50 20) plainParams (Some 1) 0 0 2 (0, 0, slash100) ((), [])
     = Some ((176, 1, slash100\<lparr>leeched := True\<rparr>),
             ((), [CombatBlockHit (slash100\<lparr>primaryValue := - 122, secondaryValue := - 54\<rparr>)
                     (Some 1) 2 False False False False,
                   CombatChangeHealth (Some 1) 2
                     (slash100\<lparr>primaryValue := - 122, secondaryValue := - 54\<rparr>),
                   RemoveCombatCondition 2 CONDITION_NONE]))"
proof -
  have 1: "statScaling (statWorld 50 20) (Some 1) 100 slash100 ((), [])
     = Some (slash100\<lparr>primaryValue := - 150, secondaryValue := - 60\<rparr>, ((), []))"
    by (simp add: combat_eval world_eval monad_eval double_eval)
  have 2: "statScaling (statWorld 50 20) (Some 1) 230 slash100 ((), [])
     = Some (slash100\<lparr>primaryValue := - 122, secondaryValue := - 54\<rparr>, ((), []))"
    by (simp add: combat_eval world_eval monad_eval double_eval)
  have 3: "isPlayer (statWorld 50 20) 1 \<and> primaryType slash100 \<noteq> COMBAT_MANADRAIN"
    by (simp add: world_eval)
  have 4: "targetHit (statWorld 50 20) (Some 1) 2 slash100 plainParams ((), [])
     = Some ((Some True, slash100\<lparr>primaryValue := - 150, secondaryValue := - 60\<rparr>),
             ((), [CombatBlockHit (slash100\<lparr>primaryValue := - 150, secondaryValue := - 60\<rparr>)
                     (Some 1) 2 False False False False,
                   CombatChangeHealth (Some 1) 2
                     (slash100\<lparr>primaryValue := - 150, secondaryValue := - 60\<rparr>)]))"
    by (simp add: combat_eval world_eval monad_eval double_eval)
  have 5: "areaStep (statWorld 50 20) plainParams (Some 1) 0 0 2 (0, 0, slash100) ((), [])
     = Some ((176, 1, slash100\<lparr>leeched := True\<rparr>),
             ((), [CombatBlockHit (slash100\<lparr>primaryValue := - 122, secondaryValue := - 54\<rparr>)
                     (Some 1) 2 False False False False,
                   CombatChangeHealth (Some 1) 2
                     (slash100\<lparr>primaryValue := - 122, secondaryValue := - 54\<rparr>),
                   RemoveCombatCondition 2 CONDITION_NONE]))"
    by (simp add: combat_eval world_eval monad_eval double_eval)
  note t = stat_scaling_before_mitigation [of COMBAT_FIREDAMAGE "statWorld 50 20" 1 100 slash100
      "()" "[]" "slash100\<lparr>primaryValue := - 150, secondaryValue := - 60\<rparr>" "((), [])" 1 2
      plainParams "(Some True, slash100\<lparr>primaryValue := - 150, secondaryValue := - 60\<rparr>)" "()"
      "[CombatBlockHit (slash100\<lparr>primaryValue := - 150, secondaryValue := - 60\<rparr>)
                     (Some 1) 2 False False False False,
                   CombatChangeHealth (Some 1) 2
                     (slash100\<lparr>primaryValue := - 150, secondaryValue := - 60\<rparr>)]"]
  show ?thesis using t 1 2 3 4 5 by simp
qed

text \<open>
  C3, as the claim states it, fails in the single-target path on mana drain: with an
  intelligence of 100 the claim scales the value 100 by \<^verbatim>\<open>round(100 * 100 / 100)\<close> to
  200, and the code hands 100 to \<^verbatim>\<open>combatChangeMana\<close>.
\<close>

theorem stat_scaling_manadrain_counterexample:
  "targetHit (statWorld 50 100) (Some 1) 2 manaDrain100 plainParams ((), [])
   = Some ((Some True, manaDrain100), ((), [CombatChangeMana (Some 1) 2 manaDrain100]))
   \<and> primaryValue manaDrain100 = - 100
   \<and> getCharacterStat (statWorld 50 100) () 1 (statFor COMBAT_MANADRAIN) = 100
   \<and> roundScaled (- 100) 100 100 = - 100"
  by (simp add: combat_eval world_eval monad_eval double_eval statFor_def)

section \<open>Critical roll of an area\<close>

lemma truncDiv2_sgn: "truncDiv2 v = sgn v * (\<bar>v\<bar> div 2)"
  by (simp add: truncDiv2_def sgn_if)

lemma areaLeech_result:
  assumes "areaLeech env cp m t damage (w, l) = Some (d', (w', l'))"
  shows "(d' = damage \<and> w' = w \<and> l' = l) \<or> (\<not> leeched damage \<and> d' = damage\<lparr>leeched := True\<rparr>)"
proof (cases cp)
  case None
  then show ?thesis using assms by (simp add: areaLeech_def returnM_def)
next
  case (Some p)
  show ?thesis
  proof (cases "\<not> leeched damage \<and> primaryType damage \<noteq> COMBAT_HEALING
             \<and> origin damage \<noteq> ORIGIN_CONDITION \<and> t > 0 \<and> m > 0")
    case False
    then show ?thesis using assms Some by (auto simp: areaLeech_def returnM_def)
  next
    case True
    then have "d' = damage\<lparr>leeched := True\<rparr>"
      using assms Some
      by (simp add: areaLeech_def Let_def bindM_def returnM_def readWorld_def
          split: option.splits prod.splits)
    then show ?thesis using True by simp
  qed
qed

lemma extends_mono: "extends P m \<Longrightarrow> (\<And>c. P c \<Longrightarrow> Q c) \<Longrightarrow> extends Q m"
  unfolding extends_def by (meson list_all_iff)

lemma areaLeech_rolls:
  "extends (\<lambda>c. c \<noteq> UniformRandom \<and> (c = NormalRandom \<longrightarrow> \<not> leeched damage))
     (areaLeech env cp m t damage)"
proof (cases "leeched damage")
  case True
  then have "areaLeech env cp m t damage = returnM damage"
    by (cases cp) (simp_all add: areaLeech_def)
  then show ?thesis by (simp add: extends_returnM)
next
  case False
  show ?thesis
    by (rule extends_mono [OF quiet_areaLeech]) (simp add: notUniform_def False)
qed

lemma areaSuccess_rolls:
  "extends (\<lambda>c. c \<noteq> UniformRandom \<and> c \<noteq> NormalRandom)
     (areaSuccess env caster creature damage damageCopy params maxD tot)"
  unfolding areaSuccess_def
  by (intro extends_bindM extends_whenM extends_applyConditions extends_dispel extends_defined
      extends_effect extends_returnM) simp_all

lemma areaStep_after:
  assumes "bindM (if success
                  then areaSuccess env caster creature damage damageCopy params m t
                  else returnM (m, t)) (\<lambda>(m1, t1).
           bindM (areaLeech env cp m1 t1 damage) (\<lambda>d. returnM (m1, t1, d))) (w3, l3)
           = Some ((m', t', damage'), (w', l'))"
  shows "\<exists>after. l' = l3 @ after \<and> UniformRandom \<notin> set after
           \<and> (NormalRandom \<in> set after \<longrightarrow> \<not> leeched damage \<and> damage' = damage\<lparr>leeched := True\<rparr>)
           \<and> (damage' = damage \<or> damage' = damage\<lparr>leeched := True\<rparr>)"
proof -
  let ?first = "if success then areaSuccess env caster creature damage damageCopy params m t
                else returnM (m, t)"
  from assms obtain m1 t1 wS lS where
    1: "?first (w3, l3) = Some ((m1, t1), (wS, lS))"
    and 2: "areaLeech env cp m1 t1 damage (wS, lS) = Some (damage', (w', l'))"
    by (auto simp: bindM_def returnM_def split: option.splits prod.splits)
  have "extends (\<lambda>c. c \<noteq> UniformRandom \<and> c \<noteq> NormalRandom) ?first"
    by (intro extends_if areaSuccess_rolls extends_returnM)
  from extendsD [OF this 1] obtain n1 where
    n1: "lS = l3 @ n1" "list_all (\<lambda>c. c \<noteq> UniformRandom \<and> c \<noteq> NormalRandom) n1" by blast
  from extendsD [OF areaLeech_rolls 2] obtain n2 where
    n2: "l' = lS @ n2"
      "list_all (\<lambda>c. c \<noteq> UniformRandom \<and> (c = NormalRandom \<longrightarrow> \<not> leeched damage)) n2"
    by blast
  from areaLeech_result [OF 2] have
    r: "(damage' = damage \<and> l' = lS) \<or> (\<not> leeched damage \<and> damage' = damage\<lparr>leeched := True\<rparr>)"
    by blast
  have a: "l' = l3 @ (n1 @ n2)" using n1 n2 by simp
  have b: "UniformRandom \<notin> set (n1 @ n2)" using n1(2) n2(2) by (auto simp: list_all_iff)
  have c: "NormalRandom \<in> set (n1 @ n2) \<longrightarrow> \<not> leeched damage \<and> damage' = damage\<lparr>leeched := True\<rparr>"
  proof
    assume "NormalRandom \<in> set (n1 @ n2)"
    then have "NormalRandom \<in> set n2" using n1(2) by (auto simp: list_all_iff)
    then have "n2 \<noteq> []" by auto
    then have "l' \<noteq> lS" using n2(1) by simp
    then show "\<not> leeched damage \<and> damage' = damage\<lparr>leeched := True\<rparr>" using r by blast
  qed
  have d: "damage' = damage \<or> damage' = damage\<lparr>leeched := True\<rparr>" using r by blast
  show ?thesis using a b c d by blast
qed

lemma areaTargetDamage_exact:
  assumes "areaTargetDamage env caster cp criticalPrimary criticalSecondary creature damage (w, l)
             = Some (dc, (w1, l1))"
  shows "\<exists>scaled. statScaling env cp 230 damage (w, l) = Some (scaled, (w, l))
     \<and> (let reduced = ((primaryValue scaled < 0 \<or> secondaryValue scaled < 0) \<and> caster \<noteq> None
                       \<and> cp \<noteq> None \<and> isPlayer env creature \<and> cp \<noteq> Some creature
                       \<and> getSkull env w creature \<noteq> SKULL_BLACK);
             halved = (if reduced
                       then scaled\<lparr>primaryValue := sgn (primaryValue scaled)
                                                     * (\<bar>primaryValue scaled\<bar> div 2),
                                   secondaryValue := sgn (secondaryValue scaled)
                                                     * (\<bar>secondaryValue scaled\<bar> div 2)\<rparr>
                       else scaled)
         in dc = (if critical damage
                  then halved\<lparr>primaryValue := primaryValue halved
                                + (if reduced then sgn criticalPrimary * (\<bar>criticalPrimary\<bar> div 2)
                                   else criticalPrimary),
                              secondaryValue := secondaryValue halved
                                + (if reduced then sgn criticalSecondary * (\<bar>criticalSecondary\<bar> div 2)
                                   else criticalSecondary)\<rparr>
                  else halved))
     \<and> w1 = (if critical damage
             then perform env (AddMagicEffect creature CONST_ME_CRITICAL_DAMAGE) w else w)
     \<and> l1 = l @ (if critical damage then [AddMagicEffect creature CONST_ME_CRITICAL_DAMAGE] else [])
     \<and> primaryType dc = primaryType damage"
proof -
  from areaTargetDamage_Some [OF assms] obtain d1 reduced d2 where
    1: "statScaling env cp 230 damage (w, l) = Some (d1, (w, l))"
    and 2: "areaPlayerReduction env caster cp creature d1 (w, l) = Some ((reduced, d2), (w, l))"
    and 3: "dc = (if critical damage
                   then d2\<lparr>primaryValue := primaryValue d2
                              + (if reduced then truncDiv2 criticalPrimary else criticalPrimary),
                            secondaryValue := secondaryValue d2
                              + (if reduced then truncDiv2 criticalSecondary else criticalSecondary)\<rparr>
                   else d2)"
    by blast
  let ?reduced = "(primaryValue d1 < 0 \<or> secondaryValue d1 < 0) \<and> caster \<noteq> None
                       \<and> cp \<noteq> None \<and> isPlayer env creature \<and> cp \<noteq> Some creature
                       \<and> getSkull env w creature \<noteq> SKULL_BLACK"
  have 4: "reduced = ?reduced"
    using 2 unfolding areaPlayerReduction_eq by (auto split: if_splits)
  have 5: "d2 = (if ?reduced
                 then d1\<lparr>primaryValue := sgn (primaryValue d1) * (\<bar>primaryValue d1\<bar> div 2),
                         secondaryValue := sgn (secondaryValue d1) * (\<bar>secondaryValue d1\<bar> div 2)\<rparr>
                 else d1)"
    using 2 unfolding areaPlayerReduction_eq truncDiv2_sgn by (auto split: if_splits)
  have 6: "(w1, l1) = (if critical damage
             then (perform env (AddMagicEffect creature CONST_ME_CRITICAL_DAMAGE) w,
                   l @ [AddMagicEffect creature CONST_ME_CRITICAL_DAMAGE])
             else (w, l))"
    using assms unfolding areaTargetDamage_eq [OF 1 2]
    by (auto split: if_splits option.splits)
  have 7: "primaryType d1 = primaryType damage" using statScaling_pure [OF 1] by simp
  have 8: "primaryType dc = primaryType damage" using 3 5 7 by (auto split: if_splits)
  show ?thesis
    unfolding Let_def
    apply (rule exI [of _ d1])
    using 1 3 4 5 6 8 by (auto simp: truncDiv2_sgn split: if_splits)
qed

lemma areaStep_hit:
  assumes "areaStep env params caster criticalPrimary criticalSecondary creature
             (m, t, damage) (w, l) = Some ((m', t', damage'), (w', l'))"
    and "areaTargetDamage env caster (casterPlayerOf env caster) criticalPrimary criticalSecondary
             creature damage (w, l) = Some (dc, (w1, l1))"
  shows "(let block = CombatBlockHit dc caster creature (blockedByShield params)
                        (blockedByArmor params) (itemId params \<noteq> 0) (ignoreResistances params);
              hit = combatBlockHit env dc caster creature (blockedByShield params)
                      (blockedByArmor params) (itemId params \<noteq> 0) (ignoreResistances params) w1
          in if primaryType dc = COMBAT_MANADRAIN then
               (\<exists>after. l' = l1 @ CombatChangeMana caster creature dc # after
                  \<and> UniformRandom \<notin> set after
                  \<and> (NormalRandom \<in> set after
                       \<longrightarrow> \<not> leeched damage \<and> damage' = damage\<lparr>leeched := True\<rparr>))
             else if fst (fst hit) then
               (m', t', damage') = (m, t, damage) \<and> w' = snd hit \<and> l' = l1 @ [block]
             else
               (\<exists>after. l' = l1 @ [block, CombatChangeHealth caster creature (snd (fst hit))] @ after
                  \<and> UniformRandom \<notin> set after
                  \<and> (NormalRandom \<in> set after
                       \<longrightarrow> \<not> leeched damage \<and> damage' = damage\<lparr>leeched := True\<rparr>)))
         \<and> (damage' = damage \<or> damage' = damage\<lparr>leeched := True\<rparr>)"
proof -
  let ?k = "\<lambda>hit.
          case hit of
            None \<Rightarrow> returnM (m, t, damage)
          | Some (success, damageCopy) \<Rightarrow>
              bindM (if success
                     then areaSuccess env caster creature damage damageCopy params m t
                     else returnM (m, t)) (\<lambda>(m1, t1).
              bindM (areaLeech env (casterPlayerOf env caster) m1 t1 damage)
                (\<lambda>d. returnM (m1, t1, d)))"
  let ?block = "CombatBlockHit dc caster creature (blockedByShield params)
                        (blockedByArmor params) (itemId params \<noteq> 0) (ignoreResistances params)"
  let ?hit = "combatBlockHit env dc caster creature (blockedByShield params)
                      (blockedByArmor params) (itemId params \<noteq> 0) (ignoreResistances params) w1"
  have 2: "bindM (areaHit env caster creature dc params) ?k (w1, l1)
             = Some ((m', t', damage'), (w', l'))"
    using assms
    by (simp add: areaStep_def
        bindM_def [of "areaTargetDamage env caster (casterPlayerOf env caster) criticalPrimary
          criticalSecondary creature damage"])
  show ?thesis
  proof (cases "primaryType dc = COMBAT_MANADRAIN")
    case True
    let ?r = "combatChangeMana env caster creature dc w1"
    have "?k (Some (fst ?r)) (snd ?r, l1 @ [CombatChangeMana caster creature dc])
            = Some ((m', t', damage'), (w', l'))"
      using 2 True by (simp add: areaHit_def bindM_assoc bindM_callWorld)
    then have "bindM (if fst (fst ?r)
                  then areaSuccess env caster creature damage (snd (fst ?r)) params m t
                  else returnM (m, t)) (\<lambda>(m1, t1).
           bindM (areaLeech env (casterPlayerOf env caster) m1 t1 damage) (\<lambda>d. returnM (m1, t1, d)))
             (snd ?r, l1 @ [CombatChangeMana caster creature dc])
           = Some ((m', t', damage'), (w', l'))"
      by (simp add: case_prod_beta)
    from areaStep_after [OF this] show ?thesis using True by (auto simp: Let_def)
  next
    case False
    show ?thesis
    proof (cases "fst (fst ?hit)")
      case True
      have "?k None (snd ?hit, l1 @ [?block]) = Some ((m', t', damage'), (w', l'))"
        using 2 False True
        by (simp add: areaHit_def targetBlockHit_def bindM_assoc bindM_callWorld case_prod_beta)
      then show ?thesis using False True by (simp add: returnM_def Let_def)
    next
      case blocked: False
      let ?d2 = "snd (fst ?hit)"
      let ?r = "combatChangeHealth env caster creature ?d2 (snd ?hit)"
      have "?k (Some (fst ?r)) (snd ?r, l1 @ [?block, CombatChangeHealth caster creature ?d2])
              = Some ((m', t', damage'), (w', l'))"
        using 2 False blocked
        by (simp add: areaHit_def targetBlockHit_def bindM_assoc bindM_callWorld case_prod_beta)
      then have "bindM (if fst (fst ?r)
                  then areaSuccess env caster creature damage (snd (fst ?r)) params m t
                  else returnM (m, t)) (\<lambda>(m1, t1).
           bindM (areaLeech env (casterPlayerOf env caster) m1 t1 damage) (\<lambda>d. returnM (m1, t1, d)))
             (snd ?r, l1 @ [?block, CombatChangeHealth caster creature ?d2])
           = Some ((m', t', damage'), (w', l'))"
        by (simp only: option.case case_prod_beta)
      from areaStep_after [OF this] show ?thesis using False blocked by (auto simp: Let_def)
    qed
  qed
qed

lemma areaLoop_steps:
  assumes "areaLoop env params caster cP cS targets acc s = Some (r, s')"
    and "snd (snd acc) = rolled \<or> snd (snd acc) = rolled\<lparr>leeched := True\<rparr>"
  shows "\<exists>accs. length accs = Suc (length targets) \<and> hd accs = (acc, s) \<and> last accs = (r, s')
           \<and> (\<forall>i<length targets.
                 areaStep env params caster cP cS (targets ! i) (fst (accs ! i)) (snd (accs ! i))
                   = Some (accs ! Suc i)
                 \<and> (snd (snd (fst (accs ! i))) = rolled
                    \<or> snd (snd (fst (accs ! i))) = rolled\<lparr>leeched := True\<rparr>))"
  using assms
proof (induction targets arbitrary: acc s)
  case Nil
  then show ?case by (intro exI [of _ "[(acc, s)]"]) (simp add: returnM_def)
next
  case (Cons c cs)
  from Cons.prems(1) obtain acc1 s1 where
    1: "areaStep env params caster cP cS c acc s = Some (acc1, s1)"
    and 2: "areaLoop env params caster cP cS cs acc1 s1 = Some (r, s')"
    by (auto simp: bindM_def split: option.splits)
  obtain m t d where acc: "acc = (m, t, d)" by (cases acc) auto
  obtain m1 t1 d1 where acc1: "acc1 = (m1, t1, d1)" by (cases acc1) auto
  obtain w l where s: "s = (w, l)" by (cases s) auto
  obtain w1 l1 where s1: "s1 = (w1, l1)" by (cases s1) auto
  from 1 obtain dc wd ld where
    3: "areaTargetDamage env caster (casterPlayerOf env caster) cP cS c d (w, l)
          = Some (dc, (wd, ld))"
    unfolding acc s
    by (auto simp: areaStep_def bindM_def split: option.splits)
  from areaStep_hit [OF 1 [unfolded acc acc1 s s1] 3]
  have "d1 = d \<or> d1 = d\<lparr>leeched := True\<rparr>" by (simp add: Let_def)
  then have inv: "snd (snd acc1) = rolled \<or> snd (snd acc1) = rolled\<lparr>leeched := True\<rparr>"
    using Cons.prems(2) acc acc1 by auto
  from Cons.IH [OF 2 inv] obtain accs where
    a: "length accs = Suc (length cs)" "hd accs = (acc1, s1)" "last accs = (r, s')"
    and b: "\<forall>i<length cs.
                 areaStep env params caster cP cS (cs ! i) (fst (accs ! i)) (snd (accs ! i))
                   = Some (accs ! Suc i)
                 \<and> (snd (snd (fst (accs ! i))) = rolled
                    \<or> snd (snd (fst (accs ! i))) = rolled\<lparr>leeched := True\<rparr>)"
    by blast
  have ne: "accs \<noteq> []" using a(1) by auto
  have h: "accs ! 0 = (acc1, s1)" using a(2) ne by (simp add: hd_conv_nth)
  show ?case
  proof (intro exI [of _ "(acc, s) # accs"] conjI allI impI)
    show "length ((acc, s) # accs) = Suc (length (c # cs))" using a(1) by simp
    show "hd ((acc, s) # accs) = (acc, s)" by simp
    show "last ((acc, s) # accs) = (r, s')" using a(3) ne by simp
  next
    fix i assume "i < length (c # cs)"
    then show "areaStep env params caster cP cS ((c # cs) ! i) (fst (((acc, s) # accs) ! i))
                 (snd (((acc, s) # accs) ! i)) = Some (((acc, s) # accs) ! Suc i)"
      using 1 h b by (cases i) auto
  next
    fix i assume "i < length (c # cs)"
    then show "snd (snd (fst (((acc, s) # accs) ! i))) = rolled
                 \<or> snd (snd (fst (((acc, s) # accs) ! i))) = rolled\<lparr>leeched := True\<rparr>"
      using Cons.prems(2) b by (cases i) auto
  qed
qed

lemma doAreaCombat_stages:
  assumes "doAreaCombat env caster position tiles damage params s = Some (r, s')"
  shows "\<exists>criticalPrimary criticalSecondary rolled s1 sA sB targets s2.
           areaCritical env (casterPlayerOf env caster) damage s
             = Some ((criticalPrimary, criticalSecondary, rolled), s1)
           \<and> effect env GetSpectators s1 = Some ((), sA)
           \<and> postCombatEffects env caster position params sA = Some ((), sB)
           \<and> collectTargets env params caster tiles sB = Some (targets, s2)
           \<and> areaLoop env params caster criticalPrimary criticalSecondary targets
               (0, 0, rolled) s2 = Some (r, s')"
proof -
  have inv: "\<exists>x s1. m s0 = Some (x, s1) \<and> f x s1 = Some res"
    if "bindM m f s0 = Some res" for m :: "('w, 'x) M" and f :: "'x \<Rightarrow> ('w, 'y) M" and s0 res
    using that by (auto simp: bindM_def split: option.splits)
  from inv [OF assms [unfolded doAreaCombat_def]] obtain x s1 where
    1: "areaCritical env (casterPlayerOf env caster) damage s = Some (x, s1)"
    and r1: "(case x of (criticalPrimary, criticalSecondary, damage) \<Rightarrow>
       bindM (effect env GetSpectators) (\<lambda>_.
       bindM (postCombatEffects env caster position params) (\<lambda>_.
       bindM (collectTargets env params caster tiles) (\<lambda>toDamageCreatures.
       areaLoop env params caster criticalPrimary criticalSecondary toDamageCreatures
         (0, 0, damage))))) s1 = Some (r, s')"
    by blast
  obtain cP cS rolled where x: "x = (cP, cS, rolled)" by (cases x) auto
  from inv [OF r1 [unfolded x prod.case]] obtain u sA where
    2: "effect env GetSpectators s1 = Some (u, sA)"
    and r2: "bindM (postCombatEffects env caster position params) (\<lambda>_.
       bindM (collectTargets env params caster tiles) (\<lambda>toDamageCreatures.
       areaLoop env params caster cP cS toDamageCreatures (0, 0, rolled))) sA = Some (r, s')"
    by blast
  from inv [OF r2] obtain u' sB where
    3: "postCombatEffects env caster position params sA = Some (u', sB)"
    and r3: "bindM (collectTargets env params caster tiles) (\<lambda>toDamageCreatures.
       areaLoop env params caster cP cS toDamageCreatures (0, 0, rolled)) sB = Some (r, s')"
    by blast
  from inv [OF r3] obtain targets s2 where
    4: "collectTargets env params caster tiles sB = Some (targets, s2)"
    and 5: "areaLoop env params caster cP cS targets (0, 0, rolled) s2 = Some (r, s')"
    by blast
  show ?thesis
    apply (rule exI [of _ cP], rule exI [of _ cS], rule exI [of _ rolled], rule exI [of _ s1])
    apply (rule exI [of _ sA], rule exI [of _ sB], rule exI [of _ targets], rule exI [of _ s2])
    using 1 2 3 4 5 x by simp
qed

text \<open>
  C9. In an area resolution the only call of \<^verbatim>\<open>uniform_random\<close> is the first call of
  all, if it is made at all: at most one critical roll, before any tile or target is
  processed. The run is that roll on the damage as it was passed in, the spectators,
  the travel effect, the collection of the targets, and then one step of the loop for
  every target in turn, each step with the same two bonus values and with the rolled
  damage (marked as leeched once the leech has run). The roll yields
  \<^verbatim>\<open>round(value * skill / 100)\<close> of the unscaled values when it lands and 0 when not.
  A step scales the copy, halves it where the player-versus-player reduction applies
  and, when the damage is critical, adds the bonus values, halved towards zero where
  that reduction applied; it announces the critical hit and hands the copy to
  \<^verbatim>\<open>combatBlockHit\<close>, and what that returns straight to \<^verbatim>\<open>combatChangeHealth\<close> (a mana
  drain goes to \<^verbatim>\<open>combatChangeMana\<close>). No random number is drawn in between; the
  calls that follow draw none from \<^verbatim>\<open>uniform_random\<close>, and none from
  \<^verbatim>\<open>normal_random\<close> except in the one step that runs the leech.
\<close>

theorem areaCritical_once:
  "(doAreaCombat env caster position tiles damage params (w, []) = Some (r, (w', calls)) \<longrightarrow>
      (\<exists>rest. (calls = UniformRandom # rest \<or> calls = rest) \<and> UniformRandom \<notin> set rest))
   \<and> (doAreaCombat env caster position tiles damage params s = Some (r, s') \<longrightarrow>
      (\<exists>criticalPrimary criticalSecondary rolled s1 sA sB targets s2 accs.
           areaCritical env (casterPlayerOf env caster) damage s
             = Some ((criticalPrimary, criticalSecondary, rolled), s1)
           \<and> effect env GetSpectators s1 = Some ((), sA)
           \<and> postCombatEffects env caster position params sA = Some ((), sB)
           \<and> collectTargets env params caster tiles sB = Some (targets, s2)
           \<and> length accs = Suc (length targets)
           \<and> hd accs = ((0, 0, rolled), s2) \<and> last accs = (r, s')
           \<and> (\<forall>i<length targets.
                 areaStep env params caster criticalPrimary criticalSecondary (targets ! i)
                     (fst (accs ! i)) (snd (accs ! i))
                   = Some (accs ! Suc i)
                 \<and> (snd (snd (fst (accs ! i))) = rolled
                    \<or> snd (snd (fst (accs ! i))) = rolled\<lparr>leeched := True\<rparr>))))
   \<and> (\<not> critical damage \<and> primaryType damage \<noteq> COMBAT_HEALING
      \<and> origin damage \<noteq> ORIGIN_CONDITION \<and> uniform_random env w = (roll, w1) \<longrightarrow>
      areaCritical env (Some p) damage (w, l) =
        (let chance = getSpecialSkill env w p SPECIALSKILL_CRITICALHITCHANCE;
             skill = getSpecialSkill env w p SPECIALSKILL_CRITICALHITAMOUNT
         in if chance > 0 \<and> skill > 0 then
              (if roll \<le> uint chance then
                 (case (toInt32 (roundScaled (primaryValue damage) (uint skill) 100),
                        toInt32 (roundScaled (secondaryValue damage) (uint skill) 100)) of
                    (Some criticalPrimary, Some criticalSecondary) \<Rightarrow>
                      Some ((criticalPrimary, criticalSecondary, damage\<lparr>critical := True\<rparr>),
                            (w1, l @ [UniformRandom]))
                  | _ \<Rightarrow> None)
               else Some ((0, 0, damage), (w1, l @ [UniformRandom])))
            else Some ((0, 0, damage), (w, l))))
   \<and> (areaStep env params caster bonusPrimary bonusSecondary creature (m, t, d) (ws, ls)
        = Some ((m', t', d'), (ws', ls')) \<longrightarrow>
      (\<exists>scaled reduced halved damageCopy w2 l2 block hit.
           statScaling env (casterPlayerOf env caster) 230 d (ws, ls) = Some (scaled, (ws, ls))
           \<and> reduced = ((primaryValue scaled < 0 \<or> secondaryValue scaled < 0) \<and> caster \<noteq> None
                         \<and> casterPlayerOf env caster \<noteq> None \<and> isPlayer env creature
                         \<and> casterPlayerOf env caster \<noteq> Some creature
                         \<and> getSkull env ws creature \<noteq> SKULL_BLACK)
           \<and> halved = (if reduced
                       then scaled\<lparr>primaryValue := sgn (primaryValue scaled)
                                                     * (\<bar>primaryValue scaled\<bar> div 2),
                                   secondaryValue := sgn (secondaryValue scaled)
                                                     * (\<bar>secondaryValue scaled\<bar> div 2)\<rparr>
                       else scaled)
           \<and> damageCopy = (if critical d
                  then halved\<lparr>primaryValue := primaryValue halved
                                + (if reduced then sgn bonusPrimary * (\<bar>bonusPrimary\<bar> div 2)
                                   else bonusPrimary),
                              secondaryValue := secondaryValue halved
                                + (if reduced then sgn bonusSecondary * (\<bar>bonusSecondary\<bar> div 2)
                                   else bonusSecondary)\<rparr>
                  else halved)
           \<and> w2 = (if critical d
                   then perform env (AddMagicEffect creature CONST_ME_CRITICAL_DAMAGE) ws else ws)
           \<and> l2 = ls @ (if critical d then [AddMagicEffect creature CONST_ME_CRITICAL_DAMAGE] else [])
           \<and> block = CombatBlockHit damageCopy caster creature (blockedByShield params)
                        (blockedByArmor params) (itemId params \<noteq> 0) (ignoreResistances params)
           \<and> hit = combatBlockHit env damageCopy caster creature (blockedByShield params)
                      (blockedByArmor params) (itemId params \<noteq> 0) (ignoreResistances params) w2
           \<and> (if primaryType d = COMBAT_MANADRAIN then
                 (\<exists>after. ls' = l2 @ CombatChangeMana caster creature damageCopy # after
                    \<and> UniformRandom \<notin> set after
                    \<and> (NormalRandom \<in> set after
                         \<longrightarrow> \<not> leeched d \<and> d' = d\<lparr>leeched := True\<rparr>))
               else if fst (fst hit) then
                 (m', t', d') = (m, t, d) \<and> ws' = snd hit \<and> ls' = l2 @ [block]
               else
                 (\<exists>after. ls' = l2 @ [block, CombatChangeHealth caster creature (snd (fst hit))]
                                  @ after
                    \<and> UniformRandom \<notin> set after
                    \<and> (NormalRandom \<in> set after
                         \<longrightarrow> \<not> leeched d \<and> d' = d\<lparr>leeched := True\<rparr>)))
           \<and> (d' = d \<or> d' = d\<lparr>leeched := True\<rparr>)))"
proof (intro conjI impI)
  assume "doAreaCombat env caster position tiles damage params (w, []) = Some (r, (w', calls))"
  from doAreaCombat_log [OF this]
  show "\<exists>rest. (calls = UniformRandom # rest \<or> calls = rest) \<and> UniformRandom \<notin> set rest"
    by (auto simp: list_all_iff notUniform_def)
next
  assume "doAreaCombat env caster position tiles damage params s = Some (r, s')"
  from doAreaCombat_stages [OF this] obtain cP cS rolled s1 sA sB targets s2 where
    1: "areaCritical env (casterPlayerOf env caster) damage s = Some ((cP, cS, rolled), s1)"
    and 2: "effect env GetSpectators s1 = Some ((), sA)"
    and 3: "postCombatEffects env caster position params sA = Some ((), sB)"
    and 4: "collectTargets env params caster tiles sB = Some (targets, s2)"
    and 5: "areaLoop env params caster cP cS targets (0, 0, rolled) s2 = Some (r, s')"
    by blast
  have "snd (snd (0 :: int, 0 :: nat, rolled)) = rolled
          \<or> snd (snd (0 :: int, 0 :: nat, rolled)) = rolled\<lparr>leeched := True\<rparr>" by simp
  from areaLoop_steps [OF 5 this] obtain accs where
    6: "length accs = Suc (length targets)" "hd accs = ((0, 0, rolled), s2)" "last accs = (r, s')"
    and 7: "\<forall>i<length targets.
                 areaStep env params caster cP cS (targets ! i) (fst (accs ! i)) (snd (accs ! i))
                   = Some (accs ! Suc i)
                 \<and> (snd (snd (fst (accs ! i))) = rolled
                    \<or> snd (snd (fst (accs ! i))) = rolled\<lparr>leeched := True\<rparr>)"
    by blast
  show "\<exists>criticalPrimary criticalSecondary rolled s1 sA sB targets s2 accs.
           areaCritical env (casterPlayerOf env caster) damage s
             = Some ((criticalPrimary, criticalSecondary, rolled), s1)
           \<and> effect env GetSpectators s1 = Some ((), sA)
           \<and> postCombatEffects env caster position params sA = Some ((), sB)
           \<and> collectTargets env params caster tiles sB = Some (targets, s2)
           \<and> length accs = Suc (length targets)
           \<and> hd accs = ((0, 0, rolled), s2) \<and> last accs = (r, s')
           \<and> (\<forall>i<length targets.
                 areaStep env params caster criticalPrimary criticalSecondary (targets ! i)
                     (fst (accs ! i)) (snd (accs ! i))
                   = Some (accs ! Suc i)
                 \<and> (snd (snd (fst (accs ! i))) = rolled
                    \<or> snd (snd (fst (accs ! i))) = rolled\<lparr>leeched := True\<rparr>))"
    apply (rule exI [of _ cP], rule exI [of _ cS], rule exI [of _ rolled], rule exI [of _ s1])
    apply (rule exI [of _ sA], rule exI [of _ sB], rule exI [of _ targets], rule exI [of _ s2])
    apply (rule exI [of _ accs])
    using 1 2 3 4 6 7 by simp
next
  assume a: "\<not> critical damage \<and> primaryType damage \<noteq> COMBAT_HEALING
      \<and> origin damage \<noteq> ORIGIN_CONDITION \<and> uniform_random env w = (roll, w1)"
  show "areaCritical env (Some p) damage (w, l) =
        (let chance = getSpecialSkill env w p SPECIALSKILL_CRITICALHITCHANCE;
             skill = getSpecialSkill env w p SPECIALSKILL_CRITICALHITAMOUNT
         in if chance > 0 \<and> skill > 0 then
              (if roll \<le> uint chance then
                 (case (toInt32 (roundScaled (primaryValue damage) (uint skill) 100),
                        toInt32 (roundScaled (secondaryValue damage) (uint skill) 100)) of
                    (Some criticalPrimary, Some criticalSecondary) \<Rightarrow>
                      Some ((criticalPrimary, criticalSecondary, damage\<lparr>critical := True\<rparr>),
                            (w1, l @ [UniformRandom]))
                  | _ \<Rightarrow> None)
               else Some ((0, 0, damage), (w1, l @ [UniformRandom])))
            else Some ((0, 0, damage), (w, l)))"
    by (rule areaCritical_eq) (use a in blast)+
next
  assume a: "areaStep env params caster bonusPrimary bonusSecondary creature (m, t, d) (ws, ls)
        = Some ((m', t', d'), (ws', ls'))"
  then obtain dc w2 l2 where
    1: "areaTargetDamage env caster (casterPlayerOf env caster) bonusPrimary bonusSecondary
          creature d (ws, ls) = Some (dc, (w2, l2))"
    by (auto simp: areaStep_def bindM_def split: option.splits)
  from areaTargetDamage_exact [OF 1] obtain scaled where
    2: "statScaling env (casterPlayerOf env caster) 230 d (ws, ls) = Some (scaled, (ws, ls))"
    and 3: "(let reduced = ((primaryValue scaled < 0 \<or> secondaryValue scaled < 0) \<and> caster \<noteq> None
                       \<and> casterPlayerOf env caster \<noteq> None \<and> isPlayer env creature
                       \<and> casterPlayerOf env caster \<noteq> Some creature
                       \<and> getSkull env ws creature \<noteq> SKULL_BLACK);
             halved = (if reduced
                       then scaled\<lparr>primaryValue := sgn (primaryValue scaled)
                                                     * (\<bar>primaryValue scaled\<bar> div 2),
                                   secondaryValue := sgn (secondaryValue scaled)
                                                     * (\<bar>secondaryValue scaled\<bar> div 2)\<rparr>
                       else scaled)
         in dc = (if critical d
                  then halved\<lparr>primaryValue := primaryValue halved
                                + (if reduced then sgn bonusPrimary * (\<bar>bonusPrimary\<bar> div 2)
                                   else bonusPrimary),
                              secondaryValue := secondaryValue halved
                                + (if reduced then sgn bonusSecondary * (\<bar>bonusSecondary\<bar> div 2)
                                   else bonusSecondary)\<rparr>
                  else halved))"
    and 4: "w2 = (if critical d
             then perform env (AddMagicEffect creature CONST_ME_CRITICAL_DAMAGE) ws else ws)"
    and 5: "l2 = ls @ (if critical d then [AddMagicEffect creature CONST_ME_CRITICAL_DAMAGE] else [])"
    and 6: "primaryType dc = primaryType d"
    by blast
  let ?reduced = "(primaryValue scaled < 0 \<or> secondaryValue scaled < 0) \<and> caster \<noteq> None
                       \<and> casterPlayerOf env caster \<noteq> None \<and> isPlayer env creature
                       \<and> casterPlayerOf env caster \<noteq> Some creature
                       \<and> getSkull env ws creature \<noteq> SKULL_BLACK"
  let ?halved = "if ?reduced
                       then scaled\<lparr>primaryValue := sgn (primaryValue scaled)
                                                     * (\<bar>primaryValue scaled\<bar> div 2),
                                   secondaryValue := sgn (secondaryValue scaled)
                                                     * (\<bar>secondaryValue scaled\<bar> div 2)\<rparr>
                       else scaled"
  let ?block = "CombatBlockHit dc caster creature (blockedByShield params)
                        (blockedByArmor params) (itemId params \<noteq> 0) (ignoreResistances params)"
  let ?hit = "combatBlockHit env dc caster creature (blockedByShield params)
                      (blockedByArmor params) (itemId params \<noteq> 0) (ignoreResistances params) w2"
  note 7 = areaStep_hit [OF a 1, unfolded Let_def 6]
  show "\<exists>scaled reduced halved damageCopy w2 l2 block hit.
           statScaling env (casterPlayerOf env caster) 230 d (ws, ls) = Some (scaled, (ws, ls))
           \<and> reduced = ((primaryValue scaled < 0 \<or> secondaryValue scaled < 0) \<and> caster \<noteq> None
                         \<and> casterPlayerOf env caster \<noteq> None \<and> isPlayer env creature
                         \<and> casterPlayerOf env caster \<noteq> Some creature
                         \<and> getSkull env ws creature \<noteq> SKULL_BLACK)
           \<and> halved = (if reduced
                       then scaled\<lparr>primaryValue := sgn (primaryValue scaled)
                                                     * (\<bar>primaryValue scaled\<bar> div 2),
                                   secondaryValue := sgn (secondaryValue scaled)
                                                     * (\<bar>secondaryValue scaled\<bar> div 2)\<rparr>
                       else scaled)
           \<and> damageCopy = (if critical d
                  then halved\<lparr>primaryValue := primaryValue halved
                                + (if reduced then sgn bonusPrimary * (\<bar>bonusPrimary\<bar> div 2)
                                   else bonusPrimary),
                              secondaryValue := secondaryValue halved
                                + (if reduced then sgn bonusSecondary * (\<bar>bonusSecondary\<bar> div 2)
                                   else bonusSecondary)\<rparr>
                  else halved)
           \<and> w2 = (if critical d
                   then perform env (AddMagicEffect creature CONST_ME_CRITICAL_DAMAGE) ws else ws)
           \<and> l2 = ls @ (if critical d then [AddMagicEffect creature CONST_ME_CRITICAL_DAMAGE] else [])
           \<and> block = CombatBlockHit damageCopy caster creature (blockedByShield params)
                        (blockedByArmor params) (itemId params \<noteq> 0) (ignoreResistances params)
           \<and> hit = combatBlockHit env damageCopy caster creature (blockedByShield params)
                      (blockedByArmor params) (itemId params \<noteq> 0) (ignoreResistances params) w2
           \<and> (if primaryType d = COMBAT_MANADRAIN then
                 (\<exists>after. ls' = l2 @ CombatChangeMana caster creature damageCopy # after
                    \<and> UniformRandom \<notin> set after
                    \<and> (NormalRandom \<in> set after
                         \<longrightarrow> \<not> leeched d \<and> d' = d\<lparr>leeched := True\<rparr>))
               else if fst (fst hit) then
                 (m', t', d') = (m, t, d) \<and> ws' = snd hit \<and> ls' = l2 @ [block]
               else
                 (\<exists>after. ls' = l2 @ [block, CombatChangeHealth caster creature (snd (fst hit))]
                                  @ after
                    \<and> UniformRandom \<notin> set after
                    \<and> (NormalRandom \<in> set after
                         \<longrightarrow> \<not> leeched d \<and> d' = d\<lparr>leeched := True\<rparr>)))
           \<and> (d' = d \<or> d' = d\<lparr>leeched := True\<rparr>)"
    apply (rule exI [of _ scaled], rule exI [of _ ?reduced], rule exI [of _ ?halved])
    apply (rule exI [of _ dc], rule exI [of _ w2], rule exI [of _ l2])
    apply (rule exI [of _ ?block], rule exI [of _ ?hit])
    apply (intro conjI)
    subgoal by (rule 2)
    subgoal by (rule refl)
    subgoal by (rule refl)
    subgoal using 3 by (simp only: Let_def)
    subgoal by (rule 4)
    subgoal by (rule 5)
    subgoal by (rule refl)
    subgoal by (rule refl)
    subgoal using 7 by blast
    subgoal using 7 by blast
    done
qed

theorem areaCritical_once_witness:
  "doAreaCombat (pvpWorld 100 37) (Some 1) \<lparr>px = 0, py = 0, pz = 7\<rparr> [10, 11] fire101 plainParams
     ((), [])
   = Some ((152, 2, fire101\<lparr>critical := True, leeched := True\<rparr>), (),
       [UniformRandom, GetSpectators,
        CanDoCombatTile (Some 1) 10 True, CombatTileEffects (Some 1) 10,
        CanDoCombatCreature (Some 1) 2,
        CanDoCombatTile (Some 1) 11 True, CombatTileEffects (Some 1) 11,
        CanDoCombatCreature (Some 1) 3,
        AddMagicEffect 2 CONST_ME_CRITICAL_DAMAGE,
        CombatBlockHit (fire101\<lparr>primaryValue := - 75, critical := True\<rparr>) (Some 1) 2
          False False False False,
        CombatChangeHealth (Some 1) 2 (fire101\<lparr>primaryValue := - 75, critical := True\<rparr>),
        RemoveCombatCondition 2 CONDITION_NONE,
        AddMagicEffect 3 CONST_ME_CRITICAL_DAMAGE,
        CombatBlockHit (fire101\<lparr>primaryValue := - 152, critical := True, leeched := True\<rparr>)
          (Some 1) 3 False False False False,
        CombatChangeHealth (Some 1) 3
          (fire101\<lparr>primaryValue := - 152, critical := True, leeched := True\<rparr>),
        RemoveCombatCondition 3 CONDITION_NONE])
   \<and> doAreaCombat (pvpWorld 50 51) (Some 1) \<lparr>px = 0, py = 0, pz = 7\<rparr> [10, 11] fire101
       plainParams ((), [])
     = Some ((101, 2, fire101\<lparr>leeched := True\<rparr>), (),
         [UniformRandom, GetSpectators,
          CanDoCombatTile (Some 1) 10 True, CombatTileEffects (Some 1) 10,
          CanDoCombatCreature (Some 1) 2,
          CanDoCombatTile (Some 1) 11 True, CombatTileEffects (Some 1) 11,
          CanDoCombatCreature (Some 1) 3,
          CombatBlockHit (fire101\<lparr>primaryValue := - 50\<rparr>) (Some 1) 2 False False False False,
          CombatChangeHealth (Some 1) 2 (fire101\<lparr>primaryValue := - 50\<rparr>),
          RemoveCombatCondition 2 CONDITION_NONE,
          CombatBlockHit (fire101\<lparr>leeched := True\<rparr>) (Some 1) 3 False False False False,
          CombatChangeHealth (Some 1) 3 (fire101\<lparr>leeched := True\<rparr>),
          RemoveCombatCondition 3 CONDITION_NONE])
   \<and> \<not> critical fire101 \<and> primaryType fire101 \<noteq> COMBAT_HEALING
   \<and> origin fire101 \<noteq> ORIGIN_CONDITION \<and> uniform_random (pvpWorld 100 37) () = (37, ())
   \<and> areaCritical (pvpWorld 100 37) (Some 1) fire101 ((), [])
     = Some ((- 51, 0, fire101\<lparr>critical := True\<rparr>), ((), [UniformRandom]))
   \<and> areaStep (pvpWorld 100 37) plainParams (Some 1) (- 51) 0 2 (0, 0, fire101\<lparr>critical := True\<rparr>)
       ((), [])
     = Some ((75, 1, fire101\<lparr>critical := True, leeched := True\<rparr>),
             ((), [AddMagicEffect 2 CONST_ME_CRITICAL_DAMAGE,
                   CombatBlockHit (fire101\<lparr>primaryValue := - 75, critical := True\<rparr>) (Some 1) 2
                     False False False False,
                   CombatChangeHealth (Some 1) 2 (fire101\<lparr>primaryValue := - 75, critical := True\<rparr>),
                   RemoveCombatCondition 2 CONDITION_NONE]))
   \<and> (\<exists>scaled halved damageCopy.
         statScaling (pvpWorld 100 37) (casterPlayerOf (pvpWorld 100 37) (Some 1)) 230 (fire101\<lparr>critical := True\<rparr>)
           ((), []) = Some (scaled, ((), []))
         \<and> halved = scaled\<lparr>primaryValue := sgn (primaryValue scaled) * (\<bar>primaryValue scaled\<bar> div 2),
                            secondaryValue := sgn (secondaryValue scaled)
                                              * (\<bar>secondaryValue scaled\<bar> div 2)\<rparr>
         \<and> damageCopy = halved\<lparr>primaryValue := primaryValue halved + sgn (- 51) * (\<bar>- 51\<bar> div 2),
                                secondaryValue := secondaryValue halved + sgn 0 * (\<bar>0\<bar> div 2)\<rparr>
         \<and> damageCopy = fire101\<lparr>primaryValue := - 75, critical := True\<rparr>)"
proof -
  have 1: "doAreaCombat (pvpWorld 100 37) (Some 1) \<lparr>px = 0, py = 0, pz = 7\<rparr> [10, 11] fire101 plainParams
     ((), [])
   = Some ((152, 2, fire101\<lparr>critical := True, leeched := True\<rparr>), (),
       [UniformRandom, GetSpectators,
        CanDoCombatTile (Some 1) 10 True, CombatTileEffects (Some 1) 10,
        CanDoCombatCreature (Some 1) 2,
        CanDoCombatTile (Some 1) 11 True, CombatTileEffects (Some 1) 11,
        CanDoCombatCreature (Some 1) 3,
        AddMagicEffect 2 CONST_ME_CRITICAL_DAMAGE,
        CombatBlockHit (fire101\<lparr>primaryValue := - 75, critical := True\<rparr>) (Some 1) 2
          False False False False,
        CombatChangeHealth (Some 1) 2 (fire101\<lparr>primaryValue := - 75, critical := True\<rparr>),
        RemoveCombatCondition 2 CONDITION_NONE,
        AddMagicEffect 3 CONST_ME_CRITICAL_DAMAGE,
        CombatBlockHit (fire101\<lparr>primaryValue := - 152, critical := True, leeched := True\<rparr>)
          (Some 1) 3 False False False False,
        CombatChangeHealth (Some 1) 3
          (fire101\<lparr>primaryValue := - 152, critical := True, leeched := True\<rparr>),
        RemoveCombatCondition 3 CONDITION_NONE])"
    by (simp add: combat_eval world_eval monad_eval double_eval)
  have 2: "\<not> critical fire101 \<and> primaryType fire101 \<noteq> COMBAT_HEALING
      \<and> origin fire101 \<noteq> ORIGIN_CONDITION \<and> uniform_random (pvpWorld 100 37) () = (37, ())"
    by (simp add: world_eval)
  have 3: "areaStep (pvpWorld 100 37) plainParams (Some 1) (- 51) 0 2 (0, 0, fire101\<lparr>critical := True\<rparr>)
       ((), [])
     = Some ((75, 1, fire101\<lparr>critical := True, leeched := True\<rparr>),
             ((), [AddMagicEffect 2 CONST_ME_CRITICAL_DAMAGE,
                   CombatBlockHit (fire101\<lparr>primaryValue := - 75, critical := True\<rparr>) (Some 1) 2
                     False False False False,
                   CombatChangeHealth (Some 1) 2 (fire101\<lparr>primaryValue := - 75, critical := True\<rparr>),
                   RemoveCombatCondition 2 CONDITION_NONE]))"
    by (simp add: combat_eval world_eval monad_eval double_eval)
  have 4: "areaCritical (pvpWorld 100 37) (Some 1) fire101 ((), [])
     = Some ((- 51, 0, fire101\<lparr>critical := True\<rparr>), ((), [UniformRandom]))"
    using areaCritical_once [of "pvpWorld 100 37" _ _ _ fire101 _ "()" _ _ _ _ _ 37 "()" 1 "[]"] 2
    by (simp add: world_eval double_eval Let_def)
  have c: "critical (fire101\<lparr>critical := True\<rparr>)"
    "primaryType (fire101\<lparr>critical := True\<rparr>) \<noteq> COMBAT_MANADRAIN"
    "Some (1 :: nat) \<noteq> None" "casterPlayerOf (pvpWorld 100 37) (Some 1) = Some 1"
    "isPlayer (pvpWorld 100 37) 2" "getSkull (pvpWorld 100 37) () 2 \<noteq> SKULL_BLACK"
    by (simp_all add: world_eval casterPlayerOf_def)
  from areaCritical_once [THEN conjunct2, THEN conjunct2, THEN conjunct2, THEN mp, OF 3]
  obtain scaled reduced halved damageCopy where
    s: "statScaling (pvpWorld 100 37) (casterPlayerOf (pvpWorld 100 37) (Some 1)) 230 (fire101\<lparr>critical := True\<rparr>)
           ((), []) = Some (scaled, ((), []))"
    and r: "reduced = ((primaryValue scaled < 0 \<or> secondaryValue scaled < 0) \<and> Some (1 :: nat) \<noteq> None
                         \<and> casterPlayerOf (pvpWorld 100 37) (Some 1) \<noteq> None \<and> isPlayer (pvpWorld 100 37) 2
                         \<and> casterPlayerOf (pvpWorld 100 37) (Some 1) \<noteq> Some 2
                         \<and> getSkull (pvpWorld 100 37) () 2 \<noteq> SKULL_BLACK)"
    and h: "halved = (if reduced
                       then scaled\<lparr>primaryValue := sgn (primaryValue scaled)
                                                     * (\<bar>primaryValue scaled\<bar> div 2),
                                   secondaryValue := sgn (secondaryValue scaled)
                                                     * (\<bar>secondaryValue scaled\<bar> div 2)\<rparr>
                       else scaled)"
    and d: "damageCopy = (if critical (fire101\<lparr>critical := True\<rparr>)
                  then halved\<lparr>primaryValue := primaryValue halved
                                + (if reduced then sgn (- 51) * (\<bar>- 51\<bar> div 2) else - 51),
                              secondaryValue := secondaryValue halved
                                + (if reduced then sgn 0 * (\<bar>0\<bar> div 2) else 0)\<rparr>
                  else halved)"
    by blast
  have s': "scaled = fire101\<lparr>critical := True\<rparr>"
    using s by (simp add: combat_eval world_eval monad_eval double_eval)
  have r': "reduced" using r s' c by (simp add: world_eval)
  have d': "damageCopy = fire101\<lparr>primaryValue := - 75, critical := True\<rparr>"
    using d h r' s' by (simp add: world_eval)
  have 5: "\<exists>scaled halved damageCopy.
         statScaling (pvpWorld 100 37) (casterPlayerOf (pvpWorld 100 37) (Some 1)) 230 (fire101\<lparr>critical := True\<rparr>)
           ((), []) = Some (scaled, ((), []))
         \<and> halved = scaled\<lparr>primaryValue := sgn (primaryValue scaled) * (\<bar>primaryValue scaled\<bar> div 2),
                            secondaryValue := sgn (secondaryValue scaled)
                                              * (\<bar>secondaryValue scaled\<bar> div 2)\<rparr>
         \<and> damageCopy = halved\<lparr>primaryValue := primaryValue halved + sgn (- 51) * (\<bar>- 51\<bar> div 2),
                                secondaryValue := secondaryValue halved + sgn 0 * (\<bar>0\<bar> div 2)\<rparr>
         \<and> damageCopy = fire101\<lparr>primaryValue := - 75, critical := True\<rparr>"
    apply (rule exI [of _ scaled], rule exI [of _ halved], rule exI [of _ damageCopy])
    using s h d d' r' c by simp
  have 6: "doAreaCombat (pvpWorld 50 51) (Some 1) \<lparr>px = 0, py = 0, pz = 7\<rparr> [10, 11] fire101
       plainParams ((), [])
     = Some ((101, 2, fire101\<lparr>leeched := True\<rparr>), (),
         [UniformRandom, GetSpectators,
          CanDoCombatTile (Some 1) 10 True, CombatTileEffects (Some 1) 10,
          CanDoCombatCreature (Some 1) 2,
          CanDoCombatTile (Some 1) 11 True, CombatTileEffects (Some 1) 11,
          CanDoCombatCreature (Some 1) 3,
          CombatBlockHit (fire101\<lparr>primaryValue := - 50\<rparr>) (Some 1) 2 False False False False,
          CombatChangeHealth (Some 1) 2 (fire101\<lparr>primaryValue := - 50\<rparr>),
          RemoveCombatCondition 2 CONDITION_NONE,
          CombatBlockHit (fire101\<lparr>leeched := True\<rparr>) (Some 1) 3 False False False False,
          CombatChangeHealth (Some 1) 3 (fire101\<lparr>leeched := True\<rparr>),
          RemoveCombatCondition 3 CONDITION_NONE])"
    by (simp add: combat_eval world_eval monad_eval double_eval)
  from areaCritical_once [THEN conjunct1, THEN mp, OF 6]
  have 7: "\<exists>rest. UniformRandom \<notin> set rest" by blast
  show ?thesis using 1 2 3 4 5 6 7 by blast
qed

section \<open>Conditions without a combat type\<close>

text \<open>
  C10. With no combat type and an eligible target: when the origin is melee,
  \<^verbatim>\<open>doCombat\<close> reads the spectators, dispels, runs the tile effects, the target callback
  (when set) and the distance effect (with a caster and an effect), and adds no
  condition; when the origin is not melee, the conditions of the list the target is
  not immune to (all of them when caster and target are the same) are added before
  the dispel, in the order of the list, and the same calls follow.
\<close>

theorem doCombat_conditions_unless_melee:
  "(combatType params = COMBAT_NONE \<and> paramsOrigin params = ORIGIN_MELEE
    \<and> isEligible env params caster target (w, l) = Some (True, (w1, l1)) \<longrightarrow>
      (\<exists>w' tile. doCombat env caster target params (w, l) =
           Some ((), (w', l1 @ [GetSpectators, dispelCall target params,
                                CombatTileEffects caster tile]
                          @ callbackCalls caster target params
                          @ distanceCalls caster target params))))
   \<and> (combatType params = COMBAT_NONE \<and> paramsOrigin params \<noteq> ORIGIN_MELEE
    \<and> isEligible env params (Some c) target (w, l) = Some (True, (w1, l1))
    \<and> (\<forall>w1 w2 ty. isImmune env w1 target ty = isImmune env w2 target ty) \<longrightarrow>
      (\<exists>w' tile. doCombat env (Some c) target params (w, l) =
           Some ((), (w', l1 @ GetSpectators
                          # map (\<lambda>condition. AddCombatCondition target condition (Some c))
                              (filter (\<lambda>condition. c = target
                                 \<or> \<not> isImmune env w target (conditionType condition))
                                 (conditionList params))
                          @ [dispelCall target params, CombatTileEffects (Some c) tile]
                          @ callbackCalls (Some c) target params
                          @ distanceCalls (Some c) target params))))
   \<and> (\<forall>condition owner. AddCombatCondition target condition owner
         \<notin> set ([GetSpectators, dispelCall target params, CombatTileEffects caster tile]
                  @ callbackCalls caster target params @ distanceCalls caster target params))"
proof (intro conjI impI)
  assume a: "combatType params = COMBAT_NONE \<and> paramsOrigin params = ORIGIN_MELEE
    \<and> isEligible env params caster target (w, l) = Some (True, (w1, l1))"
  show "\<exists>w' tile. doCombat env caster target params (w, l) =
           Some ((), (w', l1 @ [GetSpectators, dispelCall target params,
                                CombatTileEffects caster tile]
                          @ callbackCalls caster target params
                          @ distanceCalls caster target params))"
    by (rule doCombat_melee) (use a in blast)+
next
  assume a: "combatType params = COMBAT_NONE \<and> paramsOrigin params \<noteq> ORIGIN_MELEE
    \<and> isEligible env params (Some c) target (w, l) = Some (True, (w1, l1))
    \<and> (\<forall>w1 w2 ty. isImmune env w1 target ty = isImmune env w2 target ty)"
  show "\<exists>w' tile. doCombat env (Some c) target params (w, l) =
           Some ((), (w', l1 @ GetSpectators
                          # map (\<lambda>condition. AddCombatCondition target condition (Some c))
                              (filter (\<lambda>condition. c = target
                                 \<or> \<not> isImmune env w target (conditionType condition))
                                 (conditionList params))
                          @ [dispelCall target params, CombatTileEffects (Some c) tile]
                          @ callbackCalls (Some c) target params
                          @ distanceCalls (Some c) target params))"
    by (rule doCombat_not_melee) (use a in blast)+
next
  show "\<forall>condition owner. AddCombatCondition target condition owner
         \<notin> set ([GetSpectators, dispelCall target params, CombatTileEffects caster tile]
                  @ callbackCalls caster target params @ distanceCalls caster target params)"
    by (auto simp: dispelCall_def callbackCalls_def distanceCalls_def split: option.splits if_splits)
qed

theorem doCombat_conditions_unless_melee_witness:
  "isEligible critWorld (touchParams ORIGIN_MELEE) (Some 1) 2 ((), [])
     = Some (True, ((), [CanDoCombatCreature (Some 1) 2]))
   \<and> doCombat critWorld (Some 1) 2 (touchParams ORIGIN_MELEE) ((), [])
     = Some ((), ((), [CanDoCombatCreature (Some 1) 2, GetSpectators,
                       RemoveCombatCondition 2 CONDITION_NONE,
                       CombatTileEffects (Some 1) 2,
                       OnTargetCombat (Some 1) 2,
                       AddDistanceEffect 1 (ToCreature 2) (CONST_ANI_OTHER 3)]))
   \<and> doCombat critWorld (Some 1) 2 (touchParams ORIGIN_SPELL) ((), [])
     = Some ((), ((), [CanDoCombatCreature (Some 1) 2, GetSpectators,
                       AddCombatCondition 2 burning (Some 1),
                       RemoveCombatCondition 2 CONDITION_NONE,
                       CombatTileEffects (Some 1) 2,
                       OnTargetCombat (Some 1) 2,
                       AddDistanceEffect 1 (ToCreature 2) (CONST_ANI_OTHER 3)]))"
proof -
  have 1: "isEligible critWorld (touchParams org) (Some 1) 2 ((), [])
     = Some (True, ((), [CanDoCombatCreature (Some 1) 2]))" for org
    by (simp add: combat_eval world_eval monad_eval touchParams_def)
  have 2: "combatType (touchParams org) = COMBAT_NONE" "paramsOrigin (touchParams org) = org" for org
    by (simp_all add: touchParams_def world_eval)
  have 3: "\<forall>w1 w2 ty. isImmune critWorld w1 2 ty = isImmune critWorld w2 2 ty"
    by (simp add: world_eval)
  from doCombat_conditions_unless_melee [of "touchParams ORIGIN_MELEE" critWorld "Some 1" 2
      "()" "[]" "()" "[CanDoCombatCreature (Some 1) 2]"] 1 2
  have m: "doCombat critWorld (Some 1) 2 (touchParams ORIGIN_MELEE) ((), [])
     = Some ((), ((), [CanDoCombatCreature (Some 1) 2, GetSpectators,
                       RemoveCombatCondition 2 CONDITION_NONE,
                       CombatTileEffects (Some 1) 2,
                       OnTargetCombat (Some 1) 2,
                       AddDistanceEffect 1 (ToCreature 2) (CONST_ANI_OTHER 3)]))"
    by (simp add: combat_eval world_eval monad_eval touchParams_def)
  have s: "doCombat critWorld (Some 1) 2 (touchParams ORIGIN_SPELL) ((), [])
     = Some ((), ((), [CanDoCombatCreature (Some 1) 2, GetSpectators,
                       AddCombatCondition 2 burning (Some 1),
                       RemoveCombatCondition 2 CONDITION_NONE,
                       CombatTileEffects (Some 1) 2,
                       OnTargetCombat (Some 1) 2,
                       AddDistanceEffect 1 (ToCreature 2) (CONST_ANI_OTHER 3)]))"
    by (simp add: combat_eval world_eval monad_eval touchParams_def)
  show ?thesis using 1 m s by simp
qed

end
